theory Spec2Isabelle
  imports Main "HOL-Library.Word" "HOL-Library.List_Lexorder"
begin

section \<open>Buffers, columns and errors\<close>

text \<open>
  A \<open>WriteBuffer\<close> is the list of bytes written so far, a \<open>ReadBuffer\<close> the list of
  bytes still to be read. An output column is the list of the values inserted so far.
  Every exception the code can raise is a value of \<open>error\<close>.
\<close>

type_synonym byte = "8 word"

datatype error =
    ILLEGAL_TYPE_OF_ARGUMENT string
  | CANNOT_READ_ALL_DATA

section \<open>The interface of a value slot\<close>

text \<open>
  The policies are templates over the slot type \<open>Data\<close>. The template parameter is a
  record of the member functions a slot offers: \<open>'d\<close> is the slot's state, \<open>'v\<close> the
  value found at \<open>column[row_num]\<close>, \<open>'c\<close> the element type of the result column.
  The overloads on \<open>(column, row_num)\<close> are suffixed \<open>_row\<close>, the overloads on
  \<open>const Self &\<close> are suffixed \<open>_state\<close>. A member that returns \<open>bool\<close> and mutates
  \<open>this\<close> returns the pair of the flag and the new state.
\<close>

record ('d, 'v, 'c) Data =
  has :: "'d \<Rightarrow> bool"
  insertResultInto :: "'d \<Rightarrow> 'c list \<Rightarrow> 'c list"
  write_buf :: "'d \<Rightarrow> byte list \<Rightarrow> byte list"
  read_buf :: "'d \<Rightarrow> byte list \<Rightarrow> error + ('d \<times> byte list)"
  change_row :: "'d \<Rightarrow> 'v \<Rightarrow> 'd"
  change_state :: "'d \<Rightarrow> 'd \<Rightarrow> 'd"
  changeFirstTime_row :: "'d \<Rightarrow> 'v \<Rightarrow> bool \<times> 'd"
  changeFirstTime_state :: "'d \<Rightarrow> 'd \<Rightarrow> bool \<times> 'd"
  changeEveryTime_row :: "'d \<Rightarrow> 'v \<Rightarrow> bool \<times> 'd"
  changeEveryTime_state :: "'d \<Rightarrow> 'd \<Rightarrow> bool \<times> 'd"
  changeIfLess_row :: "'d \<Rightarrow> 'v \<Rightarrow> bool \<times> 'd"
  changeIfLess_state :: "'d \<Rightarrow> 'd \<Rightarrow> bool \<times> 'd"
  changeIfGreater_row :: "'d \<Rightarrow> 'v \<Rightarrow> bool \<times> 'd"
  changeIfGreater_state :: "'d \<Rightarrow> 'd \<Rightarrow> bool \<times> 'd"
  isEqualTo_state :: "'d \<Rightarrow> 'd \<Rightarrow> bool"
  isEqualTo_row :: "'d \<Rightarrow> 'v \<Rightarrow> bool"
  allocatesMemoryInArena :: bool

section \<open>SingleValueDataFixed\<close>

text \<open>
  \<open>value\<close> has no initialiser in the source: a fresh state holds \<open>has_value = false\<close>
  and whatever the memory held, here the parameter \<open>g\<close>. \<open>writeBinary\<close> and
  \<open>readBinary\<close> on \<open>T\<close> come from the IO helpers and are parameters \<open>enc\<close> and \<open>dec\<close>;
  \<open>dec\<close> returns \<open>None\<close> where the buffer ends too early. The comparisons are the \<open><\<close>
  and \<open>>\<close> of \<open>T\<close>, whatever they are: a linear order on the integer types, and not one
  on the floating-point types, where a NaN compares false with every value.
\<close>

record 'a SingleValueDataFixed =
  has_value :: bool
  value_T :: 'a

definition Fixed_init :: "'a \<Rightarrow> 'a SingleValueDataFixed" where
  "Fixed_init g = \<lparr>has_value = False, value_T = g\<rparr>"

definition Fixed_has :: "'a SingleValueDataFixed \<Rightarrow> bool" where
  "Fixed_has s = has_value s"

text \<open>Modelled from the spec: \<open>insertDefault\<close> on a numeric column inserts the
  type-appropriate default, the zero of \<open>T\<close>.\<close>

definition Fixed_insertResultInto :: "('a::zero) SingleValueDataFixed \<Rightarrow> 'a list \<Rightarrow> 'a list" where
  "Fixed_insertResultInto s to =
     (if Fixed_has s then to @ [value_T s] else to @ [0])"

text \<open>The bytes of a value of \<open>n\<close> bytes, lowest byte first, and the value of such
  bytes: how the little-endian hosts the server runs on lay out an integer.\<close>

fun bytes_le :: "nat \<Rightarrow> nat \<Rightarrow> byte list" where
  "bytes_le 0 x = []"
| "bytes_le (Suc n) x = word_of_nat (x mod 256) # bytes_le n (x div 256)"

fun value_le :: "byte list \<Rightarrow> nat" where
  "value_le [] = 0"
| "value_le (b # bs) = unat b + 256 * value_le bs"

text \<open>A \<open>bool\<close> is written as the byte 1 or 0. \<open>readBinary\<close> copies one byte into the
  \<open>bool\<close>. A byte other than 0 and 1 is no value of \<open>bool\<close>, and no state that the
  operations build is written with one; the model reads such a byte as true, as \<open>has()\<close>
  does, and does not keep the byte itself.\<close>

definition writeBinary_bool :: "bool \<Rightarrow> byte list \<Rightarrow> byte list" where
  "writeBinary_bool b buf = buf @ [if b then 1 else 0]"

definition readBinary_bool :: "byte list \<Rightarrow> error + (bool \<times> byte list)" where
  "readBinary_bool buf =
     (case buf of [] \<Rightarrow> Inl CANNOT_READ_ALL_DATA | b # rest \<Rightarrow> Inr (b \<noteq> 0, rest))"

definition Fixed_write :: "('a \<Rightarrow> byte list) \<Rightarrow> 'a SingleValueDataFixed \<Rightarrow> byte list \<Rightarrow> byte list" where
  "Fixed_write enc s buf =
     (let buf1 = writeBinary_bool (Fixed_has s) buf
      in if Fixed_has s then buf1 @ enc (value_T s) else buf1)"

definition Fixed_read ::
  "(byte list \<Rightarrow> ('a \<times> byte list) option) \<Rightarrow> 'a SingleValueDataFixed \<Rightarrow> byte list
     \<Rightarrow> error + ('a SingleValueDataFixed \<times> byte list)" where
  "Fixed_read dec s buf =
     (case readBinary_bool buf of
        Inl e \<Rightarrow> Inl e
      | Inr (h, rest) \<Rightarrow>
          (let s1 = s\<lparr>has_value := h\<rparr>
           in if Fixed_has s1
              then (case dec rest of
                      None \<Rightarrow> Inl CANNOT_READ_ALL_DATA
                    | Some (v, rest') \<Rightarrow> Inr (s1\<lparr>value_T := v\<rparr>, rest'))
              else Inr (s1, rest)))"

definition Fixed_change_row :: "'a SingleValueDataFixed \<Rightarrow> 'a \<Rightarrow> 'a SingleValueDataFixed" where
  "Fixed_change_row s v = s\<lparr>has_value := True, value_T := v\<rparr>"

definition Fixed_change_state ::
  "'a SingleValueDataFixed \<Rightarrow> 'a SingleValueDataFixed \<Rightarrow> 'a SingleValueDataFixed" where
  "Fixed_change_state s to = s\<lparr>has_value := True, value_T := value_T to\<rparr>"

definition Fixed_changeFirstTime_row ::
  "'a SingleValueDataFixed \<Rightarrow> 'a \<Rightarrow> bool \<times> 'a SingleValueDataFixed" where
  "Fixed_changeFirstTime_row s v =
     (if \<not> Fixed_has s then (True, Fixed_change_row s v) else (False, s))"

definition Fixed_changeFirstTime_state ::
  "'a SingleValueDataFixed \<Rightarrow> 'a SingleValueDataFixed \<Rightarrow> bool \<times> 'a SingleValueDataFixed" where
  "Fixed_changeFirstTime_state s to =
     (if \<not> Fixed_has s \<and> Fixed_has to then (True, Fixed_change_state s to) else (False, s))"

definition Fixed_changeEveryTime_row ::
  "'a SingleValueDataFixed \<Rightarrow> 'a \<Rightarrow> bool \<times> 'a SingleValueDataFixed" where
  "Fixed_changeEveryTime_row s v = (True, Fixed_change_row s v)"

definition Fixed_changeEveryTime_state ::
  "'a SingleValueDataFixed \<Rightarrow> 'a SingleValueDataFixed \<Rightarrow> bool \<times> 'a SingleValueDataFixed" where
  "Fixed_changeEveryTime_state s to =
     (if Fixed_has to then (True, Fixed_change_state s to) else (False, s))"

definition Fixed_changeIfLess_row ::
  "('a::ord) SingleValueDataFixed \<Rightarrow> 'a \<Rightarrow> bool \<times> 'a SingleValueDataFixed" where
  "Fixed_changeIfLess_row s v =
     (if \<not> Fixed_has s \<or> v < value_T s then (True, Fixed_change_row s v) else (False, s))"

definition Fixed_changeIfLess_state ::
  "('a::ord) SingleValueDataFixed \<Rightarrow> 'a SingleValueDataFixed
     \<Rightarrow> bool \<times> 'a SingleValueDataFixed" where
  "Fixed_changeIfLess_state s to =
     (if Fixed_has to \<and> (\<not> Fixed_has s \<or> value_T to < value_T s)
      then (True, Fixed_change_state s to) else (False, s))"

definition Fixed_changeIfGreater_row ::
  "('a::ord) SingleValueDataFixed \<Rightarrow> 'a \<Rightarrow> bool \<times> 'a SingleValueDataFixed" where
  "Fixed_changeIfGreater_row s v =
     (if \<not> Fixed_has s \<or> v > value_T s then (True, Fixed_change_row s v) else (False, s))"

definition Fixed_changeIfGreater_state ::
  "('a::ord) SingleValueDataFixed \<Rightarrow> 'a SingleValueDataFixed
     \<Rightarrow> bool \<times> 'a SingleValueDataFixed" where
  "Fixed_changeIfGreater_state s to =
     (if Fixed_has to \<and> (\<not> Fixed_has s \<or> value_T to > value_T s)
      then (True, Fixed_change_state s to) else (False, s))"

definition Fixed_isEqualTo_state ::
  "'a SingleValueDataFixed \<Rightarrow> 'a SingleValueDataFixed \<Rightarrow> bool" where
  "Fixed_isEqualTo_state s to = (Fixed_has s \<and> value_T to = value_T s)"

definition Fixed_isEqualTo_row :: "'a SingleValueDataFixed \<Rightarrow> 'a \<Rightarrow> bool" where
  "Fixed_isEqualTo_row s v = (Fixed_has s \<and> v = value_T s)"

definition SingleValueDataFixed ::
  "('a \<Rightarrow> byte list) \<Rightarrow> (byte list \<Rightarrow> ('a \<times> byte list) option)
     \<Rightarrow> (('a::{ord,zero}) SingleValueDataFixed, 'a, 'a) Data" where
  "SingleValueDataFixed enc dec =
     \<lparr>has = Fixed_has,
      insertResultInto = Fixed_insertResultInto,
      write_buf = Fixed_write enc,
      read_buf = Fixed_read dec,
      change_row = Fixed_change_row,
      change_state = Fixed_change_state,
      changeFirstTime_row = Fixed_changeFirstTime_row,
      changeFirstTime_state = Fixed_changeFirstTime_state,
      changeEveryTime_row = Fixed_changeEveryTime_row,
      changeEveryTime_state = Fixed_changeEveryTime_state,
      changeIfLess_row = Fixed_changeIfLess_row,
      changeIfLess_state = Fixed_changeIfLess_state,
      changeIfGreater_row = Fixed_changeIfGreater_row,
      changeIfGreater_state = Fixed_changeIfGreater_state,
      isEqualTo_state = Fixed_isEqualTo_state,
      isEqualTo_row = Fixed_isEqualTo_row,
      allocatesMemoryInArena = False\<rparr>"

section \<open>SingleValueDataString\<close>

text \<open>
  \<open>size\<close> and \<open>capacity\<close> are \<open>Int32\<close>: integers, with every conversion of the
  source written out. \<open>static_cast_Int32\<close> keeps the low 32 bits and reads them as
  two's complement; \<open>size_t_of_Int32\<close> is the implicit conversion of an \<open>Int32\<close> to
  \<open>size_t\<close> on a 64-bit host. A \<open>char\<close> buffer is the list of the bytes from its
  first one on: \<open>small_data\<close> has \<open>MAX_SMALL_STRING_SIZE\<close> bytes, \<open>large_data\<close> the
  bytes the arena gave.
\<close>

definition static_cast_Int32 :: "int \<Rightarrow> int" where
  "static_cast_Int32 i = (i + 2 ^ 31) mod 2 ^ 32 - 2 ^ 31"

definition size_t_of_Int32 :: "int \<Rightarrow> nat" where
  "size_t_of_Int32 i = nat (i mod 2 ^ 64)"

definition AUTOMATIC_STORAGE_SIZE :: int where
  "AUTOMATIC_STORAGE_SIZE = 64"

text \<open>\<open>sizeof(size) = sizeof(capacity) = 4\<close> and \<open>sizeof(large_data) = 8\<close>; the
  \<open>static_assert\<close> of the source fixes the size of the struct to 64 bytes.\<close>

definition MAX_SMALL_STRING_SIZE :: int where
  "MAX_SMALL_STRING_SIZE = AUTOMATIC_STORAGE_SIZE - 4 - 4 - 8"

record SingleValueDataString =
  ssize :: int
  capacity :: int
  large_data :: "byte list"
  small_data :: "byte list"

text \<open>A fresh state: \<open>size = -1\<close>, \<open>capacity = 0\<close>; \<open>large_data\<close> points nowhere and
  \<open>small_data\<close> holds whatever the memory held, here the parameter \<open>g\<close>.\<close>

definition String_init :: "byte list \<Rightarrow> SingleValueDataString" where
  "String_init g = \<lparr>ssize = -1, capacity = 0, large_data = [], small_data = g\<rparr>"

text \<open>Modelled from the spec: \<open>StringRef\<close> (base/StringRef.h) is a pointer and a
  \<open>size_t\<close> length; its comparisons are the value type's natural total order, the
  order of \<open>memcmp\<close> on the common prefix and then of the lengths, and equality is
  equality of the lengths and of the bytes.\<close>

record StringRef =
  ref_data :: "byte list"
  ref_size :: nat

definition StringRef_bytes :: "StringRef \<Rightarrow> byte list" where
  "StringRef_bytes r = take (ref_size r) (ref_data r)"

fun memcmp :: "byte list \<Rightarrow> byte list \<Rightarrow> nat \<Rightarrow> int" where
  "memcmp (a # as) (b # bs) (Suc n) =
     (if a < b then - 1 else if b < a then 1 else memcmp as bs n)"
| "memcmp _ _ _ = 0"

definition StringRef_less :: "StringRef \<Rightarrow> StringRef \<Rightarrow> bool" where
  "StringRef_less lhs rhs =
     (let cmp = memcmp (ref_data lhs) (ref_data rhs) (min (ref_size lhs) (ref_size rhs))
      in cmp < 0 \<or> (cmp = 0 \<and> ref_size lhs < ref_size rhs))"

definition StringRef_greater :: "StringRef \<Rightarrow> StringRef \<Rightarrow> bool" where
  "StringRef_greater lhs rhs =
     (let cmp = memcmp (ref_data lhs) (ref_data rhs) (min (ref_size lhs) (ref_size rhs))
      in cmp > 0 \<or> (cmp = 0 \<and> ref_size lhs > ref_size rhs))"

definition StringRef_equal :: "StringRef \<Rightarrow> StringRef \<Rightarrow> bool" where
  "StringRef_equal lhs rhs =
     (if ref_size lhs \<noteq> ref_size rhs then False
      else if ref_size lhs = 0 then True
      else memcmp (ref_data lhs) (ref_data rhs) (ref_size lhs) = 0)"

text \<open>\<open>getDataAt(row_num)\<close> of a string column: the bytes of the row and their number.\<close>

definition getDataAt :: "byte list \<Rightarrow> StringRef" where
  "getDataAt v = \<lparr>ref_data = v, ref_size = length v\<rparr>"

text \<open>\<open>memcpy(dst, src, n)\<close>: the first \<open>n\<close> bytes of \<open>dst\<close> become those of \<open>src\<close>.\<close>

definition memcpy :: "byte list \<Rightarrow> byte list \<Rightarrow> nat \<Rightarrow> byte list" where
  "memcpy dst src n = take n src @ drop n dst"

text \<open>Modelled from the spec: the arena capability \<open>alloc(n)\<close> returns a buffer of
  \<open>n\<close> bytes; what a fresh buffer holds is not specified, here zero bytes.\<close>

definition Arena_alloc :: "nat \<Rightarrow> byte list" where
  "Arena_alloc n = replicate n 0"

text \<open>Modelled from the spec: \<open>roundUpToPowerOfTwoOrZero\<close> is the next power of two
  greater than or equal to its argument, and zero for zero.\<close>

function roundUp_from :: "nat \<Rightarrow> nat \<Rightarrow> nat" where
  "roundUp_from p n = (if p = 0 \<or> n \<le> p then p else roundUp_from (2 * p) n)"
  by pat_completeness auto
termination
  by (relation "measure (\<lambda>(p, n). n - p)") auto

declare roundUp_from.simps [simp del]

definition roundUpToPowerOfTwoOrZero :: "nat \<Rightarrow> nat" where
  "roundUpToPowerOfTwoOrZero n = (if n = 0 then 0 else roundUp_from 1 n)"

definition String_has :: "SingleValueDataString \<Rightarrow> bool" where
  "String_has s = (ssize s \<ge> 1)"

definition getData :: "SingleValueDataString \<Rightarrow> byte list" where
  "getData s = (if ssize s \<le> MAX_SMALL_STRING_SIZE then small_data s else large_data s)"

definition getStringRef :: "SingleValueDataString \<Rightarrow> StringRef" where
  "getStringRef s = \<lparr>ref_data = getData s, ref_size = size_t_of_Int32 (ssize s)\<rparr>"

text \<open>Modelled from the spec: \<open>insertData(data, n)\<close> on a string column inserts the
  \<open>n\<close> bytes at \<open>data\<close>, \<open>insertDefault\<close> the empty string.\<close>

definition String_insertResultInto ::
  "SingleValueDataString \<Rightarrow> byte list list \<Rightarrow> byte list list" where
  "String_insertResultInto s to =
     (if String_has s
      then (let data = getData s;
                final_size = (if data ! nat (ssize s - 1) \<noteq> 0
                              then size_t_of_Int32 (ssize s)
                              else size_t_of_Int32 (ssize s - 1))
            in if final_size \<noteq> 0 then to @ [take final_size data] else to @ [[]])
      else to @ [[]])"

text \<open>\<open>writeBinary\<close> and \<open>readBinary\<close> on \<open>Int32\<close> copy the four bytes of the value,
  lowest byte first.\<close>

definition writeBinary_Int32 :: "int \<Rightarrow> byte list \<Rightarrow> byte list" where
  "writeBinary_Int32 x buf = buf @ bytes_le 4 (nat (x mod 2 ^ 32))"

definition readBinary_Int32 :: "byte list \<Rightarrow> error + (int \<times> byte list)" where
  "readBinary_Int32 buf =
     (if length buf < 4 then Inl CANNOT_READ_ALL_DATA
      else Inr (static_cast_Int32 (int (value_le (take 4 buf))), drop 4 buf))"

definition readStrict :: "byte list \<Rightarrow> nat \<Rightarrow> error + (byte list \<times> byte list)" where
  "readStrict buf n =
     (if length buf < n then Inl CANNOT_READ_ALL_DATA else Inr (take n buf, drop n buf))"

definition String_write :: "SingleValueDataString \<Rightarrow> byte list \<Rightarrow> byte list" where
  "String_write s buf =
     (if \<not> String_has s
      then writeBinary_Int32 1 buf @ [0]
      else (let data = getData s
            in if data ! nat (ssize s - 1) \<noteq> 0
               then writeBinary_Int32 (ssize s + 1) buf
                      @ take (size_t_of_Int32 (ssize s)) data @ [0]
               else writeBinary_Int32 (ssize s) buf
                      @ take (size_t_of_Int32 (ssize s)) data))"

definition String_read ::
  "SingleValueDataString \<Rightarrow> byte list \<Rightarrow> error + (SingleValueDataString \<times> byte list)" where
  "String_read s buf =
     (case readBinary_Int32 buf of
        Inl e \<Rightarrow> Inl e
      | Inr (rhs_size, rest) \<Rightarrow>
          if rhs_size \<ge> 0
          then (if rhs_size \<le> MAX_SMALL_STRING_SIZE
                then (let s1 = s\<lparr>ssize := rhs_size\<rparr>
                      in if ssize s1 > 0
                         then (case readStrict rest (size_t_of_Int32 (ssize s1)) of
                                 Inl e \<Rightarrow> Inl e
                               | Inr (bytes, rest') \<Rightarrow>
                                   Inr (s1\<lparr>small_data :=
                                          memcpy (small_data s1) bytes (length bytes)\<rparr>, rest'))
                         else Inr (s1, rest))
                else (let s1 = (if capacity s < rhs_size
                                then (let c = static_cast_Int32
                                                (int (roundUpToPowerOfTwoOrZero
                                                        (size_t_of_Int32 rhs_size)))
                                      in s\<lparr>capacity := c,
                                           large_data := Arena_alloc (size_t_of_Int32 c)\<rparr>)
                                else s);
                          s2 = s1\<lparr>ssize := rhs_size\<rparr>
                      in case readStrict rest (size_t_of_Int32 (ssize s2)) of
                           Inl e \<Rightarrow> Inl e
                         | Inr (bytes, rest') \<Rightarrow>
                             Inr (s2\<lparr>large_data :=
                                    memcpy (large_data s2) bytes (length bytes)\<rparr>, rest')))
          else Inr (s\<lparr>ssize := rhs_size\<rparr>, rest))"

definition String_changeImpl :: "SingleValueDataString \<Rightarrow> StringRef \<Rightarrow> SingleValueDataString" where
  "String_changeImpl s v =
     (let value_size = static_cast_Int32 (int (ref_size v))
      in if value_size \<le> MAX_SMALL_STRING_SIZE
         then (let s1 = s\<lparr>ssize := value_size\<rparr>
               in if ssize s1 > 0
                  then s1\<lparr>small_data :=
                         memcpy (small_data s1) (ref_data v) (size_t_of_Int32 (ssize s1))\<rparr>
                  else s1)
         else (let s1 = (if capacity s < value_size
                         then (let c = static_cast_Int32
                                         (int (roundUpToPowerOfTwoOrZero
                                                 (size_t_of_Int32 value_size)))
                               in s\<lparr>capacity := c,
                                    large_data := Arena_alloc (size_t_of_Int32 c)\<rparr>)
                         else s);
                   s2 = s1\<lparr>ssize := value_size\<rparr>
               in s2\<lparr>large_data :=
                      memcpy (large_data s2) (ref_data v) (size_t_of_Int32 (ssize s2))\<rparr>))"

definition String_change_row :: "SingleValueDataString \<Rightarrow> byte list \<Rightarrow> SingleValueDataString" where
  "String_change_row s v = String_changeImpl s (getDataAt v)"

definition String_change_state ::
  "SingleValueDataString \<Rightarrow> SingleValueDataString \<Rightarrow> SingleValueDataString" where
  "String_change_state s to = String_changeImpl s (getStringRef to)"

definition String_changeFirstTime_row ::
  "SingleValueDataString \<Rightarrow> byte list \<Rightarrow> bool \<times> SingleValueDataString" where
  "String_changeFirstTime_row s v =
     (if \<not> String_has s then (True, String_change_row s v) else (False, s))"

definition String_changeFirstTime_state ::
  "SingleValueDataString \<Rightarrow> SingleValueDataString \<Rightarrow> bool \<times> SingleValueDataString" where
  "String_changeFirstTime_state s to =
     (if \<not> String_has s \<and> String_has to then (True, String_change_state s to) else (False, s))"

definition String_changeEveryTime_row ::
  "SingleValueDataString \<Rightarrow> byte list \<Rightarrow> bool \<times> SingleValueDataString" where
  "String_changeEveryTime_row s v = (True, String_change_row s v)"

definition String_changeEveryTime_state ::
  "SingleValueDataString \<Rightarrow> SingleValueDataString \<Rightarrow> bool \<times> SingleValueDataString" where
  "String_changeEveryTime_state s to =
     (if String_has to then (True, String_change_state s to) else (False, s))"

definition String_changeIfLess_row ::
  "SingleValueDataString \<Rightarrow> byte list \<Rightarrow> bool \<times> SingleValueDataString" where
  "String_changeIfLess_row s v =
     (if \<not> String_has s \<or> StringRef_less (getDataAt v) (getStringRef s)
      then (True, String_change_row s v) else (False, s))"

definition String_changeIfLess_state ::
  "SingleValueDataString \<Rightarrow> SingleValueDataString \<Rightarrow> bool \<times> SingleValueDataString" where
  "String_changeIfLess_state s to =
     (if String_has to \<and> (\<not> String_has s \<or> StringRef_less (getStringRef to) (getStringRef s))
      then (True, String_change_state s to) else (False, s))"

definition String_changeIfGreater_row ::
  "SingleValueDataString \<Rightarrow> byte list \<Rightarrow> bool \<times> SingleValueDataString" where
  "String_changeIfGreater_row s v =
     (if \<not> String_has s \<or> StringRef_greater (getDataAt v) (getStringRef s)
      then (True, String_change_row s v) else (False, s))"

definition String_changeIfGreater_state ::
  "SingleValueDataString \<Rightarrow> SingleValueDataString \<Rightarrow> bool \<times> SingleValueDataString" where
  "String_changeIfGreater_state s to =
     (if String_has to \<and> (\<not> String_has s \<or> StringRef_greater (getStringRef to) (getStringRef s))
      then (True, String_change_state s to) else (False, s))"

definition String_isEqualTo_state :: "SingleValueDataString \<Rightarrow> SingleValueDataString \<Rightarrow> bool" where
  "String_isEqualTo_state s to =
     (String_has s \<and> StringRef_equal (getStringRef to) (getStringRef s))"

definition String_isEqualTo_row :: "SingleValueDataString \<Rightarrow> byte list \<Rightarrow> bool" where
  "String_isEqualTo_row s v =
     (String_has s \<and> StringRef_equal (getDataAt v) (getStringRef s))"

definition SingleValueDataString ::
  "(SingleValueDataString, byte list, byte list) Data" where
  "SingleValueDataString =
     \<lparr>has = String_has,
      insertResultInto = String_insertResultInto,
      write_buf = String_write,
      read_buf = String_read,
      change_row = String_change_row,
      change_state = String_change_state,
      changeFirstTime_row = String_changeFirstTime_row,
      changeFirstTime_state = String_changeFirstTime_state,
      changeEveryTime_row = String_changeEveryTime_row,
      changeEveryTime_state = String_changeEveryTime_state,
      changeIfLess_row = String_changeIfLess_row,
      changeIfLess_state = String_changeIfLess_state,
      changeIfGreater_row = String_changeIfGreater_row,
      changeIfGreater_state = String_changeIfGreater_state,
      isEqualTo_state = String_isEqualTo_state,
      isEqualTo_row = String_isEqualTo_row,
      allocatesMemoryInArena = True\<rparr>"

section \<open>SingleValueDataGeneric\<close>

text \<open>Modelled from the spec: a \<open>Field\<close> is one boxed value of the value type or the
  distinguished null; ordering and equality are the value's own, and the null sorts
  before every value. The serialization of the value type is the pair of parameters
  \<open>ser\<close> and \<open>deser\<close>; \<open>insert\<close> on the result column inserts the boxed value,
  \<open>insertDefault\<close> the default \<open>dflt\<close> of the type.\<close>

datatype 'f Field = Null | Val 'f

fun Field_less :: "('f::ord) Field \<Rightarrow> 'f Field \<Rightarrow> bool" where
  "Field_less Null Null = False"
| "Field_less Null (Val y) = True"
| "Field_less (Val x) Null = False"
| "Field_less (Val x) (Val y) = (x < y)"

definition Field_greater :: "('f::ord) Field \<Rightarrow> 'f Field \<Rightarrow> bool" where
  "Field_greater a b = Field_less b a"

record 'f SingleValueDataGeneric =
  value_Field :: "'f Field"

definition Generic_init :: "'f SingleValueDataGeneric" where
  "Generic_init = \<lparr>value_Field = Null\<rparr>"

definition Generic_has :: "'f SingleValueDataGeneric \<Rightarrow> bool" where
  "Generic_has s = (value_Field s \<noteq> Null)"

definition Generic_insertResultInto :: "'f \<Rightarrow> 'f SingleValueDataGeneric \<Rightarrow> 'f list \<Rightarrow> 'f list" where
  "Generic_insertResultInto dflt s to =
     (case value_Field s of Val x \<Rightarrow> to @ [x] | Null \<Rightarrow> to @ [dflt])"

definition Generic_write ::
  "('f Field \<Rightarrow> byte list) \<Rightarrow> 'f SingleValueDataGeneric \<Rightarrow> byte list \<Rightarrow> byte list" where
  "Generic_write ser s buf =
     (if value_Field s \<noteq> Null
      then writeBinary_bool True buf @ ser (value_Field s)
      else writeBinary_bool False buf)"

definition Generic_read ::
  "(byte list \<Rightarrow> ('f Field \<times> byte list) option) \<Rightarrow> 'f SingleValueDataGeneric \<Rightarrow> byte list
     \<Rightarrow> error + ('f SingleValueDataGeneric \<times> byte list)" where
  "Generic_read deser s buf =
     (case readBinary_bool buf of
        Inl e \<Rightarrow> Inl e
      | Inr (is_not_null, rest) \<Rightarrow>
          if is_not_null
          then (case deser rest of
                  None \<Rightarrow> Inl CANNOT_READ_ALL_DATA
                | Some (v, rest') \<Rightarrow> Inr (s\<lparr>value_Field := v\<rparr>, rest'))
          else Inr (s, rest))"

definition Generic_change_row ::
  "'f SingleValueDataGeneric \<Rightarrow> 'f Field \<Rightarrow> 'f SingleValueDataGeneric" where
  "Generic_change_row s v = s\<lparr>value_Field := v\<rparr>"

definition Generic_change_state ::
  "'f SingleValueDataGeneric \<Rightarrow> 'f SingleValueDataGeneric \<Rightarrow> 'f SingleValueDataGeneric" where
  "Generic_change_state s to = s\<lparr>value_Field := value_Field to\<rparr>"

definition Generic_changeFirstTime_row ::
  "'f SingleValueDataGeneric \<Rightarrow> 'f Field \<Rightarrow> bool \<times> 'f SingleValueDataGeneric" where
  "Generic_changeFirstTime_row s v =
     (if \<not> Generic_has s then (True, Generic_change_row s v) else (False, s))"

definition Generic_changeFirstTime_state ::
  "'f SingleValueDataGeneric \<Rightarrow> 'f SingleValueDataGeneric \<Rightarrow> bool \<times> 'f SingleValueDataGeneric" where
  "Generic_changeFirstTime_state s to =
     (if \<not> Generic_has s \<and> Generic_has to then (True, Generic_change_state s to) else (False, s))"

definition Generic_changeEveryTime_row ::
  "'f SingleValueDataGeneric \<Rightarrow> 'f Field \<Rightarrow> bool \<times> 'f SingleValueDataGeneric" where
  "Generic_changeEveryTime_row s v = (True, Generic_change_row s v)"

definition Generic_changeEveryTime_state ::
  "'f SingleValueDataGeneric \<Rightarrow> 'f SingleValueDataGeneric \<Rightarrow> bool \<times> 'f SingleValueDataGeneric" where
  "Generic_changeEveryTime_state s to =
     (if Generic_has to then (True, Generic_change_state s to) else (False, s))"

definition Generic_changeIfLess_row ::
  "('f::ord) SingleValueDataGeneric \<Rightarrow> 'f Field \<Rightarrow> bool \<times> 'f SingleValueDataGeneric" where
  "Generic_changeIfLess_row s v =
     (if \<not> Generic_has s
      then (True, Generic_change_row s v)
      else (let new_value = v
            in if Field_less new_value (value_Field s)
               then (True, s\<lparr>value_Field := new_value\<rparr>)
               else (False, s)))"

definition Generic_changeIfLess_state ::
  "('f::ord) SingleValueDataGeneric \<Rightarrow> 'f SingleValueDataGeneric
     \<Rightarrow> bool \<times> 'f SingleValueDataGeneric" where
  "Generic_changeIfLess_state s to =
     (if Generic_has to \<and> (\<not> Generic_has s \<or> Field_less (value_Field to) (value_Field s))
      then (True, Generic_change_state s to) else (False, s))"

definition Generic_changeIfGreater_row ::
  "('f::ord) SingleValueDataGeneric \<Rightarrow> 'f Field \<Rightarrow> bool \<times> 'f SingleValueDataGeneric" where
  "Generic_changeIfGreater_row s v =
     (if \<not> Generic_has s
      then (True, Generic_change_row s v)
      else (let new_value = v
            in if Field_greater new_value (value_Field s)
               then (True, s\<lparr>value_Field := new_value\<rparr>)
               else (False, s)))"

definition Generic_changeIfGreater_state ::
  "('f::ord) SingleValueDataGeneric \<Rightarrow> 'f SingleValueDataGeneric
     \<Rightarrow> bool \<times> 'f SingleValueDataGeneric" where
  "Generic_changeIfGreater_state s to =
     (if Generic_has to \<and> (\<not> Generic_has s \<or> Field_greater (value_Field to) (value_Field s))
      then (True, Generic_change_state s to) else (False, s))"

definition Generic_isEqualTo_row :: "'f SingleValueDataGeneric \<Rightarrow> 'f Field \<Rightarrow> bool" where
  "Generic_isEqualTo_row s v = (Generic_has s \<and> value_Field s = v)"

definition Generic_isEqualTo_state ::
  "'f SingleValueDataGeneric \<Rightarrow> 'f SingleValueDataGeneric \<Rightarrow> bool" where
  "Generic_isEqualTo_state s to = (Generic_has s \<and> value_Field to = value_Field s)"

definition SingleValueDataGeneric ::
  "'f \<Rightarrow> ('f Field \<Rightarrow> byte list) \<Rightarrow> (byte list \<Rightarrow> ('f Field \<times> byte list) option)
     \<Rightarrow> (('f::ord) SingleValueDataGeneric, 'f Field, 'f) Data" where
  "SingleValueDataGeneric dflt ser deser =
     \<lparr>has = Generic_has,
      insertResultInto = Generic_insertResultInto dflt,
      write_buf = Generic_write ser,
      read_buf = Generic_read deser,
      change_row = Generic_change_row,
      change_state = Generic_change_state,
      changeFirstTime_row = Generic_changeFirstTime_row,
      changeFirstTime_state = Generic_changeFirstTime_state,
      changeEveryTime_row = Generic_changeEveryTime_row,
      changeEveryTime_state = Generic_changeEveryTime_state,
      changeIfLess_row = Generic_changeIfLess_row,
      changeIfLess_state = Generic_changeIfLess_state,
      changeIfGreater_row = Generic_changeIfGreater_row,
      changeIfGreater_state = Generic_changeIfGreater_state,
      isEqualTo_state = Generic_isEqualTo_state,
      isEqualTo_row = Generic_isEqualTo_row,
      allocatesMemoryInArena = False\<rparr>"

section \<open>The policies\<close>

text \<open>
  What the aggregate function \<open>AggregateFunctionsSingleValue<Data>\<close> uses of its
  template parameter: the name, \<open>is_any\<close>, the two overloads of \<open>changeIfBetter\<close>,
  \<open>addManyDefaults\<close> and the members inherited from (or overridden over) the slot.
  \<open>'s\<close> is the whole aggregate state.
\<close>

record ('s, 'v, 'c) Policy =
  name :: string
  is_any :: bool
  is_nullable :: bool
  p_has :: "'s \<Rightarrow> bool"
  changeIfBetter_row :: "'s \<Rightarrow> 'v \<Rightarrow> bool \<times> 's"
  changeIfBetter_state :: "'s \<Rightarrow> 's \<Rightarrow> bool \<times> 's"
  addManyDefaults :: "'s \<Rightarrow> 'v \<Rightarrow> nat \<Rightarrow> 's"
  p_insertResultInto :: "'s \<Rightarrow> 'c list \<Rightarrow> 'c list"
  p_write :: "'s \<Rightarrow> byte list \<Rightarrow> byte list"
  p_read :: "'s \<Rightarrow> byte list \<Rightarrow> error + ('s \<times> byte list)"
  p_allocatesMemoryInArena :: bool

definition AggregateFunctionMinData :: "('d, 'v, 'c) Data \<Rightarrow> ('d, 'v, 'c) Policy" where
  "AggregateFunctionMinData D =
     \<lparr>name = ''min'', is_any = False, is_nullable = False,
      p_has = has D,
      changeIfBetter_row = changeIfLess_row D,
      changeIfBetter_state = changeIfLess_state D,
      addManyDefaults = (\<lambda>s v length. snd (changeIfLess_row D s v)),
      p_insertResultInto = insertResultInto D,
      p_write = write_buf D,
      p_read = read_buf D,
      p_allocatesMemoryInArena = allocatesMemoryInArena D\<rparr>"

definition AggregateFunctionMaxData :: "('d, 'v, 'c) Data \<Rightarrow> ('d, 'v, 'c) Policy" where
  "AggregateFunctionMaxData D =
     \<lparr>name = ''max'', is_any = False, is_nullable = False,
      p_has = has D,
      changeIfBetter_row = changeIfGreater_row D,
      changeIfBetter_state = changeIfGreater_state D,
      addManyDefaults = (\<lambda>s v length. snd (changeIfGreater_row D s v)),
      p_insertResultInto = insertResultInto D,
      p_write = write_buf D,
      p_read = read_buf D,
      p_allocatesMemoryInArena = allocatesMemoryInArena D\<rparr>"

definition AggregateFunctionAnyData :: "('d, 'v, 'c) Data \<Rightarrow> ('d, 'v, 'c) Policy" where
  "AggregateFunctionAnyData D =
     \<lparr>name = ''any'', is_any = True, is_nullable = False,
      p_has = has D,
      changeIfBetter_row = changeFirstTime_row D,
      changeIfBetter_state = changeFirstTime_state D,
      addManyDefaults = (\<lambda>s v length. snd (changeFirstTime_row D s v)),
      p_insertResultInto = insertResultInto D,
      p_write = write_buf D,
      p_read = read_buf D,
      p_allocatesMemoryInArena = allocatesMemoryInArena D\<rparr>"

definition AggregateFunctionAnyLastData :: "('d, 'v, 'c) Data \<Rightarrow> ('d, 'v, 'c) Policy" where
  "AggregateFunctionAnyLastData D =
     \<lparr>name = ''anyLast'', is_any = False, is_nullable = False,
      p_has = has D,
      changeIfBetter_row = changeEveryTime_row D,
      changeIfBetter_state = changeEveryTime_state D,
      addManyDefaults = (\<lambda>s v length. snd (changeEveryTime_row D s v)),
      p_insertResultInto = insertResultInto D,
      p_write = write_buf D,
      p_read = read_buf D,
      p_allocatesMemoryInArena = allocatesMemoryInArena D\<rparr>"

subsection \<open>AggregateFunctionSingleValueOrNullData\<close>

text \<open>
  The struct derives from the slot and adds two flags. The result column is a
  \<open>ColumnNullable\<close>: \<open>None\<close> is the NULL that \<open>insertDefault\<close> inserts on it, \<open>Some x\<close> a
  row whose null-map entry is the default (not null) and whose nested value is \<open>x\<close>.
\<close>

record 'd SingleValueOrNullData =
  orNull_Data :: 'd
  first_value :: bool
  is_null :: bool

definition OrNull_init :: "'d \<Rightarrow> 'd SingleValueOrNullData" where
  "OrNull_init d = \<lparr>orNull_Data = d, first_value = True, is_null = False\<rparr>"

definition OrNull_changeIfBetter_row ::
  "('d, 'v, 'c) Data \<Rightarrow> 'd SingleValueOrNullData \<Rightarrow> 'v \<Rightarrow> bool \<times> 'd SingleValueOrNullData" where
  "OrNull_changeIfBetter_row D s v =
     (if first_value s
      then (True, s\<lparr>first_value := False, orNull_Data := change_row D (orNull_Data s) v\<rparr>)
      else if \<not> isEqualTo_row D (orNull_Data s) v
      then (False, s\<lparr>is_null := True\<rparr>)
      else (False, s))"

definition OrNull_changeIfBetter_state ::
  "('d, 'v, 'c) Data \<Rightarrow> 'd SingleValueOrNullData \<Rightarrow> 'd SingleValueOrNullData
     \<Rightarrow> bool \<times> 'd SingleValueOrNullData" where
  "OrNull_changeIfBetter_state D s to =
     (if first_value s
      then (True, s\<lparr>first_value := False,
                    orNull_Data := change_state D (orNull_Data s) (orNull_Data to)\<rparr>)
      else if \<not> isEqualTo_state D (orNull_Data s) (orNull_Data to)
      then (False, s\<lparr>is_null := True\<rparr>)
      else (False, s))"

definition OrNull_insertResultInto ::
  "('d, 'v, 'c) Data \<Rightarrow> 'd SingleValueOrNullData \<Rightarrow> 'c option list \<Rightarrow> 'c option list" where
  "OrNull_insertResultInto D s to =
     (if is_null s \<or> first_value s
      then to @ [None]
      else to @ map Some (insertResultInto D (orNull_Data s) []))"

definition OrNull_read ::
  "('d, 'v, 'c) Data \<Rightarrow> 'd SingleValueOrNullData \<Rightarrow> byte list
     \<Rightarrow> error + ('d SingleValueOrNullData \<times> byte list)" where
  "OrNull_read D s buf =
     (case read_buf D (orNull_Data s) buf of
        Inl e \<Rightarrow> Inl e
      | Inr (d, rest) \<Rightarrow> Inr (s\<lparr>orNull_Data := d\<rparr>, rest))"

definition AggregateFunctionSingleValueOrNullData ::
  "('d, 'v, 'c) Data \<Rightarrow> ('d SingleValueOrNullData, 'v, 'c option) Policy" where
  "AggregateFunctionSingleValueOrNullData D =
     \<lparr>name = ''singleValueOrNull'', is_any = False, is_nullable = True,
      p_has = (\<lambda>s. has D (orNull_Data s)),
      changeIfBetter_row = OrNull_changeIfBetter_row D,
      changeIfBetter_state = OrNull_changeIfBetter_state D,
      addManyDefaults = (\<lambda>s v length. snd (OrNull_changeIfBetter_row D s v)),
      p_insertResultInto = OrNull_insertResultInto D,
      p_write = (\<lambda>s. write_buf D (orNull_Data s)),
      p_read = OrNull_read D,
      p_allocatesMemoryInArena = allocatesMemoryInArena D\<rparr>"

subsection \<open>AggregateFunctionAnyHeavyData\<close>

text \<open>The struct derives from the slot and adds \<open>UInt64 counter\<close>; \<open>++\<close>, \<open>--\<close>,
  \<open>+=\<close> and \<open>-=\<close> wrap modulo \<open>2 ^ 64\<close>, as the operations of \<open>64 word\<close> do.\<close>

record 'd AnyHeavyData =
  anyHeavy_Data :: 'd
  counter :: "64 word"

definition AnyHeavy_init :: "'d \<Rightarrow> 'd AnyHeavyData" where
  "AnyHeavy_init d = \<lparr>anyHeavy_Data = d, counter = 0\<rparr>"

definition AnyHeavy_changeIfBetter_row ::
  "('d, 'v, 'c) Data \<Rightarrow> 'd AnyHeavyData \<Rightarrow> 'v \<Rightarrow> bool \<times> 'd AnyHeavyData" where
  "AnyHeavy_changeIfBetter_row D s v =
     (if isEqualTo_row D (anyHeavy_Data s) v
      then (False, s\<lparr>counter := counter s + 1\<rparr>)
      else if counter s = 0
      then (True, s\<lparr>anyHeavy_Data := change_row D (anyHeavy_Data s) v,
                    counter := counter s + 1\<rparr>)
      else (False, s\<lparr>counter := counter s - 1\<rparr>))"

definition AnyHeavy_changeIfBetter_state ::
  "('d, 'v, 'c) Data \<Rightarrow> 'd AnyHeavyData \<Rightarrow> 'd AnyHeavyData \<Rightarrow> bool \<times> 'd AnyHeavyData" where
  "AnyHeavy_changeIfBetter_state D s to =
     (if isEqualTo_state D (anyHeavy_Data s) (anyHeavy_Data to)
      then (False, s\<lparr>counter := counter s + counter to\<rparr>)
      else if (\<not> has D (anyHeavy_Data s) \<and> has D (anyHeavy_Data to))
              \<or> counter s < counter to
      then (True, s\<lparr>anyHeavy_Data := change_state D (anyHeavy_Data s) (anyHeavy_Data to)\<rparr>)
      else (False, s\<lparr>counter := counter s - counter to\<rparr>))"

fun AnyHeavy_addManyDefaults ::
  "('d, 'v, 'c) Data \<Rightarrow> 'd AnyHeavyData \<Rightarrow> 'v \<Rightarrow> nat \<Rightarrow> 'd AnyHeavyData" where
  "AnyHeavy_addManyDefaults D s v 0 = s"
| "AnyHeavy_addManyDefaults D s v (Suc n) =
     AnyHeavy_addManyDefaults D (snd (AnyHeavy_changeIfBetter_row D s v)) v n"

text \<open>\<open>writeBinary\<close> and \<open>readBinary\<close> on \<open>UInt64\<close> copy the eight bytes of the
  value, lowest byte first.\<close>

definition writeBinary_UInt64 :: "64 word \<Rightarrow> byte list \<Rightarrow> byte list" where
  "writeBinary_UInt64 x buf = buf @ bytes_le 8 (unat x)"

definition readBinary_UInt64 :: "byte list \<Rightarrow> error + (64 word \<times> byte list)" where
  "readBinary_UInt64 buf =
     (if length buf < 8 then Inl CANNOT_READ_ALL_DATA
      else Inr (word_of_nat (value_le (take 8 buf)), drop 8 buf))"

text \<open>The slot \<open>SingleValueDataFixed<UInt64>\<close>: \<open>writeBinary\<close> and \<open>readBinary\<close> on
  \<open>T = UInt64\<close>.\<close>

definition writeBinary_T_UInt64 :: "64 word \<Rightarrow> byte list" where
  "writeBinary_T_UInt64 v = writeBinary_UInt64 v []"

definition readBinary_T_UInt64 :: "byte list \<Rightarrow> (64 word \<times> byte list) option" where
  "readBinary_T_UInt64 buf =
     (case readBinary_UInt64 buf of Inl e \<Rightarrow> None | Inr r \<Rightarrow> Some r)"

definition SingleValueDataFixed_UInt64 :: "(64 word SingleValueDataFixed, 64 word, 64 word) Data" where
  "SingleValueDataFixed_UInt64 = SingleValueDataFixed writeBinary_T_UInt64 readBinary_T_UInt64"

text \<open>
  Modelled from the spec: \<open>Float64\<close> is the \<open>double\<close> of the language, another value type of
  the fixed-size slot, here its 64 bits (IEEE 754 binary64: the sign, eleven bits of
  exponent, 52 bits of fraction). A pattern is a NaN when all bits of the exponent are set
  and the fraction is not zero. \<open><\<close> and \<open><=\<close> are those of the language on doubles: false
  when an operand is a NaN, and otherwise the order of the numbers, which is the order of
  the patterns read as sign and magnitude, both zeros equal. The default of the type is
  \<open>+0.0\<close>, and \<open>writeBinary\<close> and \<open>readBinary\<close> copy the eight bytes. The \<open>==\<close> of the
  language on doubles is not the equality of the patterns (a NaN differs from itself, the
  two zeros are equal): \<open>isEqualTo\<close> is not read at this type.
\<close>

datatype Float64 = Float64 (bits: "64 word")

definition Float64_isNaN :: "Float64 \<Rightarrow> bool" where
  "Float64_isNaN x = (0x7FF0000000000000 < unat (bits x) mod 2 ^ 63)"

definition Float64_key :: "Float64 \<Rightarrow> int" where
  "Float64_key x =
     (if unat (bits x) < 2 ^ 63 then int (unat (bits x))
      else - int (unat (bits x) mod 2 ^ 63))"

instantiation Float64 :: "{ord, zero}"
begin

definition less_Float64 :: "Float64 \<Rightarrow> Float64 \<Rightarrow> bool" where
  "less_Float64 x y =
     (\<not> Float64_isNaN x \<and> \<not> Float64_isNaN y \<and> Float64_key x < Float64_key y)"

definition less_eq_Float64 :: "Float64 \<Rightarrow> Float64 \<Rightarrow> bool" where
  "less_eq_Float64 x y =
     (\<not> Float64_isNaN x \<and> \<not> Float64_isNaN y \<and> Float64_key x \<le> Float64_key y)"

definition zero_Float64 :: Float64 where
  "zero_Float64 = Float64 0"

instance ..

end

definition writeBinary_T_Float64 :: "Float64 \<Rightarrow> byte list" where
  "writeBinary_T_Float64 v = writeBinary_UInt64 (bits v) []"

definition readBinary_T_Float64 :: "byte list \<Rightarrow> (Float64 \<times> byte list) option" where
  "readBinary_T_Float64 buf =
     (case readBinary_UInt64 buf of Inl e \<Rightarrow> None | Inr (x, rest) \<Rightarrow> Some (Float64 x, rest))"

definition SingleValueDataFixed_Float64 :: "(Float64 SingleValueDataFixed, Float64, Float64) Data" where
  "SingleValueDataFixed_Float64 = SingleValueDataFixed writeBinary_T_Float64 readBinary_T_Float64"

text \<open>Modelled from the spec: the value type's own serializer, for a generic slot over
  \<open>UInt64\<close> values: the eight bytes of the value; the default of the type is zero.\<close>

definition serializeBinary_UInt64 :: "64 word Field \<Rightarrow> byte list" where
  "serializeBinary_UInt64 v = (case v of Val x \<Rightarrow> writeBinary_UInt64 x [] | Null \<Rightarrow> [])"

definition deserializeBinary_UInt64 :: "byte list \<Rightarrow> (64 word Field \<times> byte list) option" where
  "deserializeBinary_UInt64 buf =
     (case readBinary_UInt64 buf of Inl e \<Rightarrow> None | Inr (x, rest) \<Rightarrow> Some (Val x, rest))"

definition SingleValueDataGeneric_UInt64 ::
  "(64 word SingleValueDataGeneric, 64 word Field, 64 word) Data" where
  "SingleValueDataGeneric_UInt64 =
     SingleValueDataGeneric 0 serializeBinary_UInt64 deserializeBinary_UInt64"

definition AnyHeavy_write :: "('d, 'v, 'c) Data \<Rightarrow> 'd AnyHeavyData \<Rightarrow> byte list \<Rightarrow> byte list" where
  "AnyHeavy_write D s buf = writeBinary_UInt64 (counter s) (write_buf D (anyHeavy_Data s) buf)"

definition AnyHeavy_read ::
  "('d, 'v, 'c) Data \<Rightarrow> 'd AnyHeavyData \<Rightarrow> byte list \<Rightarrow> error + ('d AnyHeavyData \<times> byte list)" where
  "AnyHeavy_read D s buf =
     (case read_buf D (anyHeavy_Data s) buf of
        Inl e \<Rightarrow> Inl e
      | Inr (d, rest) \<Rightarrow>
          (case readBinary_UInt64 rest of
             Inl e \<Rightarrow> Inl e
           | Inr (c, rest') \<Rightarrow> Inr (s\<lparr>anyHeavy_Data := d, counter := c\<rparr>, rest')))"

definition AggregateFunctionAnyHeavyData ::
  "('d, 'v, 'c) Data \<Rightarrow> ('d AnyHeavyData, 'v, 'c) Policy" where
  "AggregateFunctionAnyHeavyData D =
     \<lparr>name = ''anyHeavy'', is_any = False, is_nullable = False,
      p_has = (\<lambda>s. has D (anyHeavy_Data s)),
      changeIfBetter_row = AnyHeavy_changeIfBetter_row D,
      changeIfBetter_state = AnyHeavy_changeIfBetter_state D,
      addManyDefaults = AnyHeavy_addManyDefaults D,
      p_insertResultInto = (\<lambda>s. insertResultInto D (anyHeavy_Data s)),
      p_write = AnyHeavy_write D,
      p_read = AnyHeavy_read D,
      p_allocatesMemoryInArena = allocatesMemoryInArena D\<rparr>"

section \<open>AggregateFunctionsSingleValue\<close>

text \<open>What the constructor reads of the argument type.\<close>

record IDataType =
  getName :: string
  isComparable :: bool

record AggregateFunction =
  argument_types :: "IDataType list"

definition AggregateFunctionsSingleValue ::
  "('s, 'v, 'c) Policy \<Rightarrow> IDataType \<Rightarrow> error + AggregateFunction" where
  "AggregateFunctionsSingleValue P type =
     (if name P = ''min'' \<or> name P = ''max''
      then (if \<not> isComparable type
            then Inl (ILLEGAL_TYPE_OF_ARGUMENT
                   (''Illegal type '' @ getName type @ '' of argument of aggregate function ''
                    @ name P @ '' because the values of that data type are not comparable''))
            else Inr \<lparr>argument_types = [type]\<rparr>)
      else Inr \<lparr>argument_types = [type]\<rparr>)"

definition add :: "('s, 'v, 'c) Policy \<Rightarrow> 's \<Rightarrow> 'v \<Rightarrow> 's" where
  "add P place v = snd (changeIfBetter_row P place v)"

definition merge :: "('s, 'v, 'c) Policy \<Rightarrow> 's \<Rightarrow> 's \<Rightarrow> 's" where
  "merge P place rhs = snd (changeIfBetter_state P place rhs)"

definition serialize :: "('s, 'v, 'c) Policy \<Rightarrow> 's \<Rightarrow> byte list \<Rightarrow> byte list" where
  "serialize P place buf = p_write P place buf"

definition deserialize ::
  "('s, 'v, 'c) Policy \<Rightarrow> 's \<Rightarrow> byte list \<Rightarrow> error + ('s \<times> byte list)" where
  "deserialize P place buf = p_read P place buf"

definition insertResult :: "('s, 'v, 'c) Policy \<Rightarrow> 's \<Rightarrow> 'c list \<Rightarrow> 'c list" where
  "insertResult P place to = p_insertResultInto P place to"

text \<open>The rows of a sequence, added one by one in sequence order.\<close>

definition addRows :: "('s, 'v, 'c) Policy \<Rightarrow> 's \<Rightarrow> 'v list \<Rightarrow> 's" where
  "addRows P place vs = foldl (add P) place vs"

section \<open>The invariant of a string slot\<close>

text \<open>
  What every operation of the string slot keeps: \<open>small_data\<close> has its declared
  number of bytes, \<open>size\<close> and \<open>capacity\<close> are values of \<open>Int32\<close>, a string longer
  than the small storage lies within the buffer \<open>large_data\<close> points to, and that
  buffer has at least \<open>capacity\<close> bytes. \<open>String_bytes\<close> are the bytes
  \<open>getStringRef\<close> denotes.
\<close>

definition String_wf :: "SingleValueDataString \<Rightarrow> bool" where
  "String_wf s =
     (int (length (small_data s)) = MAX_SMALL_STRING_SIZE \<and>
      - (2 ^ 31) \<le> ssize s \<and> ssize s < 2 ^ 31 \<and>
      (MAX_SMALL_STRING_SIZE < ssize s \<longrightarrow> ssize s \<le> int (length (large_data s))) \<and>
      capacity s \<le> int (length (large_data s)))"

definition String_bytes :: "SingleValueDataString \<Rightarrow> byte list" where
  "String_bytes s = StringRef_bytes (getStringRef s)"

section \<open>The value a state stores\<close>

text \<open>
  The stored value of each slot, \<open>None\<close> for a slot without a value: what the proofs
  about sequences of rows and about merges follow through the operations. \<open>String_nonempty\<close> holds of a string of at least one and at most \<open>2 ^ 30\<close> bytes, and a
  plain string is such a string whose last byte is not zero. \<open>String_inv Q\<close> holds of a
  string slot that keeps the invariant and stores nothing, or a string of at most
  \<open>2 ^ 30\<close> bytes of which \<open>Q\<close> holds.
\<close>

definition Fixed_stored :: "'a SingleValueDataFixed \<Rightarrow> 'a option" where
  "Fixed_stored s = (if Fixed_has s then Some (value_T s) else None)"

definition Generic_stored :: "'f SingleValueDataGeneric \<Rightarrow> 'f option" where
  "Generic_stored s = (case value_Field s of Null \<Rightarrow> None | Val x \<Rightarrow> Some x)"

definition String_stored :: "SingleValueDataString \<Rightarrow> byte list option" where
  "String_stored s = (if String_has s then Some (String_bytes s) else None)"

definition String_plain :: "byte list \<Rightarrow> bool" where
  "String_plain v = (v \<noteq> [] \<and> last v \<noteq> 0 \<and> length v \<le> 2 ^ 30)"

definition String_nonempty :: "byte list \<Rightarrow> bool" where
  "String_nonempty v = (v \<noteq> [] \<and> length v \<le> 2 ^ 30)"

definition String_inv :: "(byte list \<Rightarrow> bool) \<Rightarrow> SingleValueDataString \<Rightarrow> bool" where
  "String_inv Q s =
     (String_wf s \<and>
      (String_has s \<longrightarrow> Q (String_bytes s) \<and> length (String_bytes s) \<le> 2 ^ 30))"

section \<open>Unfolding the member functions\<close>

lemmas policy_defs =
  AggregateFunctionMinData_def AggregateFunctionMaxData_def AggregateFunctionAnyData_def
  AggregateFunctionAnyLastData_def AggregateFunctionAnyHeavyData_def
  AggregateFunctionSingleValueOrNullData_def

lemmas adapter_defs = add_def merge_def insertResult_def addRows_def serialize_def deserialize_def

lemmas Float64_defs = less_Float64_def less_eq_Float64_def Float64_isNaN_def Float64_key_def

lemmas Fixed_defs =
  SingleValueDataFixed_def Fixed_has_def Fixed_insertResultInto_def Fixed_change_row_def
  Fixed_change_state_def Fixed_changeFirstTime_row_def Fixed_changeFirstTime_state_def
  Fixed_changeEveryTime_row_def Fixed_changeEveryTime_state_def Fixed_changeIfLess_row_def
  Fixed_changeIfLess_state_def Fixed_changeIfGreater_row_def Fixed_changeIfGreater_state_def
  Fixed_isEqualTo_state_def Fixed_isEqualTo_row_def Fixed_init_def

lemmas String_defs =
  SingleValueDataString_def String_has_def String_change_row_def
  String_change_state_def String_changeFirstTime_row_def String_changeFirstTime_state_def
  String_changeEveryTime_row_def String_changeEveryTime_state_def String_changeIfLess_row_def
  String_changeIfLess_state_def String_changeIfGreater_row_def String_changeIfGreater_state_def
  String_isEqualTo_state_def String_isEqualTo_row_def

lemmas Generic_defs =
  SingleValueDataGeneric_def Generic_has_def Generic_insertResultInto_def Generic_change_row_def
  Generic_change_state_def Generic_changeFirstTime_row_def Generic_changeFirstTime_state_def
  Generic_changeEveryTime_row_def Generic_changeEveryTime_state_def Generic_changeIfLess_row_def
  Generic_changeIfLess_state_def Generic_changeIfGreater_row_def Generic_changeIfGreater_state_def
  Generic_isEqualTo_state_def Generic_isEqualTo_row_def Generic_init_def

section \<open>Facts about the encodings\<close>

lemma length_bytes_le: "length (bytes_le n x) = n"
  by (induction n arbitrary: x) simp_all

lemma value_le_bytes_le: "value_le (bytes_le n x) = x mod 256 ^ n"
proof (induction n arbitrary: x)
  case 0
  then show ?case by simp
next
  case (Suc n)
  have "unat (word_of_nat (x mod 256) :: byte) = x mod 256"
    by (simp add: unat_of_nat)
  then show ?case
    using Suc [of "x div 256"] by (simp add: mod_mult2_eq)
qed

lemma static_cast_Int32_id: "- (2 ^ 31) \<le> x \<Longrightarrow> x < 2 ^ 31 \<Longrightarrow> static_cast_Int32 x = x"
  by (simp add: static_cast_Int32_def)

lemma static_cast_Int32_mod: "static_cast_Int32 (x mod 4294967296) = static_cast_Int32 x"
  unfolding static_cast_Int32_def
  by (simp add: mod_add_left_eq)

lemma writeBinary_Int32_append: "writeBinary_Int32 x buf = buf @ writeBinary_Int32 x []"
  by (simp add: writeBinary_Int32_def)

lemma length_writeBinary_Int32: "length (writeBinary_Int32 x []) = 4"
  by (simp add: writeBinary_Int32_def length_bytes_le)

lemma readBinary_Int32_writeBinary_Int32:
  "readBinary_Int32 (writeBinary_Int32 x [] @ rest) = Inr (static_cast_Int32 x, rest)"
proof -
  have "value_le (bytes_le 4 (nat (x mod 2 ^ 32))) = nat (x mod 2 ^ 32)"
    by (simp add: value_le_bytes_le nat_mod_distrib flip: nat_power_eq)
  then show ?thesis
    by (simp add: readBinary_Int32_def writeBinary_Int32_def length_bytes_le static_cast_Int32_mod)
qed

lemma writeBinary_UInt64_append: "writeBinary_UInt64 x buf = buf @ writeBinary_UInt64 x []"
  by (simp add: writeBinary_UInt64_def)

lemma readBinary_UInt64_writeBinary_UInt64:
  "readBinary_UInt64 (writeBinary_UInt64 w [] @ rest) = Inr (w, rest)"
proof -
  have "unat w < 2 ^ 64"
    using unsigned_less [of w, where 'a = nat] by simp
  then have "value_le (bytes_le 8 (unat w)) = unat w"
    by (simp add: value_le_bytes_le)
  then show ?thesis
    by (simp add: readBinary_UInt64_def writeBinary_UInt64_def length_bytes_le)
qed

lemma roundUp_from_ge: "0 < p \<Longrightarrow> n \<le> roundUp_from p n"
proof (induction p n rule: roundUp_from.induct)
  case (1 p n)
  show ?case
  proof (cases "n \<le> p")
    case True
    then show ?thesis by (simp add: roundUp_from.simps [of p n])
  next
    case False
    with 1 show ?thesis by (simp add: roundUp_from.simps [of p n])
  qed
qed

lemma roundUp_from_le: "j \<le> k \<Longrightarrow> n \<le> 2 ^ k \<Longrightarrow> roundUp_from (2 ^ j) n \<le> 2 ^ k"
proof (induction "2 ^ j :: nat" n arbitrary: j rule: roundUp_from.induct)
  case (1 n)
  show ?case
  proof (cases "n \<le> 2 ^ j")
    case True
    then show ?thesis using 1(2) by (simp add: roundUp_from.simps [of "2 ^ j" n])
  next
    case False
    have "j < k"
    proof (rule ccontr)
      assume "\<not> j < k"
      then have "j = k" using 1(2) by simp
      then show False using False 1(3) by simp
    qed
    then have "roundUp_from (2 ^ Suc j) n \<le> 2 ^ k"
      using 1(1) [of "Suc j"] False 1(3) by simp
    then show ?thesis using False by (simp add: roundUp_from.simps [of "2 ^ j" n])
  qed
qed

lemma roundUpToPowerOfTwoOrZero_ge: "n \<le> roundUpToPowerOfTwoOrZero n"
  using roundUp_from_ge [of 1 n] by (simp add: roundUpToPowerOfTwoOrZero_def)

lemma roundUpToPowerOfTwoOrZero_le: "n \<le> 2 ^ k \<Longrightarrow> roundUpToPowerOfTwoOrZero n \<le> 2 ^ k"
  using roundUp_from_le [of 0 k n] by (simp add: roundUpToPowerOfTwoOrZero_def)

section \<open>Facts about string references\<close>

lemma memcmp_less_iff:
  "m \<le> length a \<Longrightarrow> k \<le> length b \<Longrightarrow>
   (memcmp a b (min m k) < 0 \<or> (memcmp a b (min m k) = 0 \<and> m < k)) = (take m a < take k b)"
proof (induction a arbitrary: b m k)
  case Nil
  then show ?case by (cases b; cases k) simp_all
next
  case (Cons x xs)
  show ?case
  proof (cases m)
    case 0
    then show ?thesis using Cons.prems by (cases b; cases k) simp_all
  next
    case (Suc m')
    show ?thesis
    proof (cases k)
      case 0
      then show ?thesis using Suc by (cases b) simp_all
    next
      case (Suc k')
      then obtain y ys where b: "b = y # ys" using Cons.prems by (cases b) simp_all
      have "m' \<le> length xs" "k' \<le> length ys"
        using Cons.prems \<open>m = Suc m'\<close> Suc b by simp_all
      from Cons.IH [OF this] show ?thesis
        using \<open>m = Suc m'\<close> Suc b by auto
    qed
  qed
qed

lemma memcmp_greater_iff:
  "m \<le> length a \<Longrightarrow> k \<le> length b \<Longrightarrow>
   (memcmp a b (min m k) > 0 \<or> (memcmp a b (min m k) = 0 \<and> m > k)) = (take k b < take m a)"
proof (induction a arbitrary: b m k)
  case Nil
  then show ?case by (cases b; cases k) simp_all
next
  case (Cons x xs)
  show ?case
  proof (cases m)
    case 0
    then show ?thesis using Cons.prems by (cases b; cases k) simp_all
  next
    case (Suc m')
    show ?thesis
    proof (cases k)
      case 0
      then show ?thesis using Suc by (cases b) simp_all
    next
      case (Suc k')
      then obtain y ys where b: "b = y # ys" using Cons.prems by (cases b) simp_all
      have "m' \<le> length xs" "k' \<le> length ys"
        using Cons.prems \<open>m = Suc m'\<close> Suc b by simp_all
      from Cons.IH [OF this] show ?thesis
        using \<open>m = Suc m'\<close> Suc b by auto
    qed
  qed
qed

lemma memcmp_eq_iff:
  "n \<le> length a \<Longrightarrow> n \<le> length b \<Longrightarrow> (memcmp a b n = 0) = (take n a = take n b)"
proof (induction a arbitrary: b n)
  case Nil
  then show ?case by simp
next
  case (Cons x xs)
  show ?case
  proof (cases n)
    case 0
    then show ?thesis by (cases b) simp_all
  next
    case (Suc n')
    then obtain y ys where b: "b = y # ys" using Cons.prems by (cases b) simp_all
    have "n' \<le> length xs" "n' \<le> length ys" using Cons.prems Suc b by simp_all
    from Cons.IH [OF this] show ?thesis using Suc b by auto
  qed
qed

lemma StringRef_less_iff:
  "ref_size l \<le> length (ref_data l) \<Longrightarrow> ref_size r \<le> length (ref_data r) \<Longrightarrow>
   StringRef_less l r = (StringRef_bytes l < StringRef_bytes r)"
  using memcmp_less_iff [of "ref_size l" "ref_data l" "ref_size r" "ref_data r"]
  by (simp add: StringRef_less_def StringRef_bytes_def Let_def)

lemma StringRef_greater_iff:
  "ref_size l \<le> length (ref_data l) \<Longrightarrow> ref_size r \<le> length (ref_data r) \<Longrightarrow>
   StringRef_greater l r = (StringRef_bytes r < StringRef_bytes l)"
  using memcmp_greater_iff [of "ref_size l" "ref_data l" "ref_size r" "ref_data r"]
  by (simp add: StringRef_greater_def StringRef_bytes_def Let_def)

lemma StringRef_equal_iff:
  "ref_size l \<le> length (ref_data l) \<Longrightarrow> ref_size r \<le> length (ref_data r) \<Longrightarrow>
   StringRef_equal l r = (StringRef_bytes l = StringRef_bytes r)"
proof (cases "ref_size l = ref_size r")
  case True
  assume "ref_size l \<le> length (ref_data l)" "ref_size r \<le> length (ref_data r)"
  then show ?thesis
    using True memcmp_eq_iff [of "ref_size l" "ref_data l" "ref_data r"]
    by (auto simp add: StringRef_equal_def StringRef_bytes_def)
next
  case False
  assume "ref_size l \<le> length (ref_data l)" "ref_size r \<le> length (ref_data r)"
  then have "length (StringRef_bytes l) \<noteq> length (StringRef_bytes r)"
    using False by (simp add: StringRef_bytes_def)
  then show ?thesis using False by (auto simp add: StringRef_equal_def)
qed

section \<open>Facts about the string slot\<close>

lemma size_t_of_Int32_nonneg: "0 \<le> i \<Longrightarrow> i < 2 ^ 31 \<Longrightarrow> size_t_of_Int32 i = nat i"
  by (simp add: size_t_of_Int32_def)

lemma String_wf_init: "length g = 48 \<Longrightarrow> String_wf (String_init g)"
  by (simp add: String_wf_def String_init_def MAX_SMALL_STRING_SIZE_def AUTOMATIC_STORAGE_SIZE_def)

lemma String_bytes_init: "String_bytes (String_init g) = take (2 ^ 64 - 1) g"
  by (simp add: String_bytes_def String_init_def getStringRef_def getData_def StringRef_bytes_def
      size_t_of_Int32_def MAX_SMALL_STRING_SIZE_def AUTOMATIC_STORAGE_SIZE_def)

lemma getStringRef_valid:
  assumes "String_wf s" "0 \<le> ssize s"
  shows "ref_size (getStringRef s) = nat (ssize s)"
    and "ref_size (getStringRef s) \<le> length (ref_data (getStringRef s))"
proof -
  show a: "ref_size (getStringRef s) = nat (ssize s)"
    using assms by (simp add: getStringRef_def String_wf_def size_t_of_Int32_nonneg)
  show "ref_size (getStringRef s) \<le> length (ref_data (getStringRef s))"
    unfolding a using assms
    by (auto simp add: getStringRef_def String_wf_def getData_def)
qed

lemma length_String_bytes:
  "String_wf s \<Longrightarrow> 0 \<le> ssize s \<Longrightarrow> length (String_bytes s) = nat (ssize s)"
  using getStringRef_valid [of s] by (simp add: String_bytes_def StringRef_bytes_def)

lemma String_changeImpl_small:
  assumes "String_wf s" and "ref_size v \<le> length (ref_data v)" and "ref_size v \<le> 48"
  shows "String_wf (String_changeImpl s v)"
    and "ssize (String_changeImpl s v) = int (ref_size v)"
    and "String_bytes (String_changeImpl s v) = StringRef_bytes v"
proof -
  have vs: "static_cast_Int32 (int (ref_size v)) = int (ref_size v)"
    using assms(3) by (simp add: static_cast_Int32_id)
  have st: "size_t_of_Int32 (int (ref_size v)) = ref_size v"
    using assms(3) by (simp add: size_t_of_Int32_def)
  have eq: "String_changeImpl s v =
      (if 0 < ref_size v
       then s\<lparr>ssize := int (ref_size v),
               small_data := memcpy (small_data s) (ref_data v) (ref_size v)\<rparr>
       else s\<lparr>ssize := int (ref_size v)\<rparr>)"
    using assms(3)
    by (simp add: String_changeImpl_def Let_def vs st MAX_SMALL_STRING_SIZE_def
        AUTOMATIC_STORAGE_SIZE_def)
  show "String_wf (String_changeImpl s v)"
    using assms unfolding eq
    by (auto simp add: String_wf_def memcpy_def MAX_SMALL_STRING_SIZE_def
        AUTOMATIC_STORAGE_SIZE_def)
  show "ssize (String_changeImpl s v) = int (ref_size v)"
    unfolding eq by simp
  show "String_bytes (String_changeImpl s v) = StringRef_bytes v"
    using assms unfolding eq
    by (auto simp add: String_bytes_def StringRef_bytes_def getStringRef_def getData_def st
        memcpy_def MAX_SMALL_STRING_SIZE_def AUTOMATIC_STORAGE_SIZE_def size_t_of_Int32_def)
qed

lemma String_changeImpl_large:
  assumes "String_wf s" and "ref_size v \<le> length (ref_data v)"
    and "48 < ref_size v" and "ref_size v \<le> 2 ^ 30"
  shows "String_wf (String_changeImpl s v)"
    and "ssize (String_changeImpl s v) = int (ref_size v)"
    and "String_bytes (String_changeImpl s v) = StringRef_bytes v"
proof -
  define n where "n = ref_size v"
  define c where "c = roundUpToPowerOfTwoOrZero n"
  have n: "48 < n" "n \<le> 2 ^ 30" "n \<le> length (ref_data v)"
    using assms by (simp_all add: n_def)
  have c: "n \<le> c" "c \<le> 2 ^ 30"
    using roundUpToPowerOfTwoOrZero_ge [of n] roundUpToPowerOfTwoOrZero_le [of n 30] n
    by (simp_all add: c_def)
  have vs: "static_cast_Int32 (int n) = int n"
    using n by (simp add: static_cast_Int32_id)
  have st: "size_t_of_Int32 (int n) = n"
    using n by (simp add: size_t_of_Int32_def)
  have cc: "static_cast_Int32 (int c) = int c"
    using c by (simp add: static_cast_Int32_id)
  have sc: "size_t_of_Int32 (int c) = c"
    using c by (simp add: size_t_of_Int32_def)
  have eq: "String_changeImpl s v =
      (if capacity s < int n
       then s\<lparr>capacity := int c, ssize := int n,
               large_data := memcpy (Arena_alloc c) (ref_data v) n\<rparr>
       else s\<lparr>ssize := int n, large_data := memcpy (large_data s) (ref_data v) n\<rparr>)"
    using n
    by (simp add: String_changeImpl_def Let_def vs st cc sc MAX_SMALL_STRING_SIZE_def
        AUTOMATIC_STORAGE_SIZE_def flip: n_def c_def)
  show "String_wf (String_changeImpl s v)"
    using assms(1) n c unfolding eq
    by (auto simp add: String_wf_def memcpy_def Arena_alloc_def MAX_SMALL_STRING_SIZE_def
        AUTOMATIC_STORAGE_SIZE_def)
  show "ssize (String_changeImpl s v) = int (ref_size v)"
    unfolding eq by (simp add: n_def)
  show "String_bytes (String_changeImpl s v) = StringRef_bytes v"
    using assms(1) n c unfolding eq
    by (auto simp add: String_bytes_def StringRef_bytes_def getStringRef_def getData_def st
        memcpy_def MAX_SMALL_STRING_SIZE_def AUTOMATIC_STORAGE_SIZE_def simp flip: n_def)
qed

lemma String_changeImpl_ok:
  assumes "String_wf s" and "ref_size v \<le> length (ref_data v)" and "ref_size v \<le> 2 ^ 30"
  shows "String_wf (String_changeImpl s v)"
    and "ssize (String_changeImpl s v) = int (ref_size v)"
    and "String_bytes (String_changeImpl s v) = StringRef_bytes v"
  using String_changeImpl_small [OF assms(1,2)] String_changeImpl_large [OF assms(1,2)] assms(3)
  by (cases "ref_size v \<le> 48"; simp)+

lemma bytes_le_4:
  "bytes_le 4 x = [word_of_nat (x mod 256), word_of_nat (x div 256 mod 256),
     word_of_nat (x div 256 div 256 mod 256), word_of_nat (x div 256 div 256 div 256 mod 256)]"
proof -
  have "(4::nat) = Suc (Suc (Suc (Suc 0)))" by simp
  then show ?thesis by (simp only: bytes_le.simps)
qed

lemma writeBinary_Int32_1: "writeBinary_Int32 1 [] = [1, 0, 0, 0]"
  by (simp add: writeBinary_Int32_def bytes_le_4)

lemma getData_last:
  assumes "String_wf s" "String_has s"
  shows "getData s ! nat (ssize s - 1) = last (String_bytes s)"
proof -
  have n: "0 \<le> ssize s" "0 < nat (ssize s)"
    using assms(2) by (simp_all add: String_has_def)
  have v: "ref_size (getStringRef s) = nat (ssize s)"
    "ref_size (getStringRef s) \<le> length (ref_data (getStringRef s))"
    using getStringRef_valid [OF assms(1) n(1)] by simp_all
  have d: "ref_data (getStringRef s) = getData s"
    by (simp add: getStringRef_def)
  have le: "nat (ssize s) \<le> length (getData s)"
    using v d by simp
  have b: "String_bytes s = take (nat (ssize s)) (getData s)"
    by (simp add: String_bytes_def StringRef_bytes_def v(1) d)
  have "take (nat (ssize s)) (getData s) \<noteq> []"
    using le n(2) by auto
  then have "last (take (nat (ssize s)) (getData s)) = getData s ! (nat (ssize s) - 1)"
    using le n(2) by (simp add: last_conv_nth min_def)
  moreover have "nat (ssize s - 1) = nat (ssize s) - 1"
    using n by simp
  ultimately show ?thesis
    by (simp only: b)
qed

lemma String_bytes_take:
  assumes "String_wf s" "0 \<le> ssize s"
  shows "String_bytes s = take (nat (ssize s)) (getData s)"
proof -
  have "ref_size (getStringRef s) = nat (ssize s)"
    using getStringRef_valid(1) [OF assms] .
  moreover have "ref_data (getStringRef s) = getData s"
    by (simp add: getStringRef_def)
  ultimately show ?thesis
    by (simp add: String_bytes_def StringRef_bytes_def)
qed

lemma String_write_empty: "\<not> String_has s \<Longrightarrow> String_write s buf = buf @ [1, 0, 0, 0] @ [0]"
  using writeBinary_Int32_append [of 1 buf]
  by (simp add: String_write_def writeBinary_Int32_1)

lemma String_write_nonzero:
  assumes "String_wf s" "String_has s" "last (String_bytes s) \<noteq> 0"
  shows "String_write s buf = buf @ writeBinary_Int32 (ssize s + 1) [] @ String_bytes s @ [0]"
proof -
  have n: "0 \<le> ssize s" "ssize s < 2 ^ 31"
    using assms by (simp_all add: String_has_def String_wf_def)
  have "getData s ! nat (ssize s - 1) \<noteq> 0"
    using getData_last [OF assms(1,2)] assms(3) by simp
  then have "String_write s buf
      = writeBinary_Int32 (ssize s + 1) buf @ take (size_t_of_Int32 (ssize s)) (getData s) @ [0]"
    using assms(2) by (simp add: String_write_def)
  also have "size_t_of_Int32 (ssize s) = nat (ssize s)"
    using n by (rule size_t_of_Int32_nonneg)
  also have "take (nat (ssize s)) (getData s) = String_bytes s"
    using String_bytes_take [OF assms(1) n(1)] by simp
  also have "writeBinary_Int32 (ssize s + 1) buf = buf @ writeBinary_Int32 (ssize s + 1) []"
    by (rule writeBinary_Int32_append)
  finally show ?thesis by simp
qed

lemma String_write_zero:
  assumes "String_wf s" "String_has s" "last (String_bytes s) = 0"
  shows "String_write s buf = buf @ writeBinary_Int32 (ssize s) [] @ String_bytes s"
proof -
  have n: "0 \<le> ssize s" "ssize s < 2 ^ 31"
    using assms by (simp_all add: String_has_def String_wf_def)
  have "getData s ! nat (ssize s - 1) = 0"
    using getData_last [OF assms(1,2)] assms(3) by simp
  then have "String_write s buf
      = writeBinary_Int32 (ssize s) buf @ take (size_t_of_Int32 (ssize s)) (getData s)"
    using assms(2) by (simp add: String_write_def)
  also have "size_t_of_Int32 (ssize s) = nat (ssize s)"
    using n by (rule size_t_of_Int32_nonneg)
  also have "take (nat (ssize s)) (getData s) = String_bytes s"
    using String_bytes_take [OF assms(1) n(1)] by simp
  also have "writeBinary_Int32 (ssize s) buf = buf @ writeBinary_Int32 (ssize s) []"
    by (rule writeBinary_Int32_append)
  finally show ?thesis by simp
qed

lemma String_change_row_ok:
  assumes "String_wf s" "length v \<le> 2 ^ 30"
  shows "String_wf (String_change_row s v)"
    and "ssize (String_change_row s v) = int (length v)"
    and "String_bytes (String_change_row s v) = v"
  using String_changeImpl_ok [of s "getDataAt v"] assms
  by (simp_all add: String_change_row_def getDataAt_def StringRef_bytes_def)

lemma String_change_state_ok:
  assumes "String_wf s" "String_wf t" "0 \<le> ssize t" "ssize t \<le> 2 ^ 30"
  shows "String_wf (String_change_state s t)"
    and "ssize (String_change_state s t) = ssize t"
    and "String_bytes (String_change_state s t) = String_bytes t"
proof -
  have v: "ref_size (getStringRef t) = nat (ssize t)"
    "ref_size (getStringRef t) \<le> length (ref_data (getStringRef t))"
    using getStringRef_valid [OF assms(2,3)] by simp_all
  have b: "ref_size (getStringRef t) \<le> 2 ^ 30"
    using assms(3,4) unfolding v(1) by (simp add: nat_le_iff)
  show "String_wf (String_change_state s t)"
    unfolding String_change_state_def
    using assms(1) v(2) b by (rule String_changeImpl_ok(1))
  show "ssize (String_change_state s t) = ssize t"
    unfolding String_change_state_def
    using String_changeImpl_ok(2) [OF assms(1) v(2) b] v(1) assms(3) by simp
  show "String_bytes (String_change_state s t) = String_bytes t"
    unfolding String_change_state_def
    using String_changeImpl_ok(3) [OF assms(1) v(2) b] by (simp add: String_bytes_def)
qed

lemma writeBinary_Int32_4: "writeBinary_Int32 4 [] = [4, 0, 0, 0]"
  by (simp add: writeBinary_Int32_def bytes_le_4)

lemma String_has_init: "\<not> String_has (String_init g)"
  by (simp add: String_has_def String_init_def)

lemma ssize_String_init: "ssize (String_init g) = - 1"
  by (simp add: String_init_def)

lemma StringRef_bytes_getDataAt: "StringRef_bytes (getDataAt v) = v"
  by (simp add: StringRef_bytes_def getDataAt_def)

lemma String_less_row:
  assumes "String_wf s" "String_has s"
  shows "StringRef_less (getDataAt v) (getStringRef s) = (v < String_bytes s)"
    and "StringRef_greater (getDataAt v) (getStringRef s) = (String_bytes s < v)"
    and "StringRef_equal (getDataAt v) (getStringRef s) = (v = String_bytes s)"
proof -
  have n: "0 \<le> ssize s" using assms(2) by (simp add: String_has_def)
  have a: "ref_size (getDataAt v) \<le> length (ref_data (getDataAt v))"
    by (simp add: getDataAt_def)
  note b = getStringRef_valid(2) [OF assms(1) n]
  show "StringRef_less (getDataAt v) (getStringRef s) = (v < String_bytes s)"
    using StringRef_less_iff [OF a b] by (simp add: StringRef_bytes_getDataAt String_bytes_def)
  show "StringRef_greater (getDataAt v) (getStringRef s) = (String_bytes s < v)"
    using StringRef_greater_iff [OF a b] by (simp add: StringRef_bytes_getDataAt String_bytes_def)
  show "StringRef_equal (getDataAt v) (getStringRef s) = (v = String_bytes s)"
    using StringRef_equal_iff [OF a b] by (simp add: StringRef_bytes_getDataAt String_bytes_def)
qed

lemma String_less_state:
  assumes "String_wf s" "String_has s" "String_wf t" "String_has t"
  shows "StringRef_less (getStringRef t) (getStringRef s) = (String_bytes t < String_bytes s)"
    and "StringRef_greater (getStringRef t) (getStringRef s) = (String_bytes s < String_bytes t)"
    and "StringRef_equal (getStringRef t) (getStringRef s) = (String_bytes t = String_bytes s)"
proof -
  have n: "0 \<le> ssize s" "0 \<le> ssize t" using assms(2,4) by (simp_all add: String_has_def)
  note a = getStringRef_valid(2) [OF assms(3) n(2)]
  note b = getStringRef_valid(2) [OF assms(1) n(1)]
  show "StringRef_less (getStringRef t) (getStringRef s) = (String_bytes t < String_bytes s)"
    using StringRef_less_iff [OF a b] by (simp add: String_bytes_def)
  show "StringRef_greater (getStringRef t) (getStringRef s) = (String_bytes s < String_bytes t)"
    using StringRef_greater_iff [OF a b] by (simp add: String_bytes_def)
  show "StringRef_equal (getStringRef t) (getStringRef s) = (String_bytes t = String_bytes s)"
    using StringRef_equal_iff [OF a b] by (simp add: String_bytes_def)
qed

lemma String_has_bytes: "String_wf s \<Longrightarrow> String_has s \<Longrightarrow> String_bytes s \<noteq> []"
  using length_String_bytes [of s] by (auto simp add: String_has_def)

lemma String_insertResultInto_empty: "\<not> String_has s \<Longrightarrow> String_insertResultInto s to = to @ [[]]"
  by (simp add: String_insertResultInto_def)

lemma String_change_row_Nil: "ssize (String_change_row s []) = 0"
  by (simp add: String_change_row_def String_changeImpl_def getDataAt_def static_cast_Int32_def
      MAX_SMALL_STRING_SIZE_def AUTOMATIC_STORAGE_SIZE_def)

lemma String_change_state_zero: "ssize t = 0 \<Longrightarrow> ssize (String_change_state s t) = 0"
  by (simp add: String_change_state_def String_changeImpl_def getStringRef_def static_cast_Int32_def
      size_t_of_Int32_def MAX_SMALL_STRING_SIZE_def AUTOMATIC_STORAGE_SIZE_def)

lemma Fixed_compare_changes:
  fixes D :: "('a::{linorder,zero} SingleValueDataFixed, 'a, 'a) Data"
  assumes "D = SingleValueDataFixed enc dec"
  shows "fst (changeIfLess_row D s v) = (\<not> has D s \<or> v < value_T s)"
    and "fst (changeIfGreater_row D s v) = (\<not> has D s \<or> value_T s < v)"
    and "fst (changeIfLess_state D s t) = (has D t \<and> (\<not> has D s \<or> value_T t < value_T s))"
    and "fst (changeIfGreater_state D s t) = (has D t \<and> (\<not> has D s \<or> value_T s < value_T t))"
    and "snd (changeIfLess_row D s v) = (if fst (changeIfLess_row D s v) then change_row D s v else s)"
    and "snd (changeIfGreater_row D s v)
           = (if fst (changeIfGreater_row D s v) then change_row D s v else s)"
    and "snd (changeIfLess_state D s t)
           = (if fst (changeIfLess_state D s t) then change_state D s t else s)"
    and "snd (changeIfGreater_state D s t)
           = (if fst (changeIfGreater_state D s t) then change_state D s t else s)"
    and "has D (change_row D s v) \<and> value_T (change_row D s v) = v"
    and "has D (change_state D s t) \<and> value_T (change_state D s t) = value_T t"
  unfolding assms by (simp_all add: Fixed_defs)

lemma Generic_compare_changes:
  fixes D :: "('f::linorder SingleValueDataGeneric, 'f Field, 'f) Data"
  assumes "D = SingleValueDataGeneric dflt ser deser"
  shows "fst (changeIfLess_row D s v) = (\<not> has D s \<or> Field_less v (value_Field s))"
    and "fst (changeIfGreater_row D s v) = (\<not> has D s \<or> Field_less (value_Field s) v)"
    and "fst (changeIfLess_state D s t)
           = (has D t \<and> (\<not> has D s \<or> Field_less (value_Field t) (value_Field s)))"
    and "fst (changeIfGreater_state D s t)
           = (has D t \<and> (\<not> has D s \<or> Field_less (value_Field s) (value_Field t)))"
    and "snd (changeIfLess_row D s v) = (if fst (changeIfLess_row D s v) then change_row D s v else s)"
    and "snd (changeIfGreater_row D s v)
           = (if fst (changeIfGreater_row D s v) then change_row D s v else s)"
    and "snd (changeIfLess_state D s t)
           = (if fst (changeIfLess_state D s t) then change_state D s t else s)"
    and "snd (changeIfGreater_state D s t)
           = (if fst (changeIfGreater_state D s t) then change_state D s t else s)"
    and "value_Field (change_row D s v) = v"
    and "value_Field (change_state D s t) = value_Field t"
    and "has D s = (value_Field s \<noteq> Null)"
  unfolding assms by (simp_all add: Generic_defs Field_greater_def Let_def)

lemma String_compare_changes_row:
  assumes "String_wf s"
  shows "fst (changeIfLess_row SingleValueDataString s v)
           = (\<not> has SingleValueDataString s \<or> v < String_bytes s)"
    and "fst (changeIfGreater_row SingleValueDataString s v)
           = (\<not> has SingleValueDataString s \<or> String_bytes s < v)"
    and "snd (changeIfLess_row SingleValueDataString s v)
           = (if fst (changeIfLess_row SingleValueDataString s v)
              then change_row SingleValueDataString s v else s)"
    and "snd (changeIfGreater_row SingleValueDataString s v)
           = (if fst (changeIfGreater_row SingleValueDataString s v)
              then change_row SingleValueDataString s v else s)"
  using String_less_row(1,2) [OF assms, of v]
  by (auto simp add: String_defs)

lemma String_compare_changes_state:
  assumes "String_wf s" "String_wf t"
  shows "fst (changeIfLess_state SingleValueDataString s t)
           = (has SingleValueDataString t \<and>
              (\<not> has SingleValueDataString s \<or> String_bytes t < String_bytes s))"
    and "fst (changeIfGreater_state SingleValueDataString s t)
           = (has SingleValueDataString t \<and>
              (\<not> has SingleValueDataString s \<or> String_bytes s < String_bytes t))"
    and "snd (changeIfLess_state SingleValueDataString s t)
           = (if fst (changeIfLess_state SingleValueDataString s t)
              then change_state SingleValueDataString s t else s)"
    and "snd (changeIfGreater_state SingleValueDataString s t)
           = (if fst (changeIfGreater_state SingleValueDataString s t)
              then change_state SingleValueDataString s t else s)"
  using String_less_state(1,2) [OF assms(1) _ assms(2)]
  by (auto simp add: String_defs)

lemma String_change_stores:
  assumes "String_wf s"
  shows "length v \<le> 2 ^ 30 \<Longrightarrow> String_bytes (change_row SingleValueDataString s v) = v"
    and "length v \<le> 2 ^ 30 \<Longrightarrow> String_wf (change_row SingleValueDataString s v)"
    and "String_wf t \<Longrightarrow> has SingleValueDataString t \<Longrightarrow> ssize t \<le> 2 ^ 30 \<Longrightarrow>
           String_bytes (change_state SingleValueDataString s t) = String_bytes t"
    and "String_wf t \<Longrightarrow> has SingleValueDataString t \<Longrightarrow> ssize t \<le> 2 ^ 30 \<Longrightarrow>
           String_wf (change_state SingleValueDataString s t)"
    and "has SingleValueDataString s = (String_bytes s \<noteq> [] \<and> 0 \<le> ssize s)"
proof -
  show "length v \<le> 2 ^ 30 \<Longrightarrow> String_bytes (change_row SingleValueDataString s v) = v"
    using String_change_row_ok(3) [OF assms] by (simp add: SingleValueDataString_def)
  show "length v \<le> 2 ^ 30 \<Longrightarrow> String_wf (change_row SingleValueDataString s v)"
    using String_change_row_ok(1) [OF assms] by (simp add: SingleValueDataString_def)
  show "String_wf t \<Longrightarrow> has SingleValueDataString t \<Longrightarrow> ssize t \<le> 2 ^ 30 \<Longrightarrow>
           String_bytes (change_state SingleValueDataString s t) = String_bytes t"
    using String_change_state_ok(3) [OF assms, of t]
    by (simp add: SingleValueDataString_def String_has_def)
  show "String_wf t \<Longrightarrow> has SingleValueDataString t \<Longrightarrow> ssize t \<le> 2 ^ 30 \<Longrightarrow>
           String_wf (change_state SingleValueDataString s t)"
    using String_change_state_ok(1) [OF assms, of t]
    by (simp add: SingleValueDataString_def String_has_def)
  show "has SingleValueDataString s = (String_bytes s \<noteq> [] \<and> 0 \<le> ssize s)"
  proof (cases "0 \<le> ssize s")
    case True
    have "(String_bytes s \<noteq> []) = (0 < length (String_bytes s))"
      by simp
    also have "\<dots> = (1 \<le> ssize s)"
      using length_String_bytes [OF assms True] by auto
    finally show ?thesis
      using True by (simp add: SingleValueDataString_def String_has_def)
  next
    case False
    then show ?thesis
      by (simp add: SingleValueDataString_def String_has_def)
  qed
qed

lemma String_row_98:
  shows "String_wf (String_change_row (String_init (replicate 48 0)) [98])"
    and "String_bytes (String_change_row (String_init (replicate 48 0)) [98]) = [98]"
    and "ssize (String_change_row (String_init (replicate 48 0)) [98]) = 1"
    and "String_has (String_change_row (String_init (replicate 48 0)) [98])"
proof -
  have w: "String_wf (String_init (replicate 48 0))"
    by (simp add: String_wf_init)
  have l: "length [98 :: byte] \<le> 2 ^ 30"
    by simp
  note a = String_change_row_ok [OF w l]
  show "String_wf (String_change_row (String_init (replicate 48 0)) [98])" by (rule a)
  show "String_bytes (String_change_row (String_init (replicate 48 0)) [98]) = [98]" by (rule a)
  show "ssize (String_change_row (String_init (replicate 48 0)) [98]) = 1" using a(2) by simp
  then show "String_has (String_change_row (String_init (replicate 48 0)) [98])"
    by (simp add: String_has_def)
qed

lemma has_Fixed_UInt64: "has SingleValueDataFixed_UInt64 s = has_value s"
  by (simp add: SingleValueDataFixed_UInt64_def SingleValueDataFixed_def Fixed_has_def)

lemma write_buf_append_Fixed: "Fixed_write enc s buf = buf @ Fixed_write enc s []"
  by (simp add: Fixed_write_def writeBinary_bool_def Let_def)

lemma Fixed_roundtrip:
  assumes "\<And>v r. dec (enc v @ r) = Some (v, r)"
  shows "Fixed_read dec d (Fixed_write enc s [] @ rest)
           = Inr (d\<lparr>has_value := has_value s,
                    value_T := (if has_value s then value_T s else value_T d)\<rparr>, rest)"
  using assms
  by (simp add: Fixed_read_def Fixed_write_def writeBinary_bool_def readBinary_bool_def
      Fixed_has_def Let_def)

lemma UInt64_codec: "readBinary_T_UInt64 (writeBinary_T_UInt64 v @ r) = Some (v, r)"
  by (simp add: readBinary_T_UInt64_def writeBinary_T_UInt64_def
      readBinary_UInt64_writeBinary_UInt64)

lemma UInt64_Field_codec:
  "v \<noteq> Null \<Longrightarrow> deserializeBinary_UInt64 (serializeBinary_UInt64 v @ r) = Some (v, r)"
  by (cases v)
     (simp_all add: deserializeBinary_UInt64_def serializeBinary_UInt64_def
        readBinary_UInt64_writeBinary_UInt64)

lemma Generic_roundtrip:
  assumes "\<And>v r. v \<noteq> Null \<Longrightarrow> deser (ser v @ r) = Some (v, r)"
  shows "Generic_read deser Generic_init (Generic_write ser s [] @ rest) = Inr (s, rest)"
  using assms
  by (simp add: Generic_read_def Generic_write_def writeBinary_bool_def readBinary_bool_def
      Generic_init_def)

lemma write_buf_append_Generic: "Generic_write ser s buf = buf @ Generic_write ser s []"
  by (simp add: Generic_write_def writeBinary_bool_def)

lemma readStrict_append: "readStrict (B @ rest) (length B) = Inr (B, rest)"
  by (simp add: readStrict_def)

lemma String_read_changeImpl:
  assumes "length B < 2 ^ 31"
  shows "String_read d (writeBinary_Int32 (int (length B)) [] @ B @ rest)
           = Inr (String_changeImpl d (getDataAt B), rest)"
proof -
  have c: "static_cast_Int32 (int (length B)) = int (length B)"
    using assms by (simp add: static_cast_Int32_id)
  have t: "size_t_of_Int32 (int (length B)) = length B"
    using assms by (simp add: size_t_of_Int32_def)
  show ?thesis
  proof (cases "int (length B) \<le> MAX_SMALL_STRING_SIZE")
    case True
    then show ?thesis
      by (simp add: String_read_def String_changeImpl_def readBinary_Int32_writeBinary_Int32
          c t getDataAt_def readStrict_append Let_def)
  next
    case False
    then show ?thesis
      by (simp add: String_read_def String_changeImpl_def readBinary_Int32_writeBinary_Int32
          c t getDataAt_def readStrict_append Let_def)
  qed
qed

lemma String_insertResultInto_bytes:
  assumes "String_wf s"
  shows "String_insertResultInto s to =
           to @ [if String_has s
                 then (if last (String_bytes s) \<noteq> 0 then String_bytes s
                       else butlast (String_bytes s))
                 else []]"
proof (cases "String_has s")
  case False
  then show ?thesis by (simp add: String_insertResultInto_empty)
next
  case True
  have n: "0 \<le> ssize s" "1 \<le> ssize s" "ssize s < 2 ^ 31"
    using True assms by (simp_all add: String_has_def String_wf_def)
  note l = getData_last [OF assms True]
  note b = String_bytes_take [OF assms n(1)]
  have len: "nat (ssize s) \<le> length (getData s)"
    using getStringRef_valid [OF assms n(1)] by (simp add: getStringRef_def)
  have t1: "size_t_of_Int32 (ssize s) = nat (ssize s)"
    using n by (simp add: size_t_of_Int32_nonneg)
  have t2: "size_t_of_Int32 (ssize s - 1) = nat (ssize s) - 1"
    using n by (simp add: size_t_of_Int32_nonneg nat_diff_distrib)
  have bl: "butlast (String_bytes s) = take (nat (ssize s) - 1) (getData s)"
    unfolding b using len by (rule butlast_take)
  show ?thesis
  proof (cases "last (String_bytes s) = 0")
    case True
    then show ?thesis
      using \<open>String_has s\<close> l n
      by (simp add: String_insertResultInto_def Let_def t1 t2 bl)
  next
    case False
    then show ?thesis
      using \<open>String_has s\<close> l n
      by (simp add: String_insertResultInto_def Let_def t1 t2 b [symmetric])
  qed
qed

lemma String_write_bytes:
  assumes "String_wf s"
  shows "\<exists>B. String_write s [] = writeBinary_Int32 (int (length B)) [] @ B \<and>
             B \<noteq> [] \<and>
             int (length B) \<le> (if String_has s then ssize s + 1 else 1) \<and>
             (if last B \<noteq> 0 then B else butlast B)
               = (if String_has s
                  then (if last (String_bytes s) \<noteq> 0 then String_bytes s
                        else butlast (String_bytes s))
                  else [])"
proof (cases "String_has s")
  case False
  have "String_write s [] = writeBinary_Int32 (int (length [0 :: byte])) [] @ [0]"
    using String_write_empty [OF False, of "[]"] by (simp add: writeBinary_Int32_1)
  then show ?thesis
    using False by (intro exI [of _ "[0]"]) simp
next
  case True
  have len: "int (length (String_bytes s)) = ssize s"
    using length_String_bytes [OF assms] True by (simp add: String_has_def)
  have ne: "String_bytes s \<noteq> []"
    using String_has_bytes [OF assms True] .
  show ?thesis
  proof (cases "last (String_bytes s) = 0")
    case z: True
    have "String_write s [] = writeBinary_Int32 (int (length (String_bytes s))) [] @ String_bytes s"
      using String_write_zero [OF assms True z, of "[]"] by (simp add: len)
    then show ?thesis
      using True z ne len by (intro exI [of _ "String_bytes s"]) simp
  next
    case nz: False
    have "String_write s []
        = writeBinary_Int32 (int (length (String_bytes s @ [0]))) [] @ (String_bytes s @ [0])"
      using String_write_nonzero [OF assms True nz, of "[]"] len by (simp add: add.commute)
    then show ?thesis
      using True nz len by (intro exI [of _ "String_bytes s @ [0]"]) simp
  qed
qed

lemma String_roundtrip:
  assumes "String_wf s" "String_wf d" "ssize s < 2 ^ 30"
  shows "\<exists>s'. String_read d (String_write s [] @ rest) = Inr (s', rest) \<and>
              String_wf s' \<and>
              String_insertResultInto s' to = String_insertResultInto s to"
proof -
  obtain B where B:
    "String_write s [] = writeBinary_Int32 (int (length B)) [] @ B"
    "B \<noteq> []"
    "int (length B) \<le> (if String_has s then ssize s + 1 else 1)"
    "(if last B \<noteq> 0 then B else butlast B)
       = (if String_has s
          then (if last (String_bytes s) \<noteq> 0 then String_bytes s else butlast (String_bytes s))
          else [])"
    using String_write_bytes [OF assms(1)] by blast
  have lB: "length B \<le> 2 ^ 30"
    using B(3) assms(3) by (simp split: if_splits)
  define s' where "s' = String_changeImpl d (getDataAt B)"
  have r: "String_read d (String_write s [] @ rest) = Inr (s', rest)"
    unfolding B(1) s'_def using String_read_changeImpl [of B d rest] lB by simp
  have v: "ref_size (getDataAt B) \<le> length (ref_data (getDataAt B))"
    "ref_size (getDataAt B) \<le> 2 ^ 30"
    using lB by (simp_all add: getDataAt_def)
  note ok = String_changeImpl_ok [OF assms(2) v, folded s'_def]
  have bytes: "String_bytes s' = B"
    using ok(3) by (simp add: StringRef_bytes_getDataAt)
  have has: "String_has s'"
    using ok(2) B(2) by (simp add: String_has_def getDataAt_def Suc_le_eq)
  have "String_insertResultInto s' to = to @ [if last B \<noteq> 0 then B else butlast B]"
    using String_insertResultInto_bytes [OF ok(1), of to] has bytes by simp
  also have "\<dots> = to @ [if String_has s
          then (if last (String_bytes s) \<noteq> 0 then String_bytes s else butlast (String_bytes s))
          else []]"
    by (simp only: B(4))
  also have "\<dots> = String_insertResultInto s to"
    by (rule String_insertResultInto_bytes [OF assms(1), symmetric])
  finally have "String_insertResultInto s' to = String_insertResultInto s to" .
  then show ?thesis
    using r ok(1) by blast
qed

lemma AnyHeavy_roundtrip:
  assumes "\<And>buf. write_buf D s buf = buf @ write_buf D s []"
    and "read_buf D d (write_buf D s [] @ writeBinary_UInt64 c [] @ rest)
           = Inr (s', writeBinary_UInt64 c [] @ rest)"
  shows "AnyHeavy_read D \<lparr>anyHeavy_Data = d, counter = c0\<rparr>
           (AnyHeavy_write D \<lparr>anyHeavy_Data = s, counter = c\<rparr> [] @ rest)
         = Inr (\<lparr>anyHeavy_Data = s', counter = c\<rparr>, rest)"
proof -
  have "AnyHeavy_write D \<lparr>anyHeavy_Data = s, counter = c\<rparr> []
      = write_buf D s [] @ writeBinary_UInt64 c []"
    using writeBinary_UInt64_append [of c "write_buf D s []"] by (simp add: AnyHeavy_write_def)
  then show ?thesis
    using assms(2) by (simp add: AnyHeavy_read_def readBinary_UInt64_writeBinary_UInt64)
qed

lemma String_abc_read:
  assumes "length g = 48"
  shows "\<exists>s'. String_read (String_init g) [4, 0, 0, 0, 97, 98, 99, 0] = Inr (s', []) \<and>
              String_insertResultInto s' [] = [[97, 98, 99]]"
proof -
  define B :: "byte list" where "B = [97, 98, 99, 0]"
  define s' where "s' = String_changeImpl (String_init g) (getDataAt B)"
  have w: "String_wf (String_init g)"
    using assms by (rule String_wf_init)
  have "String_read (String_init g) (writeBinary_Int32 (int (length B)) [] @ B @ []) = Inr (s', [])"
    unfolding s'_def by (rule String_read_changeImpl) (simp add: B_def)
  then have r: "String_read (String_init g) [4, 0, 0, 0, 97, 98, 99, 0] = Inr (s', [])"
    by (simp add: B_def writeBinary_Int32_4)
  have v: "ref_size (getDataAt B) \<le> length (ref_data (getDataAt B))"
    "ref_size (getDataAt B) \<le> 2 ^ 30"
    by (simp_all add: getDataAt_def B_def)
  note ok = String_changeImpl_ok [OF w v, folded s'_def]
  have "String_bytes s' = B"
    using ok(3) by (simp only: StringRef_bytes_getDataAt)
  moreover have "String_has s'"
    using ok(2) by (simp add: String_has_def getDataAt_def B_def)
  ultimately
  have "String_insertResultInto s' [] = [[97, 98, 99]]"
    using String_insertResultInto_bytes [OF ok(1), of "[]"] by (simp add: B_def)
  then show ?thesis
    using r by blast
qed

lemma String_abc_write:
  assumes "length g = 48"
  shows "String_write (String_change_row (String_init g) [97, 98, 99]) []
           = [4, 0, 0, 0, 97, 98, 99, 0]"
    and "String_insertResultInto (String_change_row (String_init g) [97, 98, 99]) []
           = [[97, 98, 99]]"
proof -
  have w: "String_wf (String_init g)"
    using assms by (rule String_wf_init)
  have l: "length [97, 98, 99 :: byte] \<le> 2 ^ 30"
    by simp
  note a = String_change_row_ok [OF w l]
  have h: "String_has (String_change_row (String_init g) [97, 98, 99])"
    by (simp add: String_has_def a)
  show "String_write (String_change_row (String_init g) [97, 98, 99]) []
           = [4, 0, 0, 0, 97, 98, 99, 0]"
    using String_write_nonzero [OF a(1) h, of "[]"] by (simp add: a writeBinary_Int32_4)
  show "String_insertResultInto (String_change_row (String_init g) [97, 98, 99]) []
           = [[97, 98, 99]]"
    using String_insertResultInto_bytes [OF a(1), of "[]"] h by (simp add: a)
qed

lemma write_buf_append_String: "String_write s buf = buf @ String_write s []"
  using writeBinary_Int32_append [of _ buf]
  by (simp add: String_write_def Let_def)

lemma String_emit_98:
  "insertResultInto SingleValueDataString (String_change_row (String_init (replicate 48 0)) [98]) []
     = [[98]]"
  using String_insertResultInto_bytes [OF String_row_98(1), of "[]"]
  by (simp add: SingleValueDataString_def String_row_98)

section \<open>Rows added one by one, seen through the stored value\<close>

text \<open>
  \<open>\<alpha>\<close> reads the stored value of a state (\<open>None\<close> when it has none), \<open>I\<close> is what the
  states keep, \<open>V\<close> the values the rows range over and \<open>\<iota>\<close> how a value stands in a row.
  If one \<open>add\<close> acts on the stored value as \<open>f\<close> does, the rows of a sequence act as the
  left fold of \<open>f\<close>.
\<close>

lemma addRows_abstraction:
  assumes step: "\<And>s v. I s \<Longrightarrow> v \<in> V \<Longrightarrow>
      I (add P s (\<iota> v)) \<and> \<alpha> (add P s (\<iota> v)) = Some (f (\<alpha> s) v)"
    and "I s" and "set xs \<subseteq> V"
  shows "I (addRows P s (map \<iota> xs)) \<and>
         \<alpha> (addRows P s (map \<iota> xs)) = foldl (\<lambda>a v. Some (f a v)) (\<alpha> s) xs"
  using assms(2,3)
proof (induction xs arbitrary: s)
  case Nil
  then show ?case by (simp add: addRows_def)
next
  case (Cons x xs)
  have x: "x \<in> V" and xs: "set xs \<subseteq> V"
    using Cons.prems(2) by simp_all
  note st = step [OF Cons.prems(1) x]
  have "addRows P s (map \<iota> (x # xs)) = addRows P (add P s (\<iota> x)) (map \<iota> xs)"
    by (simp add: addRows_def)
  then show ?case
    using Cons.IH [of "add P s (\<iota> x)"] st xs by simp
qed

lemma foldl_keep_min:
  "foldl (\<lambda>a v. Some (case a of None \<Rightarrow> v | Some w \<Rightarrow> min w v)) (Some x) r
     = Some (foldl min (x :: 'a :: linorder) r)"
  by (induction r arbitrary: x) simp_all

lemma foldl_keep_max:
  "foldl (\<lambda>a v. Some (case a of None \<Rightarrow> v | Some w \<Rightarrow> max w v)) (Some x) r
     = Some (foldl max (x :: 'a :: linorder) r)"
  by (induction r arbitrary: x) simp_all

lemma foldl_keep_first:
  "foldl (\<lambda>a v. Some (case a of None \<Rightarrow> v | Some w \<Rightarrow> w)) (Some x) r = Some x"
  by (induction r) simp_all

lemma foldl_keep_last:
  "foldl (\<lambda>a v. Some v) a r = (if r = [] then a else Some (last r))"
  by (induction r arbitrary: a) simp_all

lemma foldl_min_Min: "foldl min x r = Min (insert (x :: 'a :: linorder) (set r))"
proof -
  have "foldl min x r = fold min r x"
    by (simp add: foldl_conv_fold min.commute)
  also have "\<dots> = Min (set (x # r))"
    by (rule Min.set_eq_fold [symmetric])
  finally show ?thesis by simp
qed

lemma foldl_max_Max: "foldl max x r = Max (insert (x :: 'a :: linorder) (set r))"
proof -
  have "foldl max x r = fold max r x"
    by (simp add: foldl_conv_fold max.commute)
  also have "\<dots> = Max (set (x # r))"
    by (rule Max.set_eq_fold [symmetric])
  finally show ?thesis by simp
qed

lemma fold_min_shuffles:
  fixes ws :: "'a :: linorder list"
  assumes "ws \<in> shuffles xs ys"
  shows "(case ys of [] \<Rightarrow> (case xs of [] \<Rightarrow> None | x # r \<Rightarrow> Some (foldl min x r))
          | y # q \<Rightarrow> Some (case (case xs of [] \<Rightarrow> None | x # r \<Rightarrow> Some (foldl min x r)) of
                              None \<Rightarrow> foldl min y q
                            | Some u \<Rightarrow> min u (foldl min y q)))
         = (case ws of [] \<Rightarrow> None | w # p \<Rightarrow> Some (foldl min w p))"
proof -
  have s: "set ws = set xs \<union> set ys"
    using assms by (rule set_shuffles)
  have e: "(ws = []) = (xs = [] \<and> ys = [])"
    using s by auto
  show ?thesis
  proof (cases ys)
    case Nil
    then have "ws = xs"
      using assms by simp
    then show ?thesis using Nil by simp
  next
    case (Cons y q)
    then obtain w p where w: "ws = w # p"
      using e by (cases ws) simp_all
    have wq: "insert w (set p) = set xs \<union> insert y (set q)"
      using s w Cons by simp
    show ?thesis
    proof (cases xs)
      case Nil
      then show ?thesis
        using Cons w wq by (simp add: foldl_min_Min)
    next
      case (Cons x r)
      have "Min (insert x (set r) \<union> insert y (set q))
          = min (Min (insert x (set r))) (Min (insert y (set q)))"
        by (rule Min_Un) simp_all
      then show ?thesis
        using Cons \<open>ys = y # q\<close> w wq by (simp add: foldl_min_Min)
    qed
  qed
qed

lemma fold_max_shuffles:
  fixes ws :: "'a :: linorder list"
  assumes "ws \<in> shuffles xs ys"
  shows "(case ys of [] \<Rightarrow> (case xs of [] \<Rightarrow> None | x # r \<Rightarrow> Some (foldl max x r))
          | y # q \<Rightarrow> Some (case (case xs of [] \<Rightarrow> None | x # r \<Rightarrow> Some (foldl max x r)) of
                              None \<Rightarrow> foldl max y q
                            | Some u \<Rightarrow> max u (foldl max y q)))
         = (case ws of [] \<Rightarrow> None | w # p \<Rightarrow> Some (foldl max w p))"
proof -
  have s: "set ws = set xs \<union> set ys"
    using assms by (rule set_shuffles)
  have e: "(ws = []) = (xs = [] \<and> ys = [])"
    using s by auto
  show ?thesis
  proof (cases ys)
    case Nil
    then have "ws = xs"
      using assms by simp
    then show ?thesis using Nil by simp
  next
    case (Cons y q)
    then obtain w p where w: "ws = w # p"
      using e by (cases ws) simp_all
    have wq: "insert w (set p) = set xs \<union> insert y (set q)"
      using s w Cons by simp
    show ?thesis
    proof (cases xs)
      case Nil
      then show ?thesis
        using Cons w wq by (simp add: foldl_max_Max)
    next
      case (Cons x r)
      have "Max (insert x (set r) \<union> insert y (set q))
          = max (Max (insert x (set r))) (Max (insert y (set q)))"
        by (rule Max_Un) simp_all
      then show ?thesis
        using Cons \<open>ys = y # q\<close> w wq by (simp add: foldl_max_Max)
    qed
  qed
qed

section \<open>One row and one merge, seen through the stored value\<close>

text \<open>
  What one \<open>add\<close> and one \<open>merge\<close> of each policy do to the stored value of each slot,
  what a state emits, and that a fresh state stores nothing.
\<close>

lemma Fixed_steps:
  fixes F :: "('a::{linorder,zero} SingleValueDataFixed, 'a, 'a) Data"
  assumes "F = SingleValueDataFixed enc dec"
  shows "Fixed_stored (add (AggregateFunctionMinData F) s v)
           = Some (case Fixed_stored s of None \<Rightarrow> v | Some w \<Rightarrow> min w v)"
    and "Fixed_stored (add (AggregateFunctionMaxData F) s v)
           = Some (case Fixed_stored s of None \<Rightarrow> v | Some w \<Rightarrow> max w v)"
    and "Fixed_stored (add (AggregateFunctionAnyData F) s v)
           = Some (case Fixed_stored s of None \<Rightarrow> v | Some w \<Rightarrow> w)"
    and "Fixed_stored (add (AggregateFunctionAnyLastData F) s v) = Some v"
  unfolding assms
  by (auto simp add: Fixed_stored_def policy_defs adapter_defs Fixed_defs min_def max_def)

lemma Fixed_merges:
  fixes F :: "('a::{linorder,zero} SingleValueDataFixed, 'a, 'a) Data"
  assumes "F = SingleValueDataFixed enc dec"
  shows "Fixed_stored (merge (AggregateFunctionMinData F) s t)
           = (case Fixed_stored t of None \<Rightarrow> Fixed_stored s
              | Some b \<Rightarrow> Some (case Fixed_stored s of None \<Rightarrow> b | Some a \<Rightarrow> min a b))"
    and "Fixed_stored (merge (AggregateFunctionMaxData F) s t)
           = (case Fixed_stored t of None \<Rightarrow> Fixed_stored s
              | Some b \<Rightarrow> Some (case Fixed_stored s of None \<Rightarrow> b | Some a \<Rightarrow> max a b))"
    and "Fixed_stored (merge (AggregateFunctionAnyData F) s t)
           = (case Fixed_stored s of None \<Rightarrow> Fixed_stored t | Some a \<Rightarrow> Some a)"
    and "Fixed_stored (merge (AggregateFunctionAnyLastData F) s t)
           = (case Fixed_stored t of None \<Rightarrow> Fixed_stored s | Some b \<Rightarrow> Some b)"
  unfolding assms
  by (auto simp add: Fixed_stored_def policy_defs adapter_defs Fixed_defs min_def max_def)

lemma Fixed_emit:
  fixes F :: "('a::{linorder,zero} SingleValueDataFixed, 'a, 'a) Data"
  assumes "F = SingleValueDataFixed enc dec"
  shows "insertResultInto F s to = to @ [case Fixed_stored s of None \<Rightarrow> 0 | Some v \<Rightarrow> v]"
    and "has F s = (Fixed_stored s \<noteq> None)"
    and "Fixed_stored (Fixed_init g) = None"
  unfolding assms by (simp_all add: Fixed_stored_def Fixed_defs)

lemma Generic_steps:
  fixes G :: "('f::linorder SingleValueDataGeneric, 'f Field, 'f) Data"
  assumes "G = SingleValueDataGeneric dflt ser deser"
  shows "Generic_stored (add (AggregateFunctionMinData G) s (Val v))
           = Some (case Generic_stored s of None \<Rightarrow> v | Some w \<Rightarrow> min w v)"
    and "Generic_stored (add (AggregateFunctionMaxData G) s (Val v))
           = Some (case Generic_stored s of None \<Rightarrow> v | Some w \<Rightarrow> max w v)"
    and "Generic_stored (add (AggregateFunctionAnyData G) s (Val v))
           = Some (case Generic_stored s of None \<Rightarrow> v | Some w \<Rightarrow> w)"
    and "Generic_stored (add (AggregateFunctionAnyLastData G) s (Val v)) = Some v"
  unfolding assms
  by (auto simp add: Generic_stored_def policy_defs adapter_defs Generic_defs Field_greater_def
      min_def max_def Let_def split: Field.splits)

lemma Generic_merges:
  fixes G :: "('f::linorder SingleValueDataGeneric, 'f Field, 'f) Data"
  assumes "G = SingleValueDataGeneric dflt ser deser"
  shows "Generic_stored (merge (AggregateFunctionMinData G) s t)
           = (case Generic_stored t of None \<Rightarrow> Generic_stored s
              | Some b \<Rightarrow> Some (case Generic_stored s of None \<Rightarrow> b | Some a \<Rightarrow> min a b))"
    and "Generic_stored (merge (AggregateFunctionMaxData G) s t)
           = (case Generic_stored t of None \<Rightarrow> Generic_stored s
              | Some b \<Rightarrow> Some (case Generic_stored s of None \<Rightarrow> b | Some a \<Rightarrow> max a b))"
    and "Generic_stored (merge (AggregateFunctionAnyData G) s t)
           = (case Generic_stored s of None \<Rightarrow> Generic_stored t | Some a \<Rightarrow> Some a)"
    and "Generic_stored (merge (AggregateFunctionAnyLastData G) s t)
           = (case Generic_stored t of None \<Rightarrow> Generic_stored s | Some b \<Rightarrow> Some b)"
  unfolding assms
  by (auto simp add: Generic_stored_def policy_defs adapter_defs Generic_defs Field_greater_def
      min_def max_def Let_def split: Field.splits)

lemma Generic_emit:
  fixes G :: "('f::linorder SingleValueDataGeneric, 'f Field, 'f) Data"
  assumes "G = SingleValueDataGeneric dflt ser deser"
  shows "insertResultInto G s to = to @ [case Generic_stored s of None \<Rightarrow> dflt | Some v \<Rightarrow> v]"
    and "has G s = (Generic_stored s \<noteq> None)"
    and "Generic_stored Generic_init = None"
  unfolding assms by (simp_all add: Generic_stored_def Generic_defs split: Field.splits)

lemma String_inv_init: "length g = 48 \<Longrightarrow> String_inv Q (String_init g)"
  by (simp add: String_inv_def String_wf_init String_has_init)

lemma String_stored_init: "String_stored (String_init g) = None"
  by (simp add: String_stored_def String_has_init)

lemma String_change_row_plain:
  assumes "String_inv Q s" "String_nonempty v" "Q v"
  shows "String_inv Q (String_change_row s v)"
    and "String_stored (String_change_row s v) = Some v"
proof -
  have w: "String_wf s" using assms(1) by (simp add: String_inv_def)
  have l: "length v \<le> 2 ^ 30" "v \<noteq> []" using assms(2) by (simp_all add: String_nonempty_def)
  note ok = String_change_row_ok [OF w l(1)]
  have h: "String_has (String_change_row s v)"
    using ok(2) l(2) by (simp add: String_has_def Suc_le_eq)
  show "String_inv Q (String_change_row s v)"
    using ok(1,3) assms(3) l(1) by (simp add: String_inv_def)
  show "String_stored (String_change_row s v) = Some v"
    using h ok(3) by (simp add: String_stored_def)
qed

lemma String_change_state_plain:
  assumes "String_inv Q s" "String_inv Q t" "String_has t"
  shows "String_inv Q (String_change_state s t)"
    and "String_stored (String_change_state s t) = Some (String_bytes t)"
proof -
  have w: "String_wf s" "String_wf t"
    using assms(1,2) by (simp_all add: String_inv_def)
  have p: "Q (String_bytes t)" "length (String_bytes t) \<le> 2 ^ 30"
    using assms(2,3) by (simp_all add: String_inv_def)
  have n: "0 \<le> ssize t" "1 \<le> ssize t"
    using assms(3) by (simp_all add: String_has_def)
  have "int (length (String_bytes t)) = ssize t"
    using length_String_bytes [OF w(2) n(1)] n(1) by simp
  then have b: "ssize t \<le> 2 ^ 30"
    using p(2) by simp
  note ok = String_change_state_ok [OF w n(1) b]
  have h: "String_has (String_change_state s t)"
    using ok(2) n(2) by (simp add: String_has_def)
  show "String_inv Q (String_change_state s t)"
    using ok(1,3) p by (simp add: String_inv_def)
  show "String_stored (String_change_state s t) = Some (String_bytes t)"
    using h ok(3) by (simp add: String_stored_def)
qed

lemma String_steps:
  assumes "String_inv Q s" "String_nonempty v" "Q v"
  shows "String_inv Q (add (AggregateFunctionMinData SingleValueDataString) s v) \<and>
         String_stored (add (AggregateFunctionMinData SingleValueDataString) s v)
           = Some (case String_stored s of None \<Rightarrow> v | Some w \<Rightarrow> min w v)"
    and "String_inv Q (add (AggregateFunctionMaxData SingleValueDataString) s v) \<and>
         String_stored (add (AggregateFunctionMaxData SingleValueDataString) s v)
           = Some (case String_stored s of None \<Rightarrow> v | Some w \<Rightarrow> max w v)"
    and "String_inv Q (add (AggregateFunctionAnyData SingleValueDataString) s v) \<and>
         String_stored (add (AggregateFunctionAnyData SingleValueDataString) s v)
           = Some (case String_stored s of None \<Rightarrow> v | Some w \<Rightarrow> w)"
    and "String_inv Q (add (AggregateFunctionAnyLastData SingleValueDataString) s v) \<and>
         String_stored (add (AggregateFunctionAnyLastData SingleValueDataString) s v) = Some v"
proof -
  have w: "String_wf s" using assms(1) by (simp add: String_inv_def)
  note c = String_change_row_plain [OF assms]
  note r = String_compare_changes_row [OF w, of v]
  have cr: "change_row SingleValueDataString s v = String_change_row s v"
    by (simp add: SingleValueDataString_def)
  have hs: "has SingleValueDataString s = String_has s"
    by (simp add: SingleValueDataString_def)
  show "String_inv Q (add (AggregateFunctionMinData SingleValueDataString) s v) \<and>
         String_stored (add (AggregateFunctionMinData SingleValueDataString) s v)
           = Some (case String_stored s of None \<Rightarrow> v | Some w \<Rightarrow> min w v)"
    using r(1,3) c assms(1)
    by (auto simp add: add_def AggregateFunctionMinData_def cr hs String_stored_def min_def split: if_splits)
  show "String_inv Q (add (AggregateFunctionMaxData SingleValueDataString) s v) \<and>
         String_stored (add (AggregateFunctionMaxData SingleValueDataString) s v)
           = Some (case String_stored s of None \<Rightarrow> v | Some w \<Rightarrow> max w v)"
    using r(2,4) c assms(1)
    by (auto simp add: add_def AggregateFunctionMaxData_def cr hs String_stored_def max_def split: if_splits)
  show "String_inv Q (add (AggregateFunctionAnyData SingleValueDataString) s v) \<and>
         String_stored (add (AggregateFunctionAnyData SingleValueDataString) s v)
           = Some (case String_stored s of None \<Rightarrow> v | Some w \<Rightarrow> w)"
    using c assms(1)
    by (auto simp add: add_def AggregateFunctionAnyData_def SingleValueDataString_def
        String_changeFirstTime_row_def String_stored_def split: if_splits)
  show "String_inv Q (add (AggregateFunctionAnyLastData SingleValueDataString) s v) \<and>
         String_stored (add (AggregateFunctionAnyLastData SingleValueDataString) s v) = Some v"
    using c
    by (simp add: add_def AggregateFunctionAnyLastData_def SingleValueDataString_def
        String_changeEveryTime_row_def)
qed

lemma String_merges:
  assumes "String_inv Q s" "String_inv Q t"
  shows "String_stored (merge (AggregateFunctionMinData SingleValueDataString) s t)
           = (case String_stored t of None \<Rightarrow> String_stored s
              | Some b \<Rightarrow> Some (case String_stored s of None \<Rightarrow> b | Some a \<Rightarrow> min a b))"
    and "String_stored (merge (AggregateFunctionMaxData SingleValueDataString) s t)
           = (case String_stored t of None \<Rightarrow> String_stored s
              | Some b \<Rightarrow> Some (case String_stored s of None \<Rightarrow> b | Some a \<Rightarrow> max a b))"
    and "String_stored (merge (AggregateFunctionAnyData SingleValueDataString) s t)
           = (case String_stored s of None \<Rightarrow> String_stored t | Some a \<Rightarrow> Some a)"
    and "String_stored (merge (AggregateFunctionAnyLastData SingleValueDataString) s t)
           = (case String_stored t of None \<Rightarrow> String_stored s | Some b \<Rightarrow> Some b)"
    and "String_inv Q (merge (AggregateFunctionMinData SingleValueDataString) s t)"
    and "String_inv Q (merge (AggregateFunctionMaxData SingleValueDataString) s t)"
    and "String_inv Q (merge (AggregateFunctionAnyData SingleValueDataString) s t)"
    and "String_inv Q (merge (AggregateFunctionAnyLastData SingleValueDataString) s t)"
proof -
  have w: "String_wf s" "String_wf t"
    using assms by (simp_all add: String_inv_def)
  note r = String_compare_changes_state [OF w]
  have cs: "change_state SingleValueDataString s t = String_change_state s t"
    by (simp add: SingleValueDataString_def)
  have hs: "has SingleValueDataString s = String_has s" "has SingleValueDataString t = String_has t"
    by (simp_all add: SingleValueDataString_def)
  note c = String_change_state_plain [OF assms]
  show "String_stored (merge (AggregateFunctionMinData SingleValueDataString) s t)
           = (case String_stored t of None \<Rightarrow> String_stored s
              | Some b \<Rightarrow> Some (case String_stored s of None \<Rightarrow> b | Some a \<Rightarrow> min a b))"
    using r(1,3) c
    by (auto simp add: merge_def AggregateFunctionMinData_def cs hs String_stored_def min_def split: if_splits)
  show "String_stored (merge (AggregateFunctionMaxData SingleValueDataString) s t)
           = (case String_stored t of None \<Rightarrow> String_stored s
              | Some b \<Rightarrow> Some (case String_stored s of None \<Rightarrow> b | Some a \<Rightarrow> max a b))"
    using r(2,4) c
    by (auto simp add: merge_def AggregateFunctionMaxData_def cs hs String_stored_def max_def split: if_splits)
  show "String_stored (merge (AggregateFunctionAnyData SingleValueDataString) s t)
           = (case String_stored s of None \<Rightarrow> String_stored t | Some a \<Rightarrow> Some a)"
    using c
    by (auto simp add: merge_def AggregateFunctionAnyData_def SingleValueDataString_def
        String_changeFirstTime_state_def String_stored_def split: if_splits)
  show "String_stored (merge (AggregateFunctionAnyLastData SingleValueDataString) s t)
           = (case String_stored t of None \<Rightarrow> String_stored s | Some b \<Rightarrow> Some b)"
    using c
    by (auto simp add: merge_def AggregateFunctionAnyLastData_def SingleValueDataString_def
        String_changeEveryTime_state_def String_stored_def split: if_splits)
  show "String_inv Q (merge (AggregateFunctionMinData SingleValueDataString) s t)"
    using r(3) c(1) assms(1)
    by (auto simp add: merge_def AggregateFunctionMinData_def cs hs r(1))
  show "String_inv Q (merge (AggregateFunctionMaxData SingleValueDataString) s t)"
    using r(4) c(1) assms(1)
    by (auto simp add: merge_def AggregateFunctionMaxData_def cs hs r(2))
  show "String_inv Q (merge (AggregateFunctionAnyData SingleValueDataString) s t)"
    using c(1) assms(1)
    by (auto simp add: merge_def AggregateFunctionAnyData_def SingleValueDataString_def
        String_changeFirstTime_state_def)
  show "String_inv Q (merge (AggregateFunctionAnyLastData SingleValueDataString) s t)"
    using c(1) assms(1)
    by (auto simp add: merge_def AggregateFunctionAnyLastData_def SingleValueDataString_def
        String_changeEveryTime_state_def)
qed

lemma String_emit:
  assumes "String_inv (\<lambda>v. last v \<noteq> 0) s"
  shows "insertResultInto SingleValueDataString s to
           = to @ [case String_stored s of None \<Rightarrow> [] | Some v \<Rightarrow> v]"
    and "has SingleValueDataString s = (String_stored s \<noteq> None)"
proof -
  have w: "String_wf s" using assms by (simp add: String_inv_def)
  show "insertResultInto SingleValueDataString s to
           = to @ [case String_stored s of None \<Rightarrow> [] | Some v \<Rightarrow> v]"
    using String_insertResultInto_bytes [OF w, of to] assms
    by (simp add: SingleValueDataString_def String_stored_def String_inv_def)
  show "has SingleValueDataString s = (String_stored s \<noteq> None)"
    by (simp add: SingleValueDataString_def String_stored_def)
qed

lemma String_emit_stored:
  assumes "String_inv Q s" "String_inv Q t" "String_stored s = String_stored t"
  shows "insertResultInto SingleValueDataString s to
           = insertResultInto SingleValueDataString t to"
proof -
  have w: "String_wf s" "String_wf t"
    using assms(1,2) by (simp_all add: String_inv_def)
  have "String_has s = String_has t" "String_has s \<Longrightarrow> String_bytes s = String_bytes t"
    using assms(3) by (simp_all add: String_stored_def split: if_splits)
  then show ?thesis
    using String_insertResultInto_bytes [OF w(1), of to]
      String_insertResultInto_bytes [OF w(2), of to]
    by (simp add: SingleValueDataString_def)
qed

lemma String_has_stored: "has SingleValueDataString s = (String_stored s \<noteq> None)"
  by (simp add: SingleValueDataString_def String_stored_def)

section \<open>Sequences of rows and merges of their states\<close>

text \<open>
  The laws of a slot, from the facts about one row and one merge: the state of a sequence
  stores the fold of the sequence, and the merge of the states of two parts of a sequence
  stores what the state of the whole sequence stores.
\<close>

lemma insertResult_simple_policies:
  "insertResult (AggregateFunctionMinData D) = insertResultInto D"
  "insertResult (AggregateFunctionMaxData D) = insertResultInto D"
  "insertResult (AggregateFunctionAnyData D) = insertResultInto D"
  "insertResult (AggregateFunctionAnyLastData D) = insertResultInto D"
  "p_has (AggregateFunctionMinData D) = has D"
  "p_has (AggregateFunctionMaxData D) = has D"
  "p_has (AggregateFunctionAnyData D) = has D"
  "p_has (AggregateFunctionAnyLastData D) = has D"
  by (simp_all add: fun_eq_iff adapter_defs policy_defs)

lemma slot_aggregates:
  fixes D :: "('d, 'r, 'c) Data" and \<alpha> :: "'d \<Rightarrow> 'v::linorder option" and \<iota> :: "'v \<Rightarrow> 'r"
  assumes smin: "\<And>s v. I s \<Longrightarrow> v \<in> V \<Longrightarrow>
        I (add (AggregateFunctionMinData D) s (\<iota> v)) \<and>
        \<alpha> (add (AggregateFunctionMinData D) s (\<iota> v))
          = Some (case \<alpha> s of None \<Rightarrow> v | Some w \<Rightarrow> min w v)"
    and smax: "\<And>s v. I s \<Longrightarrow> v \<in> V \<Longrightarrow>
        I (add (AggregateFunctionMaxData D) s (\<iota> v)) \<and>
        \<alpha> (add (AggregateFunctionMaxData D) s (\<iota> v))
          = Some (case \<alpha> s of None \<Rightarrow> v | Some w \<Rightarrow> max w v)"
    and sany: "\<And>s v. I s \<Longrightarrow> v \<in> V \<Longrightarrow>
        I (add (AggregateFunctionAnyData D) s (\<iota> v)) \<and>
        \<alpha> (add (AggregateFunctionAnyData D) s (\<iota> v))
          = Some (case \<alpha> s of None \<Rightarrow> v | Some w \<Rightarrow> w)"
    and slast: "\<And>s v. I s \<Longrightarrow> v \<in> V \<Longrightarrow>
        I (add (AggregateFunctionAnyLastData D) s (\<iota> v)) \<and>
        \<alpha> (add (AggregateFunctionAnyLastData D) s (\<iota> v)) = Some v"
    and init: "I i" "\<alpha> i = None"
    and rows: "set zs \<subseteq> V"
  shows "I (addRows (AggregateFunctionMinData D) i (map \<iota> zs)) \<and>
         \<alpha> (addRows (AggregateFunctionMinData D) i (map \<iota> zs))
           = (case zs of [] \<Rightarrow> None | z # r \<Rightarrow> Some (foldl min z r))"
    and "I (addRows (AggregateFunctionMaxData D) i (map \<iota> zs)) \<and>
         \<alpha> (addRows (AggregateFunctionMaxData D) i (map \<iota> zs))
           = (case zs of [] \<Rightarrow> None | z # r \<Rightarrow> Some (foldl max z r))"
    and "I (addRows (AggregateFunctionAnyData D) i (map \<iota> zs)) \<and>
         \<alpha> (addRows (AggregateFunctionAnyData D) i (map \<iota> zs))
           = (case zs of [] \<Rightarrow> None | z # r \<Rightarrow> Some z)"
    and "I (addRows (AggregateFunctionAnyLastData D) i (map \<iota> zs)) \<and>
         \<alpha> (addRows (AggregateFunctionAnyLastData D) i (map \<iota> zs))
           = (if zs = [] then None else Some (last zs))"
proof -
  show "I (addRows (AggregateFunctionMinData D) i (map \<iota> zs)) \<and>
         \<alpha> (addRows (AggregateFunctionMinData D) i (map \<iota> zs))
           = (case zs of [] \<Rightarrow> None | z # r \<Rightarrow> Some (foldl min z r))"
    using addRows_abstraction [of I V "AggregateFunctionMinData D" \<iota> \<alpha>
        "\<lambda>a v. case a of None \<Rightarrow> v | Some w \<Rightarrow> min w v" i zs, OF smin init(1) rows]
    by (cases zs) (simp_all add: init(2) foldl_keep_min)
  show "I (addRows (AggregateFunctionMaxData D) i (map \<iota> zs)) \<and>
         \<alpha> (addRows (AggregateFunctionMaxData D) i (map \<iota> zs))
           = (case zs of [] \<Rightarrow> None | z # r \<Rightarrow> Some (foldl max z r))"
    using addRows_abstraction [of I V "AggregateFunctionMaxData D" \<iota> \<alpha>
        "\<lambda>a v. case a of None \<Rightarrow> v | Some w \<Rightarrow> max w v" i zs, OF smax init(1) rows]
    by (cases zs) (simp_all add: init(2) foldl_keep_max)
  show "I (addRows (AggregateFunctionAnyData D) i (map \<iota> zs)) \<and>
         \<alpha> (addRows (AggregateFunctionAnyData D) i (map \<iota> zs))
           = (case zs of [] \<Rightarrow> None | z # r \<Rightarrow> Some z)"
    using addRows_abstraction [of I V "AggregateFunctionAnyData D" \<iota> \<alpha>
        "\<lambda>a v. case a of None \<Rightarrow> v | Some w \<Rightarrow> w" i zs, OF sany init(1) rows]
    by (cases zs) (simp_all add: init(2) foldl_keep_first)
  show "I (addRows (AggregateFunctionAnyLastData D) i (map \<iota> zs)) \<and>
         \<alpha> (addRows (AggregateFunctionAnyLastData D) i (map \<iota> zs))
           = (if zs = [] then None else Some (last zs))"
    using addRows_abstraction [of I V "AggregateFunctionAnyLastData D" \<iota> \<alpha>
        "\<lambda>a v. v" i zs, OF slast init(1) rows]
    by (simp add: init(2) foldl_keep_last)
qed

lemma slot_fold_laws:
  fixes D :: "('d, 'r, 'v::linorder) Data" and \<alpha> :: "'d \<Rightarrow> 'v option" and \<iota> :: "'v \<Rightarrow> 'r"
  assumes smin: "\<And>s v. I s \<Longrightarrow> v \<in> V \<Longrightarrow>
        I (add (AggregateFunctionMinData D) s (\<iota> v)) \<and>
        \<alpha> (add (AggregateFunctionMinData D) s (\<iota> v))
          = Some (case \<alpha> s of None \<Rightarrow> v | Some w \<Rightarrow> min w v)"
    and smax: "\<And>s v. I s \<Longrightarrow> v \<in> V \<Longrightarrow>
        I (add (AggregateFunctionMaxData D) s (\<iota> v)) \<and>
        \<alpha> (add (AggregateFunctionMaxData D) s (\<iota> v))
          = Some (case \<alpha> s of None \<Rightarrow> v | Some w \<Rightarrow> max w v)"
    and emit: "\<And>s to. I s \<Longrightarrow>
        insertResultInto D s to = to @ [case \<alpha> s of None \<Rightarrow> dflt | Some v \<Rightarrow> v]"
    and init: "I i" "\<alpha> i = None"
    and rows: "set zs \<subseteq> V"
  shows "insertResult (AggregateFunctionMinData D)
           (addRows (AggregateFunctionMinData D) i (map \<iota> zs)) to
         = to @ [case zs of [] \<Rightarrow> dflt | z # r \<Rightarrow> foldl min z r]"
    and "insertResult (AggregateFunctionMaxData D)
           (addRows (AggregateFunctionMaxData D) i (map \<iota> zs)) to
         = to @ [case zs of [] \<Rightarrow> dflt | z # r \<Rightarrow> foldl max z r]"
proof -
  have a: "I (addRows (AggregateFunctionMinData D) i (map \<iota> zs)) \<and>
         \<alpha> (addRows (AggregateFunctionMinData D) i (map \<iota> zs))
           = (case zs of [] \<Rightarrow> None | z # r \<Rightarrow> Some (foldl min z r))"
    using addRows_abstraction [of I V "AggregateFunctionMinData D" \<iota> \<alpha>
        "\<lambda>a v. case a of None \<Rightarrow> v | Some w \<Rightarrow> min w v" i zs, OF smin init(1) rows]
    by (cases zs) (simp_all add: init(2) foldl_keep_min)
  have b: "I (addRows (AggregateFunctionMaxData D) i (map \<iota> zs)) \<and>
         \<alpha> (addRows (AggregateFunctionMaxData D) i (map \<iota> zs))
           = (case zs of [] \<Rightarrow> None | z # r \<Rightarrow> Some (foldl max z r))"
    using addRows_abstraction [of I V "AggregateFunctionMaxData D" \<iota> \<alpha>
        "\<lambda>a v. case a of None \<Rightarrow> v | Some w \<Rightarrow> max w v" i zs, OF smax init(1) rows]
    by (cases zs) (simp_all add: init(2) foldl_keep_max)
  show "insertResult (AggregateFunctionMinData D)
           (addRows (AggregateFunctionMinData D) i (map \<iota> zs)) to
         = to @ [case zs of [] \<Rightarrow> dflt | z # r \<Rightarrow> foldl min z r]"
    using a emit [of "addRows (AggregateFunctionMinData D) i (map \<iota> zs)" to]
    by (cases zs) (simp_all add: insertResult_simple_policies)
  show "insertResult (AggregateFunctionMaxData D)
           (addRows (AggregateFunctionMaxData D) i (map \<iota> zs)) to
         = to @ [case zs of [] \<Rightarrow> dflt | z # r \<Rightarrow> foldl max z r]"
    using b emit [of "addRows (AggregateFunctionMaxData D) i (map \<iota> zs)" to]
    by (cases zs) (simp_all add: insertResult_simple_policies)
qed

lemma merged_min:
  fixes ws :: "'v::linorder list"
  assumes "ws \<in> shuffles xs ys"
    and "a = (case xs of [] \<Rightarrow> None | x # r \<Rightarrow> Some (foldl min x r))"
    and "b = (case ys of [] \<Rightarrow> None | y # q \<Rightarrow> Some (foldl min y q))"
  shows "(case b of None \<Rightarrow> a | Some v \<Rightarrow> Some (case a of None \<Rightarrow> v | Some u \<Rightarrow> min u v))
         = (case ws of [] \<Rightarrow> None | w # p \<Rightarrow> Some (foldl min w p))"
  using fold_min_shuffles [OF assms(1)] unfolding assms(2,3) by (cases ys) simp_all

lemma merged_max:
  fixes ws :: "'v::linorder list"
  assumes "ws \<in> shuffles xs ys"
    and "a = (case xs of [] \<Rightarrow> None | x # r \<Rightarrow> Some (foldl max x r))"
    and "b = (case ys of [] \<Rightarrow> None | y # q \<Rightarrow> Some (foldl max y q))"
  shows "(case b of None \<Rightarrow> a | Some v \<Rightarrow> Some (case a of None \<Rightarrow> v | Some u \<Rightarrow> max u v))
         = (case ws of [] \<Rightarrow> None | w # p \<Rightarrow> Some (foldl max w p))"
  using fold_max_shuffles [OF assms(1)] unfolding assms(2,3) by (cases ys) simp_all

lemma shuffles_Nil_iff: "ws \<in> shuffles xs ys \<Longrightarrow> (ws = []) = (xs = [] \<and> ys = [])"
  by (auto dest: set_shuffles)

lemma slot_merge_laws:
  fixes D :: "('d, 'r, 'v::linorder) Data" and \<alpha> :: "'d \<Rightarrow> 'v option" and \<iota> :: "'v \<Rightarrow> 'r"
  assumes smin: "\<And>s v. I s \<Longrightarrow> v \<in> V \<Longrightarrow>
        I (add (AggregateFunctionMinData D) s (\<iota> v)) \<and>
        \<alpha> (add (AggregateFunctionMinData D) s (\<iota> v))
          = Some (case \<alpha> s of None \<Rightarrow> v | Some w \<Rightarrow> min w v)"
    and smax: "\<And>s v. I s \<Longrightarrow> v \<in> V \<Longrightarrow>
        I (add (AggregateFunctionMaxData D) s (\<iota> v)) \<and>
        \<alpha> (add (AggregateFunctionMaxData D) s (\<iota> v))
          = Some (case \<alpha> s of None \<Rightarrow> v | Some w \<Rightarrow> max w v)"
    and sany: "\<And>s v. I s \<Longrightarrow> v \<in> V \<Longrightarrow>
        I (add (AggregateFunctionAnyData D) s (\<iota> v)) \<and>
        \<alpha> (add (AggregateFunctionAnyData D) s (\<iota> v))
          = Some (case \<alpha> s of None \<Rightarrow> v | Some w \<Rightarrow> w)"
    and slast: "\<And>s v. I s \<Longrightarrow> v \<in> V \<Longrightarrow>
        I (add (AggregateFunctionAnyLastData D) s (\<iota> v)) \<and>
        \<alpha> (add (AggregateFunctionAnyLastData D) s (\<iota> v)) = Some v"
    and mmin: "\<And>s t. I s \<Longrightarrow> I t \<Longrightarrow>
        I (merge (AggregateFunctionMinData D) s t) \<and>
        \<alpha> (merge (AggregateFunctionMinData D) s t)
          = (case \<alpha> t of None \<Rightarrow> \<alpha> s
             | Some b \<Rightarrow> Some (case \<alpha> s of None \<Rightarrow> b | Some a \<Rightarrow> min a b))"
    and mmax: "\<And>s t. I s \<Longrightarrow> I t \<Longrightarrow>
        I (merge (AggregateFunctionMaxData D) s t) \<and>
        \<alpha> (merge (AggregateFunctionMaxData D) s t)
          = (case \<alpha> t of None \<Rightarrow> \<alpha> s
             | Some b \<Rightarrow> Some (case \<alpha> s of None \<Rightarrow> b | Some a \<Rightarrow> max a b))"
    and many: "\<And>s t. I s \<Longrightarrow> I t \<Longrightarrow>
        I (merge (AggregateFunctionAnyData D) s t) \<and>
        \<alpha> (merge (AggregateFunctionAnyData D) s t)
          = (case \<alpha> s of None \<Rightarrow> \<alpha> t | Some a \<Rightarrow> Some a)"
    and mlast: "\<And>s t. I s \<Longrightarrow> I t \<Longrightarrow>
        I (merge (AggregateFunctionAnyLastData D) s t) \<and>
        \<alpha> (merge (AggregateFunctionAnyLastData D) s t)
          = (case \<alpha> t of None \<Rightarrow> \<alpha> s | Some b \<Rightarrow> Some b)"
    and emit: "\<And>s t to. I s \<Longrightarrow> I t \<Longrightarrow> \<alpha> s = \<alpha> t \<Longrightarrow>
        insertResultInto D s to = insertResultInto D t to"
    and hasD: "\<And>s. I s \<Longrightarrow> has D s = (\<alpha> s \<noteq> None)"
    and init: "I i" "\<alpha> i = None" "I j" "\<alpha> j = None" "I k" "\<alpha> k = None"
    and rows: "set xs \<subseteq> V" "set ys \<subseteq> V"
    and sh: "ws \<in> shuffles xs ys"
    and rl: "rx = map \<iota> xs" "ry = map \<iota> ys" "rw = map \<iota> ws"
  shows "insertResult (AggregateFunctionMinData D)
           (merge (AggregateFunctionMinData D)
              (addRows (AggregateFunctionMinData D) j rx)
              (addRows (AggregateFunctionMinData D) k ry)) to
         = insertResult (AggregateFunctionMinData D)
             (addRows (AggregateFunctionMinData D) i rw) to"
    and "insertResult (AggregateFunctionMaxData D)
           (merge (AggregateFunctionMaxData D)
              (addRows (AggregateFunctionMaxData D) j rx)
              (addRows (AggregateFunctionMaxData D) k ry)) to
         = insertResult (AggregateFunctionMaxData D)
             (addRows (AggregateFunctionMaxData D) i rw) to"
    and "p_has (AggregateFunctionAnyData D)
           (merge (AggregateFunctionAnyData D)
              (addRows (AggregateFunctionAnyData D) j rx)
              (addRows (AggregateFunctionAnyData D) k ry))
         = p_has (AggregateFunctionAnyData D)
             (addRows (AggregateFunctionAnyData D) i rw)"
    and "p_has (AggregateFunctionAnyLastData D)
           (merge (AggregateFunctionAnyLastData D)
              (addRows (AggregateFunctionAnyLastData D) j rx)
              (addRows (AggregateFunctionAnyLastData D) k ry))
         = p_has (AggregateFunctionAnyLastData D)
             (addRows (AggregateFunctionAnyLastData D) i rw)"
    and "insertResult (AggregateFunctionAnyLastData D)
           (merge (AggregateFunctionAnyLastData D)
              (addRows (AggregateFunctionAnyLastData D) j rx)
              (addRows (AggregateFunctionAnyLastData D) k ry)) to
         = (if ys = []
            then insertResult (AggregateFunctionAnyLastData D)
                   (addRows (AggregateFunctionAnyLastData D) j rx) to
            else insertResult (AggregateFunctionAnyLastData D)
                   (addRows (AggregateFunctionAnyLastData D) k ry) to)"
proof -
  have wsV: "set ws \<subseteq> V"
    using set_shuffles [OF sh] rows by simp
  note e = shuffles_Nil_iff [OF sh]
  note A = slot_aggregates [of I V D \<iota> \<alpha> j xs, OF smin smax sany slast init(3,4) rows(1),
      folded rl]
  note B = slot_aggregates [of I V D \<iota> \<alpha> k ys, OF smin smax sany slast init(5,6) rows(2),
      folded rl]
  note W = slot_aggregates [of I V D \<iota> \<alpha> i ws, OF smin smax sany slast init(1,2) wsV,
      folded rl]
  let ?mn = "merge (AggregateFunctionMinData D)
              (addRows (AggregateFunctionMinData D) j rx)
              (addRows (AggregateFunctionMinData D) k ry)"
  have mn: "I ?mn" "\<alpha> ?mn = \<alpha> (addRows (AggregateFunctionMinData D) i rw)"
  proof -
    note m = mmin [OF conjunct1 [OF A(1)] conjunct1 [OF B(1)]]
    show "I ?mn" using m by simp
    show "\<alpha> ?mn = \<alpha> (addRows (AggregateFunctionMinData D) i rw)"
      using m merged_min [OF sh conjunct2 [OF A(1)] conjunct2 [OF B(1)]] W(1) by simp
  qed
  show "insertResult (AggregateFunctionMinData D) ?mn to
         = insertResult (AggregateFunctionMinData D)
             (addRows (AggregateFunctionMinData D) i rw) to"
    using emit [OF mn(1) conjunct1 [OF W(1)] mn(2), of to]
    by (simp add: insertResult_simple_policies)
  let ?mx = "merge (AggregateFunctionMaxData D)
              (addRows (AggregateFunctionMaxData D) j rx)
              (addRows (AggregateFunctionMaxData D) k ry)"
  have mx: "I ?mx" "\<alpha> ?mx = \<alpha> (addRows (AggregateFunctionMaxData D) i rw)"
  proof -
    note m = mmax [OF conjunct1 [OF A(2)] conjunct1 [OF B(2)]]
    show "I ?mx" using m by simp
    show "\<alpha> ?mx = \<alpha> (addRows (AggregateFunctionMaxData D) i rw)"
      using m merged_max [OF sh conjunct2 [OF A(2)] conjunct2 [OF B(2)]] W(2) by simp
  qed
  show "insertResult (AggregateFunctionMaxData D) ?mx to
         = insertResult (AggregateFunctionMaxData D)
             (addRows (AggregateFunctionMaxData D) i rw) to"
    using emit [OF mx(1) conjunct1 [OF W(2)] mx(2), of to]
    by (simp add: insertResult_simple_policies)
  let ?ma = "merge (AggregateFunctionAnyData D)
              (addRows (AggregateFunctionAnyData D) j rx)
              (addRows (AggregateFunctionAnyData D) k ry)"
  note m = many [OF conjunct1 [OF A(3)] conjunct1 [OF B(3)]]
  have "(\<alpha> ?ma \<noteq> None) = (ws \<noteq> [])"
    using m A(3) B(3) e by (cases xs; cases ys) simp_all
  moreover have "(\<alpha> (addRows (AggregateFunctionAnyData D) i rw) \<noteq> None) = (ws \<noteq> [])"
    using W(3) by (cases ws) simp_all
  ultimately show "p_has (AggregateFunctionAnyData D) ?ma
         = p_has (AggregateFunctionAnyData D)
             (addRows (AggregateFunctionAnyData D) i rw)"
    using hasD [OF conjunct1 [OF m]] hasD [OF conjunct1 [OF W(3)]]
    by (simp add: insertResult_simple_policies)
  let ?ml = "merge (AggregateFunctionAnyLastData D)
              (addRows (AggregateFunctionAnyLastData D) j rx)
              (addRows (AggregateFunctionAnyLastData D) k ry)"
  note l = mlast [OF conjunct1 [OF A(4)] conjunct1 [OF B(4)]]
  have "(\<alpha> ?ml \<noteq> None) = (ws \<noteq> [])"
    using l A(4) B(4) e by (cases "xs = []"; cases "ys = []") simp_all
  moreover have "(\<alpha> (addRows (AggregateFunctionAnyLastData D) i rw) \<noteq> None)
      = (ws \<noteq> [])"
    using W(4) by simp
  ultimately show "p_has (AggregateFunctionAnyLastData D) ?ml
         = p_has (AggregateFunctionAnyLastData D)
             (addRows (AggregateFunctionAnyLastData D) i rw)"
    using hasD [OF conjunct1 [OF l]] hasD [OF conjunct1 [OF W(4)]]
    by (simp add: insertResult_simple_policies)
  have la: "ys = [] \<Longrightarrow> \<alpha> ?ml = \<alpha> (addRows (AggregateFunctionAnyLastData D) j rx)"
    and lb: "ys \<noteq> [] \<Longrightarrow> \<alpha> ?ml = \<alpha> (addRows (AggregateFunctionAnyLastData D) k ry)"
    using l B(4) by simp_all
  show "insertResult (AggregateFunctionAnyLastData D) ?ml to
         = (if ys = []
            then insertResult (AggregateFunctionAnyLastData D)
                   (addRows (AggregateFunctionAnyLastData D) j rx) to
            else insertResult (AggregateFunctionAnyLastData D)
                   (addRows (AggregateFunctionAnyLastData D) k ry) to)"
  proof (cases "ys = []")
    case True
    show ?thesis
      using emit [OF conjunct1 [OF l] conjunct1 [OF A(4)] la [OF True], of to] True
      by (simp add: insertResult_simple_policies)
  next
    case False
    show ?thesis
      using emit [OF conjunct1 [OF l] conjunct1 [OF B(4)] lb [OF False], of to] False
      by (simp add: insertResult_simple_policies)
  qed
qed

section \<open>The laws, for each slot\<close>

lemma Fixed_fold_laws:
  fixes F :: "('a::{linorder,zero} SingleValueDataFixed, 'a, 'a) Data"
  assumes F: "F = SingleValueDataFixed enc dec"
  shows "insertResult (AggregateFunctionMinData F)
           (addRows (AggregateFunctionMinData F) (Fixed_init g) zs) to
         = to @ [case zs of [] \<Rightarrow> 0 | z # r \<Rightarrow> foldl min z r]"
    and "insertResult (AggregateFunctionMaxData F)
           (addRows (AggregateFunctionMaxData F) (Fixed_init g) zs) to
         = to @ [case zs of [] \<Rightarrow> 0 | z # r \<Rightarrow> foldl max z r]"
  using slot_fold_laws [of "\<lambda>_. True" UNIV F "\<lambda>v. v" Fixed_stored 0 "Fixed_init g" zs to,
      simplified, OF Fixed_steps(1,2) [OF F] Fixed_emit(1,3) [OF F]]
  by simp_all

lemma Generic_fold_laws:
  fixes G :: "('f::linorder SingleValueDataGeneric, 'f Field, 'f) Data"
  assumes G: "G = SingleValueDataGeneric dflt ser deser"
  shows "insertResult (AggregateFunctionMinData G)
           (addRows (AggregateFunctionMinData G) Generic_init (map Val zs)) to
         = to @ [case zs of [] \<Rightarrow> dflt | z # r \<Rightarrow> foldl min z r]"
    and "insertResult (AggregateFunctionMaxData G)
           (addRows (AggregateFunctionMaxData G) Generic_init (map Val zs)) to
         = to @ [case zs of [] \<Rightarrow> dflt | z # r \<Rightarrow> foldl max z r]"
  using slot_fold_laws [of "\<lambda>_. True" UNIV G Val Generic_stored dflt Generic_init zs to,
      simplified, OF Generic_steps(1,2) [OF G] Generic_emit(1,3) [OF G]]
  by simp_all

lemma String_fold_laws:
  assumes "length g = 48" and "\<forall>z\<in>set zs. String_plain z"
  shows "insertResult (AggregateFunctionMinData SingleValueDataString)
           (addRows (AggregateFunctionMinData SingleValueDataString) (String_init g) zs) to
         = to @ [case zs of [] \<Rightarrow> [] | z # r \<Rightarrow> foldl min z r]"
    and "insertResult (AggregateFunctionMaxData SingleValueDataString)
           (addRows (AggregateFunctionMaxData SingleValueDataString) (String_init g) zs) to
         = to @ [case zs of [] \<Rightarrow> [] | z # r \<Rightarrow> foldl max z r]"
proof -
  have rows: "set zs \<subseteq> Collect String_plain"
    using assms(2) by auto
  let ?Q = "\<lambda>v :: byte list. last v \<noteq> 0"
  note L = slot_fold_laws [of "String_inv ?Q" "Collect String_plain" SingleValueDataString
      "\<lambda>v. v" String_stored "[]" "String_init g" zs to, simplified]
  have smin: "\<And>s v. String_inv ?Q s \<Longrightarrow> String_plain v \<Longrightarrow>
        String_inv ?Q (add (AggregateFunctionMinData SingleValueDataString) s v) \<and>
        String_stored (add (AggregateFunctionMinData SingleValueDataString) s v)
          = Some (case String_stored s of None \<Rightarrow> v | Some w \<Rightarrow> min w v)"
    by (rule String_steps(1)) (simp_all add: String_plain_def String_nonempty_def)
  have smax: "\<And>s v. String_inv ?Q s \<Longrightarrow> String_plain v \<Longrightarrow>
        String_inv ?Q (add (AggregateFunctionMaxData SingleValueDataString) s v) \<and>
        String_stored (add (AggregateFunctionMaxData SingleValueDataString) s v)
          = Some (case String_stored s of None \<Rightarrow> v | Some w \<Rightarrow> max w v)"
    by (rule String_steps(2)) (simp_all add: String_plain_def String_nonempty_def)
  have emit: "\<And>s to. String_inv ?Q s \<Longrightarrow>
        insertResultInto SingleValueDataString s to
          = to @ [case String_stored s of None \<Rightarrow> [] | Some v \<Rightarrow> v]"
    by (rule String_emit(1))
  note i = String_inv_init [OF assms(1), of ?Q] String_stored_init [of g]
  show "insertResult (AggregateFunctionMinData SingleValueDataString)
           (addRows (AggregateFunctionMinData SingleValueDataString) (String_init g) zs) to
         = to @ [case zs of [] \<Rightarrow> [] | z # r \<Rightarrow> foldl min z r]"
    using L(1) [OF smin smax emit i rows] .
  show "insertResult (AggregateFunctionMaxData SingleValueDataString)
           (addRows (AggregateFunctionMaxData SingleValueDataString) (String_init g) zs) to
         = to @ [case zs of [] \<Rightarrow> [] | z # r \<Rightarrow> foldl max z r]"
    using L(2) [OF smin smax emit i rows] .
qed

lemma Fixed_merge_laws:
  fixes F :: "('a::{linorder,zero} SingleValueDataFixed, 'a, 'a) Data"
  assumes F: "F = SingleValueDataFixed enc dec" and sh: "ws \<in> shuffles xs ys"
  shows "insertResult (AggregateFunctionMinData F)
           (merge (AggregateFunctionMinData F)
              (addRows (AggregateFunctionMinData F) (Fixed_init g1) xs)
              (addRows (AggregateFunctionMinData F) (Fixed_init g2) ys)) to
         = insertResult (AggregateFunctionMinData F)
             (addRows (AggregateFunctionMinData F) (Fixed_init g) ws) to"

    and "insertResult (AggregateFunctionMaxData F)
           (merge (AggregateFunctionMaxData F)
              (addRows (AggregateFunctionMaxData F) (Fixed_init g1) xs)
              (addRows (AggregateFunctionMaxData F) (Fixed_init g2) ys)) to
         = insertResult (AggregateFunctionMaxData F)
             (addRows (AggregateFunctionMaxData F) (Fixed_init g) ws) to"

    and "p_has (AggregateFunctionAnyData F)
           (merge (AggregateFunctionAnyData F)
              (addRows (AggregateFunctionAnyData F) (Fixed_init g1) xs)
              (addRows (AggregateFunctionAnyData F) (Fixed_init g2) ys))
         = p_has (AggregateFunctionAnyData F)
             (addRows (AggregateFunctionAnyData F) (Fixed_init g) ws)"

    and "p_has (AggregateFunctionAnyLastData F)
           (merge (AggregateFunctionAnyLastData F)
              (addRows (AggregateFunctionAnyLastData F) (Fixed_init g1) xs)
              (addRows (AggregateFunctionAnyLastData F) (Fixed_init g2) ys))
         = p_has (AggregateFunctionAnyLastData F)
             (addRows (AggregateFunctionAnyLastData F) (Fixed_init g) ws)"

    and "insertResult (AggregateFunctionAnyLastData F)
           (merge (AggregateFunctionAnyLastData F)
              (addRows (AggregateFunctionAnyLastData F) (Fixed_init g1) xs)
              (addRows (AggregateFunctionAnyLastData F) (Fixed_init g2) ys)) to
         = (if ys = []
            then insertResult (AggregateFunctionAnyLastData F)
                   (addRows (AggregateFunctionAnyLastData F) (Fixed_init g1) xs) to
            else insertResult (AggregateFunctionAnyLastData F)
                   (addRows (AggregateFunctionAnyLastData F) (Fixed_init g2) ys) to)"
proof -
  have emit: "\<And>s t to. True \<Longrightarrow> True \<Longrightarrow> Fixed_stored s = Fixed_stored t \<Longrightarrow>
      insertResultInto F s to = insertResultInto F t to"
    by (simp only: Fixed_emit(1) [OF F])
  note L = slot_merge_laws [where I = "\<lambda>_. True" and V = UNIV and D = F and \<iota> = "\<lambda>v. v"
      and \<alpha> = Fixed_stored and i = "Fixed_init g" and j = "Fixed_init g1"
      and k = "Fixed_init g2" and xs = xs and ys = ys and ws = ws and rx = xs and ry = ys
      and rw = ws, OF _ _ _ _ _ _ _ _ emit]
  note facts = Fixed_steps [OF F] Fixed_merges [OF F] Fixed_emit(2,3) [OF F] sh
  show "insertResult (AggregateFunctionMinData F)
           (merge (AggregateFunctionMinData F)
              (addRows (AggregateFunctionMinData F) (Fixed_init g1) xs)
              (addRows (AggregateFunctionMinData F) (Fixed_init g2) ys)) to
         = insertResult (AggregateFunctionMinData F)
             (addRows (AggregateFunctionMinData F) (Fixed_init g) ws) to"

    by (rule L(1)) (simp_all add: facts)
  show "insertResult (AggregateFunctionMaxData F)
           (merge (AggregateFunctionMaxData F)
              (addRows (AggregateFunctionMaxData F) (Fixed_init g1) xs)
              (addRows (AggregateFunctionMaxData F) (Fixed_init g2) ys)) to
         = insertResult (AggregateFunctionMaxData F)
             (addRows (AggregateFunctionMaxData F) (Fixed_init g) ws) to"

    by (rule L(2)) (simp_all add: facts)
  show "p_has (AggregateFunctionAnyData F)
           (merge (AggregateFunctionAnyData F)
              (addRows (AggregateFunctionAnyData F) (Fixed_init g1) xs)
              (addRows (AggregateFunctionAnyData F) (Fixed_init g2) ys))
         = p_has (AggregateFunctionAnyData F)
             (addRows (AggregateFunctionAnyData F) (Fixed_init g) ws)"

    by (rule L(3)) (simp_all add: facts)
  show "p_has (AggregateFunctionAnyLastData F)
           (merge (AggregateFunctionAnyLastData F)
              (addRows (AggregateFunctionAnyLastData F) (Fixed_init g1) xs)
              (addRows (AggregateFunctionAnyLastData F) (Fixed_init g2) ys))
         = p_has (AggregateFunctionAnyLastData F)
             (addRows (AggregateFunctionAnyLastData F) (Fixed_init g) ws)"

    by (rule L(4)) (simp_all add: facts)
  show "insertResult (AggregateFunctionAnyLastData F)
           (merge (AggregateFunctionAnyLastData F)
              (addRows (AggregateFunctionAnyLastData F) (Fixed_init g1) xs)
              (addRows (AggregateFunctionAnyLastData F) (Fixed_init g2) ys)) to
         = (if ys = []
            then insertResult (AggregateFunctionAnyLastData F)
                   (addRows (AggregateFunctionAnyLastData F) (Fixed_init g1) xs) to
            else insertResult (AggregateFunctionAnyLastData F)
                   (addRows (AggregateFunctionAnyLastData F) (Fixed_init g2) ys) to)"
    by (rule L(5)) (simp_all add: facts)
qed

lemma Generic_merge_laws:
  fixes G :: "('f::linorder SingleValueDataGeneric, 'f Field, 'f) Data"
  assumes G: "G = SingleValueDataGeneric dflt ser deser" and sh: "ws \<in> shuffles xs ys"
  shows "insertResult (AggregateFunctionMinData G)
           (merge (AggregateFunctionMinData G)
              (addRows (AggregateFunctionMinData G) Generic_init (map Val xs))
              (addRows (AggregateFunctionMinData G) Generic_init (map Val ys))) to
         = insertResult (AggregateFunctionMinData G)
             (addRows (AggregateFunctionMinData G) Generic_init (map Val ws)) to"

    and "insertResult (AggregateFunctionMaxData G)
           (merge (AggregateFunctionMaxData G)
              (addRows (AggregateFunctionMaxData G) Generic_init (map Val xs))
              (addRows (AggregateFunctionMaxData G) Generic_init (map Val ys))) to
         = insertResult (AggregateFunctionMaxData G)
             (addRows (AggregateFunctionMaxData G) Generic_init (map Val ws)) to"

    and "p_has (AggregateFunctionAnyData G)
           (merge (AggregateFunctionAnyData G)
              (addRows (AggregateFunctionAnyData G) Generic_init (map Val xs))
              (addRows (AggregateFunctionAnyData G) Generic_init (map Val ys)))
         = p_has (AggregateFunctionAnyData G)
             (addRows (AggregateFunctionAnyData G) Generic_init (map Val ws))"

    and "p_has (AggregateFunctionAnyLastData G)
           (merge (AggregateFunctionAnyLastData G)
              (addRows (AggregateFunctionAnyLastData G) Generic_init (map Val xs))
              (addRows (AggregateFunctionAnyLastData G) Generic_init (map Val ys)))
         = p_has (AggregateFunctionAnyLastData G)
             (addRows (AggregateFunctionAnyLastData G) Generic_init (map Val ws))"

    and "insertResult (AggregateFunctionAnyLastData G)
           (merge (AggregateFunctionAnyLastData G)
              (addRows (AggregateFunctionAnyLastData G) Generic_init (map Val xs))
              (addRows (AggregateFunctionAnyLastData G) Generic_init (map Val ys))) to
         = (if ys = []
            then insertResult (AggregateFunctionAnyLastData G)
                   (addRows (AggregateFunctionAnyLastData G) Generic_init (map Val xs)) to
            else insertResult (AggregateFunctionAnyLastData G)
                   (addRows (AggregateFunctionAnyLastData G) Generic_init (map Val ys)) to)"
proof -
  have emit: "\<And>s t to. True \<Longrightarrow> True \<Longrightarrow> Generic_stored s = Generic_stored t \<Longrightarrow>
      insertResultInto G s to = insertResultInto G t to"
    by (simp only: Generic_emit(1) [OF G])
  note L = slot_merge_laws [where I = "\<lambda>_. True" and V = UNIV and D = G and \<iota> = Val
      and \<alpha> = Generic_stored and i = Generic_init and j = Generic_init
      and k = Generic_init and xs = xs and ys = ys and ws = ws and rx = "map Val xs"
      and ry = "map Val ys" and rw = "map Val ws", OF _ _ _ _ _ _ _ _ emit]
  note facts = Generic_steps [OF G] Generic_merges [OF G] Generic_emit(2,3) [OF G] sh
  show "insertResult (AggregateFunctionMinData G)
           (merge (AggregateFunctionMinData G)
              (addRows (AggregateFunctionMinData G) Generic_init (map Val xs))
              (addRows (AggregateFunctionMinData G) Generic_init (map Val ys))) to
         = insertResult (AggregateFunctionMinData G)
             (addRows (AggregateFunctionMinData G) Generic_init (map Val ws)) to"

    by (rule L(1)) (simp_all add: facts)
  show "insertResult (AggregateFunctionMaxData G)
           (merge (AggregateFunctionMaxData G)
              (addRows (AggregateFunctionMaxData G) Generic_init (map Val xs))
              (addRows (AggregateFunctionMaxData G) Generic_init (map Val ys))) to
         = insertResult (AggregateFunctionMaxData G)
             (addRows (AggregateFunctionMaxData G) Generic_init (map Val ws)) to"

    by (rule L(2)) (simp_all add: facts)
  show "p_has (AggregateFunctionAnyData G)
           (merge (AggregateFunctionAnyData G)
              (addRows (AggregateFunctionAnyData G) Generic_init (map Val xs))
              (addRows (AggregateFunctionAnyData G) Generic_init (map Val ys)))
         = p_has (AggregateFunctionAnyData G)
             (addRows (AggregateFunctionAnyData G) Generic_init (map Val ws))"

    by (rule L(3)) (simp_all add: facts)
  show "p_has (AggregateFunctionAnyLastData G)
           (merge (AggregateFunctionAnyLastData G)
              (addRows (AggregateFunctionAnyLastData G) Generic_init (map Val xs))
              (addRows (AggregateFunctionAnyLastData G) Generic_init (map Val ys)))
         = p_has (AggregateFunctionAnyLastData G)
             (addRows (AggregateFunctionAnyLastData G) Generic_init (map Val ws))"

    by (rule L(4)) (simp_all add: facts)
  show "insertResult (AggregateFunctionAnyLastData G)
           (merge (AggregateFunctionAnyLastData G)
              (addRows (AggregateFunctionAnyLastData G) Generic_init (map Val xs))
              (addRows (AggregateFunctionAnyLastData G) Generic_init (map Val ys))) to
         = (if ys = []
            then insertResult (AggregateFunctionAnyLastData G)
                   (addRows (AggregateFunctionAnyLastData G) Generic_init (map Val xs)) to
            else insertResult (AggregateFunctionAnyLastData G)
                   (addRows (AggregateFunctionAnyLastData G) Generic_init (map Val ys)) to)"
    by (rule L(5)) (simp_all add: facts)
qed

lemma String_merge_laws:
  assumes g: "length g = 48" "length g1 = 48" "length g2 = 48"
    and pl: "\<forall>z\<in>set xs. String_nonempty z" "\<forall>z\<in>set ys. String_nonempty z"
    and sh: "ws \<in> shuffles xs ys"
  shows "insertResult (AggregateFunctionMinData SingleValueDataString)
           (merge (AggregateFunctionMinData SingleValueDataString)
              (addRows (AggregateFunctionMinData SingleValueDataString) (String_init g1) xs)
              (addRows (AggregateFunctionMinData SingleValueDataString) (String_init g2) ys)) to
         = insertResult (AggregateFunctionMinData SingleValueDataString)
             (addRows (AggregateFunctionMinData SingleValueDataString) (String_init g) ws) to"

    and "insertResult (AggregateFunctionMaxData SingleValueDataString)
           (merge (AggregateFunctionMaxData SingleValueDataString)
              (addRows (AggregateFunctionMaxData SingleValueDataString) (String_init g1) xs)
              (addRows (AggregateFunctionMaxData SingleValueDataString) (String_init g2) ys)) to
         = insertResult (AggregateFunctionMaxData SingleValueDataString)
             (addRows (AggregateFunctionMaxData SingleValueDataString) (String_init g) ws) to"

    and "p_has (AggregateFunctionAnyData SingleValueDataString)
           (merge (AggregateFunctionAnyData SingleValueDataString)
              (addRows (AggregateFunctionAnyData SingleValueDataString) (String_init g1) xs)
              (addRows (AggregateFunctionAnyData SingleValueDataString) (String_init g2) ys))
         = p_has (AggregateFunctionAnyData SingleValueDataString)
             (addRows (AggregateFunctionAnyData SingleValueDataString) (String_init g) ws)"

    and "p_has (AggregateFunctionAnyLastData SingleValueDataString)
           (merge (AggregateFunctionAnyLastData SingleValueDataString)
              (addRows (AggregateFunctionAnyLastData SingleValueDataString) (String_init g1) xs)
              (addRows (AggregateFunctionAnyLastData SingleValueDataString) (String_init g2) ys))
         = p_has (AggregateFunctionAnyLastData SingleValueDataString)
             (addRows (AggregateFunctionAnyLastData SingleValueDataString) (String_init g) ws)"

    and "insertResult (AggregateFunctionAnyLastData SingleValueDataString)
           (merge (AggregateFunctionAnyLastData SingleValueDataString)
              (addRows (AggregateFunctionAnyLastData SingleValueDataString) (String_init g1) xs)
              (addRows (AggregateFunctionAnyLastData SingleValueDataString) (String_init g2) ys)) to
         = (if ys = []
            then insertResult (AggregateFunctionAnyLastData SingleValueDataString)
                   (addRows (AggregateFunctionAnyLastData SingleValueDataString) (String_init g1) xs) to
            else insertResult (AggregateFunctionAnyLastData SingleValueDataString)
                   (addRows (AggregateFunctionAnyLastData SingleValueDataString) (String_init g2) ys) to)"
proof -
  have rows: "set xs \<subseteq> Collect String_nonempty" "set ys \<subseteq> Collect String_nonempty"
    using pl by auto
  have emit: "\<And>s t to. String_inv (\<lambda>_. True) s \<Longrightarrow> String_inv (\<lambda>_. True) t \<Longrightarrow>
      String_stored s = String_stored t \<Longrightarrow>
      insertResultInto SingleValueDataString s to = insertResultInto SingleValueDataString t to"
    by (rule String_emit_stored)
  note L = slot_merge_laws [where I = "String_inv (\<lambda>_. True)" and V = "Collect String_nonempty"
      and D = SingleValueDataString and \<iota> = "\<lambda>v. v" and \<alpha> = String_stored
      and i = "String_init g" and j = "String_init g1" and k = "String_init g2" and xs = xs
      and ys = ys and ws = ws and rx = xs and ry = ys and rw = ws,
      OF _ _ _ _ _ _ _ _ emit]
  note facts = String_steps String_merges String_has_stored
    String_inv_init [OF g(1)] String_inv_init [OF g(2)] String_inv_init [OF g(3)]
    String_stored_init rows sh
  show "insertResult (AggregateFunctionMinData SingleValueDataString)
           (merge (AggregateFunctionMinData SingleValueDataString)
              (addRows (AggregateFunctionMinData SingleValueDataString) (String_init g1) xs)
              (addRows (AggregateFunctionMinData SingleValueDataString) (String_init g2) ys)) to
         = insertResult (AggregateFunctionMinData SingleValueDataString)
             (addRows (AggregateFunctionMinData SingleValueDataString) (String_init g) ws) to"

    by (rule L(1)) (simp_all add: facts)
  show "insertResult (AggregateFunctionMaxData SingleValueDataString)
           (merge (AggregateFunctionMaxData SingleValueDataString)
              (addRows (AggregateFunctionMaxData SingleValueDataString) (String_init g1) xs)
              (addRows (AggregateFunctionMaxData SingleValueDataString) (String_init g2) ys)) to
         = insertResult (AggregateFunctionMaxData SingleValueDataString)
             (addRows (AggregateFunctionMaxData SingleValueDataString) (String_init g) ws) to"

    by (rule L(2)) (simp_all add: facts)
  show "p_has (AggregateFunctionAnyData SingleValueDataString)
           (merge (AggregateFunctionAnyData SingleValueDataString)
              (addRows (AggregateFunctionAnyData SingleValueDataString) (String_init g1) xs)
              (addRows (AggregateFunctionAnyData SingleValueDataString) (String_init g2) ys))
         = p_has (AggregateFunctionAnyData SingleValueDataString)
             (addRows (AggregateFunctionAnyData SingleValueDataString) (String_init g) ws)"

    by (rule L(3)) (simp_all add: facts)
  show "p_has (AggregateFunctionAnyLastData SingleValueDataString)
           (merge (AggregateFunctionAnyLastData SingleValueDataString)
              (addRows (AggregateFunctionAnyLastData SingleValueDataString) (String_init g1) xs)
              (addRows (AggregateFunctionAnyLastData SingleValueDataString) (String_init g2) ys))
         = p_has (AggregateFunctionAnyLastData SingleValueDataString)
             (addRows (AggregateFunctionAnyLastData SingleValueDataString) (String_init g) ws)"

    by (rule L(4)) (simp_all add: facts)
  show "insertResult (AggregateFunctionAnyLastData SingleValueDataString)
           (merge (AggregateFunctionAnyLastData SingleValueDataString)
              (addRows (AggregateFunctionAnyLastData SingleValueDataString) (String_init g1) xs)
              (addRows (AggregateFunctionAnyLastData SingleValueDataString) (String_init g2) ys)) to
         = (if ys = []
            then insertResult (AggregateFunctionAnyLastData SingleValueDataString)
                   (addRows (AggregateFunctionAnyLastData SingleValueDataString) (String_init g1) xs) to
            else insertResult (AggregateFunctionAnyLastData SingleValueDataString)
                   (addRows (AggregateFunctionAnyLastData SingleValueDataString) (String_init g2) ys) to)"
    by (rule L(5)) (simp_all add: facts)
qed

section \<open>Empty strings among the rows\<close>

lemma String_Min_add:
  "add (AggregateFunctionMinData SingleValueDataString) s v = snd (String_changeIfLess_row s v)"
  "merge (AggregateFunctionMinData SingleValueDataString) s t = snd (String_changeIfLess_state s t)"
  "insertResult (AggregateFunctionMinData SingleValueDataString) s to = String_insertResultInto s to"
  by (simp_all add: adapter_defs policy_defs SingleValueDataString_def)

lemma String_rows_empty_then_b:
  defines "i \<equiv> String_init (replicate 48 0)"
  shows "String_wf (String_change_row i [])"
    and "\<not> String_has (String_change_row i [])"
    and "String_wf (String_change_row (String_change_row i []) [98])"
    and "String_has (String_change_row (String_change_row i []) [98])"
    and "String_bytes (String_change_row (String_change_row i []) [98]) = [98]"
proof -
  have w: "String_wf i"
    by (simp add: i_def String_wf_init)
  have l: "length ([] :: byte list) \<le> 2 ^ 30" "length [98 :: byte] \<le> 2 ^ 30"
    by simp_all
  note a = String_change_row_ok [OF w l(1)]
  note b = String_change_row_ok [OF a(1) l(2)]
  show "String_wf (String_change_row i [])" by (rule a)
  show "\<not> String_has (String_change_row i [])" using a(2) by (simp add: String_has_def)
  show "String_wf (String_change_row (String_change_row i []) [98])" by (rule b)
  show "String_has (String_change_row (String_change_row i []) [98])"
    using b(2) by (simp add: String_has_def)
  show "String_bytes (String_change_row (String_change_row i []) [98]) = [98]" by (rule b)
qed

text \<open>
  \<open>has()\<close> of the string slot is \<open>size >= 1\<close>, where the comment on \<open>size\<close> says that \<open>-1\<close>
  marks a state without a value: a row that holds the empty string sets \<open>size\<close> to zero
  and leaves the state without a value. Under Min the rows \<open>""\<close>, \<open>"b"\<close> emit \<open>"b"\<close>; and
  the rows \<open>"b"\<close>, \<open>""\<close> emit the default, while the merge of the state of \<open>"b"\<close> with
  the state of \<open>""\<close> emits \<open>"b"\<close>.
\<close>

lemma String_Min_empty_row:
  "insertResult (AggregateFunctionMinData SingleValueDataString)
     (addRows (AggregateFunctionMinData SingleValueDataString)
        (String_init (replicate 48 0)) [[], [98]]) [] = [[98]] \<and>
   foldl min [] [[98 :: byte]] = []"
proof -
  note r = String_rows_empty_then_b
  have "addRows (AggregateFunctionMinData SingleValueDataString)
          (String_init (replicate 48 0)) [[], [98]]
        = String_change_row (String_change_row (String_init (replicate 48 0)) []) [98]"
    using r(2) by (simp add: addRows_def String_Min_add String_changeIfLess_row_def String_has_init)
  moreover have "String_insertResultInto
      (String_change_row (String_change_row (String_init (replicate 48 0)) []) [98]) [] = [[98]]"
    using String_insertResultInto_bytes [OF r(3), of "[]"] r(4,5) by simp
  ultimately show ?thesis
    by (simp add: String_Min_add min_def)
qed

lemma String_Min_merge_empty_row:
  "[[98], []] \<in> shuffles [[98 :: byte]] [[]] \<and>
   insertResult (AggregateFunctionMinData SingleValueDataString)
     (merge (AggregateFunctionMinData SingleValueDataString)
        (addRows (AggregateFunctionMinData SingleValueDataString)
           (String_init (replicate 48 0)) [[98]])
        (addRows (AggregateFunctionMinData SingleValueDataString)
           (String_init (replicate 48 0)) [[]])) [] = [[98]] \<and>
   insertResult (AggregateFunctionMinData SingleValueDataString)
     (addRows (AggregateFunctionMinData SingleValueDataString)
        (String_init (replicate 48 0)) [[98], []]) [] = [[]]"
proof -
  define i where "i = String_init (replicate 48 0)"
  define A where "A = String_change_row i [98]"
  define B where "B = String_change_row i []"
  have A: "String_wf A" "String_has A" "String_bytes A = [98]"
    using String_row_98 by (simp_all add: A_def i_def)
  have B: "\<not> String_has B"
    using String_rows_empty_then_b(2) by (simp add: B_def i_def)
  have a: "addRows (AggregateFunctionMinData SingleValueDataString) i [[98]] = A"
    by (simp add: addRows_def String_Min_add String_changeIfLess_row_def String_has_init
        A_def i_def)
  have b: "addRows (AggregateFunctionMinData SingleValueDataString) i [[]] = B"
    by (simp add: addRows_def String_Min_add String_changeIfLess_row_def String_has_init
        B_def i_def)
  have m: "merge (AggregateFunctionMinData SingleValueDataString) A B = A"
    using B by (simp add: String_Min_add String_changeIfLess_state_def)
  have eA: "String_insertResultInto A [] = [[98]]"
    using String_insertResultInto_bytes [OF A(1), of "[]"] A(2,3) by simp
  have "StringRef_less (getDataAt []) (getStringRef A)"
    using String_less_row(1) [OF A(1,2), of "[]"] A(3) by simp
  then have w: "addRows (AggregateFunctionMinData SingleValueDataString) i [[98], []]
      = String_change_row A []"
    using a by (simp add: addRows_def String_Min_add String_changeIfLess_row_def)
  have "\<not> String_has (String_change_row A [])"
    by (simp add: String_has_def String_change_row_Nil)
  then have eW: "String_insertResultInto (String_change_row A []) [] = [[]]"
    by (simp add: String_insertResultInto_empty)
  have "[[98], []] \<in> shuffles [[98 :: byte]] [[]]"
    by simp
  then show ?thesis
    using a b m eA w eW by (simp add: String_Min_add flip: i_def)
qed

section \<open>Construction\<close>

text \<open>
  C9. Constructing the aggregate function with the policy named min or max over a type
  that is not comparable returns the illegal-argument error; the constructor takes the
  policy and the type only, no state and no row. Over a comparable type, and for the
  four other policies over any type, the constructor returns the function.
\<close>

theorem C9_constructor:
  "(\<not> isComparable type \<longrightarrow>
      (\<exists>msg. AggregateFunctionsSingleValue (AggregateFunctionMinData D) type
               = Inl (ILLEGAL_TYPE_OF_ARGUMENT msg)) \<and>
      (\<exists>msg. AggregateFunctionsSingleValue (AggregateFunctionMaxData D) type
               = Inl (ILLEGAL_TYPE_OF_ARGUMENT msg))) \<and>
   (isComparable type \<longrightarrow>
      AggregateFunctionsSingleValue (AggregateFunctionMinData D) type
        = Inr \<lparr>argument_types = [type]\<rparr> \<and>
      AggregateFunctionsSingleValue (AggregateFunctionMaxData D) type
        = Inr \<lparr>argument_types = [type]\<rparr>) \<and>
   AggregateFunctionsSingleValue (AggregateFunctionAnyData D) type
     = Inr \<lparr>argument_types = [type]\<rparr> \<and>
   AggregateFunctionsSingleValue (AggregateFunctionAnyLastData D) type
     = Inr \<lparr>argument_types = [type]\<rparr> \<and>
   AggregateFunctionsSingleValue (AggregateFunctionAnyHeavyData D) type
     = Inr \<lparr>argument_types = [type]\<rparr> \<and>
   AggregateFunctionsSingleValue (AggregateFunctionSingleValueOrNullData D) type
     = Inr \<lparr>argument_types = [type]\<rparr>"
  by (simp add: AggregateFunctionsSingleValue_def AggregateFunctionMinData_def
      AggregateFunctionMaxData_def AggregateFunctionAnyData_def
      AggregateFunctionAnyLastData_def AggregateFunctionAnyHeavyData_def
      AggregateFunctionSingleValueOrNullData_def)

theorem C9_constructor_witness:
  "AggregateFunctionsSingleValue (AggregateFunctionMinData SingleValueDataFixed_UInt64)
     \<lparr>getName = ''AggregateFunction(uniq, UInt64)'', isComparable = False\<rparr>
     \<noteq> Inr \<lparr>argument_types =
              [\<lparr>getName = ''AggregateFunction(uniq, UInt64)'', isComparable = False\<rparr>]\<rparr> \<and>
   AggregateFunctionsSingleValue (AggregateFunctionMaxData SingleValueDataFixed_UInt64)
     \<lparr>getName = ''UInt64'', isComparable = True\<rparr>
     = Inr \<lparr>argument_types = [\<lparr>getName = ''UInt64'', isComparable = True\<rparr>]\<rparr>"
  using C9_constructor [of "\<lparr>getName = ''AggregateFunction(uniq, UInt64)'', isComparable = False\<rparr>"
                           SingleValueDataFixed_UInt64]
        C9_constructor [of "\<lparr>getName = ''UInt64'', isComparable = True\<rparr>"
                           SingleValueDataFixed_UInt64]
  by auto

section \<open>Merging states that never saw a row\<close>

text \<open>
  For min, max, any, anyLast and anyHeavy over each of the three slots, merging a fresh
  state into a fresh state leaves the destination as it was.
\<close>

lemma empty_merge_noop_Fixed:
  fixes D :: "('a::{linorder,zero} SingleValueDataFixed, 'a, 'a) Data"
  assumes "D = SingleValueDataFixed enc dec"
  shows "merge (AggregateFunctionMinData D) (Fixed_init g) (Fixed_init g') = Fixed_init g"
    and "merge (AggregateFunctionMaxData D) (Fixed_init g) (Fixed_init g') = Fixed_init g"
    and "merge (AggregateFunctionAnyData D) (Fixed_init g) (Fixed_init g') = Fixed_init g"
    and "merge (AggregateFunctionAnyLastData D) (Fixed_init g) (Fixed_init g') = Fixed_init g"
    and "merge (AggregateFunctionAnyHeavyData D) (AnyHeavy_init (Fixed_init g))
           (AnyHeavy_init (Fixed_init g')) = AnyHeavy_init (Fixed_init g)"
  unfolding assms
  by (simp_all add: policy_defs adapter_defs Fixed_defs AnyHeavy_changeIfBetter_state_def
      AnyHeavy_init_def)

lemma empty_merge_noop_String:
  shows "merge (AggregateFunctionMinData SingleValueDataString) (String_init g) (String_init g')
           = String_init g"
    and "merge (AggregateFunctionMaxData SingleValueDataString) (String_init g) (String_init g')
           = String_init g"
    and "merge (AggregateFunctionAnyData SingleValueDataString) (String_init g) (String_init g')
           = String_init g"
    and "merge (AggregateFunctionAnyLastData SingleValueDataString) (String_init g) (String_init g')
           = String_init g"
    and "merge (AggregateFunctionAnyHeavyData SingleValueDataString) (AnyHeavy_init (String_init g))
           (AnyHeavy_init (String_init g')) = AnyHeavy_init (String_init g)"
  by (simp_all add: policy_defs adapter_defs String_defs AnyHeavy_changeIfBetter_state_def
      AnyHeavy_init_def String_init_def)

lemma empty_merge_noop_Generic:
  fixes D :: "('f::linorder SingleValueDataGeneric, 'f Field, 'f) Data"
  assumes "D = SingleValueDataGeneric dflt ser deser"
  shows "merge (AggregateFunctionMinData D) Generic_init Generic_init = Generic_init"
    and "merge (AggregateFunctionMaxData D) Generic_init Generic_init = Generic_init"
    and "merge (AggregateFunctionAnyData D) Generic_init Generic_init = Generic_init"
    and "merge (AggregateFunctionAnyLastData D) Generic_init Generic_init = Generic_init"
    and "merge (AggregateFunctionAnyHeavyData D) (AnyHeavy_init Generic_init)
           (AnyHeavy_init Generic_init) = AnyHeavy_init Generic_init"
  unfolding assms
  by (simp_all add: policy_defs adapter_defs Generic_defs AnyHeavy_changeIfBetter_state_def
      AnyHeavy_init_def)

text \<open>
  C1. The claim: for every policy over every slot, merging a never-populated state into a
  never-populated state leaves the destination never populated, and the result emitted
  is the empty one. For singleValueOrNull the code does otherwise: \<open>changeIfBetter\<close> on a
  state tests only the destination's \<open>first_value\<close> and calls \<open>change(to)\<close>, which
  assumes \<open>to.has()\<close>. Over \<open>SingleValueDataFixed<UInt64>\<close> the merge of two fresh states
  (value bytes zero) yields a state with \<open>has_value\<close> set and \<open>first_value\<close> cleared; a
  fresh state emits NULL, the merged state emits the value 0.
\<close>

theorem C1_OrNull_merge_of_fresh_states:
  "merge (AggregateFunctionSingleValueOrNullData SingleValueDataFixed_UInt64)
     (OrNull_init (Fixed_init 0)) (OrNull_init (Fixed_init 0))
   = \<lparr>orNull_Data = \<lparr>has_value = True, value_T = 0\<rparr>, first_value = False, is_null = False\<rparr> \<and>
   insertResult (AggregateFunctionSingleValueOrNullData SingleValueDataFixed_UInt64)
     (OrNull_init (Fixed_init 0)) [] = [None] \<and>
   insertResult (AggregateFunctionSingleValueOrNullData SingleValueDataFixed_UInt64)
     (merge (AggregateFunctionSingleValueOrNullData SingleValueDataFixed_UInt64)
        (OrNull_init (Fixed_init 0)) (OrNull_init (Fixed_init 0))) [] = [Some 0]"
  by (simp add: policy_defs adapter_defs OrNull_changeIfBetter_state_def OrNull_init_def
      OrNull_insertResultInto_def SingleValueDataFixed_UInt64_def Fixed_defs)

section \<open>The merge of anyHeavy\<close>

text \<open>
  The claim C2 against the code: where the destination adopts the value of the source,
  \<open>changeIfBetter(const Self & to)\<close> calls \<open>change(to)\<close> and leaves \<open>counter\<close> as it was,
  while its two other branches add and subtract \<open>to.counter\<close> and the overload on a row
  sets the counter where it adopts the value. The destination holds 1 with counter 1,
  the source 2 with counter 5: after the merge the destination holds 2 with counter 1,
  not 5. With the counter of the adopted value lost, the merges lose a majority: the
  states of the rows \<open>[1]\<close>, \<open>[2, 2, 2, 2, 2]\<close> and \<open>[3, 3]\<close>, merged one after the other,
  emit 3, and one state over the eight rows emits 2, the value of five rows of eight.
\<close>

theorem C2_AnyHeavy_merge_keeps_own_counter:
  "merge (AggregateFunctionAnyHeavyData SingleValueDataFixed_UInt64)
     \<lparr>anyHeavy_Data = \<lparr>has_value = True, value_T = 1\<rparr>, counter = 1\<rparr>
     \<lparr>anyHeavy_Data = \<lparr>has_value = True, value_T = 2\<rparr>, counter = 5\<rparr>
   = \<lparr>anyHeavy_Data = \<lparr>has_value = True, value_T = 2\<rparr>, counter = 1\<rparr> \<and>
   insertResult (AggregateFunctionAnyHeavyData SingleValueDataFixed_UInt64)
     (merge (AggregateFunctionAnyHeavyData SingleValueDataFixed_UInt64)
        (merge (AggregateFunctionAnyHeavyData SingleValueDataFixed_UInt64)
           (addRows (AggregateFunctionAnyHeavyData SingleValueDataFixed_UInt64)
              (AnyHeavy_init (Fixed_init 0)) [1])
           (addRows (AggregateFunctionAnyHeavyData SingleValueDataFixed_UInt64)
              (AnyHeavy_init (Fixed_init 0)) [2, 2, 2, 2, 2]))
        (addRows (AggregateFunctionAnyHeavyData SingleValueDataFixed_UInt64)
           (AnyHeavy_init (Fixed_init 0)) [3, 3])) []
     = [3] \<and>
   insertResult (AggregateFunctionAnyHeavyData SingleValueDataFixed_UInt64)
     (addRows (AggregateFunctionAnyHeavyData SingleValueDataFixed_UInt64)
        (AnyHeavy_init (Fixed_init 0)) [1, 2, 2, 2, 2, 2, 3, 3]) []
     = [2]"
  by (simp add: policy_defs adapter_defs AnyHeavy_changeIfBetter_state_def
      AnyHeavy_changeIfBetter_row_def AnyHeavy_init_def SingleValueDataFixed_UInt64_def
      Fixed_defs)

section \<open>singleValueOrNull\<close>

text \<open>
  C8. The claim: the rows 5 and 7 emit NULL for every split of the rows into partial
  states that are then merged. The merge reads neither \<open>is_null\<close> nor \<open>first_value\<close> of
  the source: the state that saw 5 and 7 emits NULL, and merged into a state that saw no
  row it leaves a state that emits 5.
\<close>

theorem C8_OrNull_conflict_lost_in_merge:
  "insertResult (AggregateFunctionSingleValueOrNullData SingleValueDataFixed_UInt64)
     (addRows (AggregateFunctionSingleValueOrNullData SingleValueDataFixed_UInt64)
        (OrNull_init (Fixed_init 0)) [5, 7]) [] = [None] \<and>
   insertResult (AggregateFunctionSingleValueOrNullData SingleValueDataFixed_UInt64)
     (merge (AggregateFunctionSingleValueOrNullData SingleValueDataFixed_UInt64)
        (addRows (AggregateFunctionSingleValueOrNullData SingleValueDataFixed_UInt64)
           (OrNull_init (Fixed_init 0)) [])
        (addRows (AggregateFunctionSingleValueOrNullData SingleValueDataFixed_UInt64)
           (OrNull_init (Fixed_init 0)) [5, 7])) [] = [Some 5]"
  by (simp add: policy_defs adapter_defs OrNull_changeIfBetter_state_def
      OrNull_changeIfBetter_row_def OrNull_init_def
      OrNull_insertResultInto_def SingleValueDataFixed_UInt64_def Fixed_defs)

section \<open>The wire format of the string slot\<close>

text \<open>
  C3. \<open>write\<close> of a string slot appends one of three byte patterns to the buffer. A state
  without a value (\<open>size < 1\<close>): the length 1 as four bytes, then one zero byte. A state
  with a value whose last stored byte is not zero: the length \<open>size + 1\<close>, the \<open>size\<close>
  stored bytes, one zero byte. A state with a value whose last stored byte is zero: the
  length \<open>size\<close>, the \<open>size\<close> stored bytes. The stored bytes of a state that keeps the
  invariant are \<open>size\<close> many; the length field has four bytes and reads back as the
  \<open>Int32\<close> written.
\<close>

theorem C3_String_write:
  "(\<not> String_has s \<longrightarrow> String_write s buf = buf @ [1, 0, 0, 0] @ [0]) \<and>
   (String_wf s \<and> String_has s \<and> last (String_bytes s) \<noteq> 0 \<longrightarrow>
      String_write s buf = buf @ writeBinary_Int32 (ssize s + 1) [] @ String_bytes s @ [0]) \<and>
   (String_wf s \<and> String_has s \<and> last (String_bytes s) = 0 \<longrightarrow>
      String_write s buf = buf @ writeBinary_Int32 (ssize s) [] @ String_bytes s) \<and>
   (String_wf s \<and> String_has s \<longrightarrow> int (length (String_bytes s)) = ssize s) \<and>
   length (writeBinary_Int32 x []) = 4 \<and>
   (- (2 ^ 31) \<le> x \<and> x < 2 ^ 31 \<longrightarrow>
      readBinary_Int32 (writeBinary_Int32 x [] @ rest) = Inr (x, rest))"
proof (intro conjI impI)
  show "String_write s buf = buf @ [1, 0, 0, 0] @ [0]" if "\<not> String_has s"
    using that by (rule String_write_empty)
  show "String_write s buf = buf @ writeBinary_Int32 (ssize s + 1) [] @ String_bytes s @ [0]"
    if "String_wf s \<and> String_has s \<and> last (String_bytes s) \<noteq> 0"
    using that String_write_nonzero by blast
  show "String_write s buf = buf @ writeBinary_Int32 (ssize s) [] @ String_bytes s"
    if "String_wf s \<and> String_has s \<and> last (String_bytes s) = 0"
    using that String_write_zero by blast
  show "int (length (String_bytes s)) = ssize s" if "String_wf s \<and> String_has s"
    using that length_String_bytes [of s] by (simp add: String_has_def)
  show "length (writeBinary_Int32 x []) = 4"
    by (rule length_writeBinary_Int32)
  show "readBinary_Int32 (writeBinary_Int32 x [] @ rest) = Inr (x, rest)"
    if "- (2 ^ 31) \<le> x \<and> x < 2 ^ 31"
    using that by (simp add: readBinary_Int32_writeBinary_Int32 static_cast_Int32_id)
qed

theorem C3_String_write_witness:
  "String_write (String_init (replicate 48 0)) [] = [1, 0, 0, 0, 0] \<and>
   String_write (String_change_row (String_init (replicate 48 0)) [97, 98, 99]) []
     = [4, 0, 0, 0, 97, 98, 99, 0] \<and>
   String_write (String_change_row (String_init (replicate 48 0)) [97, 98, 99, 0]) []
     = [4, 0, 0, 0, 97, 98, 99, 0]"
proof -
  have w: "String_wf (String_init (replicate 48 0))"
    by (simp add: String_wf_init)
  have l: "length [97, 98, 99 :: byte] \<le> 2 ^ 30" "length [97, 98, 99, 0 :: byte] \<le> 2 ^ 30"
    by simp_all
  note a = String_change_row_ok [OF w l(1)]
  note b = String_change_row_ok [OF w l(2)]
  show ?thesis
    using
      C3_String_write [of "String_init (replicate 48 0)" "[]" 4 "[]"]
      C3_String_write [of "String_change_row (String_init (replicate 48 0)) [97, 98, 99]" "[]" 4 "[]"]
      C3_String_write [of "String_change_row (String_init (replicate 48 0)) [97, 98, 99, 0]" "[]" 4 "[]"]
    by (simp add: a b ssize_String_init String_has_def writeBinary_Int32_4)
qed

section \<open>The empty string in a string slot\<close>

text \<open>
  C10. Every change operation of the string slot that stores the zero-length string
  (the unconditional \<open>change\<close> on a row or on a state of size 0, and each conditional
  change on a row when it reports a change) leaves a slot with \<open>has() = false\<close>. Such a
  slot is equal to nothing under \<open>isEqualTo\<close>, emits the default (the empty string) and
  is written as a fresh slot is: it cannot be told from a slot that never saw a row.
\<close>

theorem C10_String_empty_string_is_no_value:
  "\<not> String_has (String_change_row s []) \<and>
   (ssize t = 0 \<longrightarrow> \<not> String_has (String_change_state s t)) \<and>
   (fst (String_changeFirstTime_row s []) \<longrightarrow> \<not> String_has (snd (String_changeFirstTime_row s []))) \<and>
   (fst (String_changeEveryTime_row s []) \<longrightarrow> \<not> String_has (snd (String_changeEveryTime_row s []))) \<and>
   (fst (String_changeIfLess_row s []) \<longrightarrow> \<not> String_has (snd (String_changeIfLess_row s []))) \<and>
   (fst (String_changeIfGreater_row s []) \<longrightarrow> \<not> String_has (snd (String_changeIfGreater_row s []))) \<and>
   (\<not> String_has s' \<longrightarrow>
      \<not> String_isEqualTo_row s' v \<and> \<not> String_isEqualTo_state s' t \<and>
      String_insertResultInto s' to = to @ [[]] \<and>
      String_insertResultInto s' to = String_insertResultInto (String_init g) to \<and>
      String_write s' buf = String_write (String_init g) buf)"
proof -
  have a: "\<not> String_has (String_change_row s [])"
    by (simp add: String_has_def String_change_row_Nil)
  have b: "\<not> String_has (String_change_state s t)" if "ssize t = 0"
    using that by (simp add: String_has_def String_change_state_zero)
  have c: "\<not> String_has s' \<Longrightarrow>
      \<not> String_isEqualTo_row s' v \<and> \<not> String_isEqualTo_state s' t \<and>
      String_insertResultInto s' to = to @ [[]] \<and>
      String_insertResultInto s' to = String_insertResultInto (String_init g) to \<and>
      String_write s' buf = String_write (String_init g) buf"
    using String_write_empty [of s' buf] String_write_empty [of "String_init g" buf]
    by (simp add: String_isEqualTo_row_def String_isEqualTo_state_def
        String_insertResultInto_empty String_has_init)
  have d: "fst (String_changeFirstTime_row s []) \<longrightarrow>
      \<not> String_has (snd (String_changeFirstTime_row s []))"
    using a by (simp add: String_changeFirstTime_row_def)
  have e: "fst (String_changeEveryTime_row s []) \<longrightarrow>
      \<not> String_has (snd (String_changeEveryTime_row s []))"
    using a by (simp add: String_changeEveryTime_row_def)
  have f: "fst (String_changeIfLess_row s []) \<longrightarrow>
      \<not> String_has (snd (String_changeIfLess_row s []))"
    using a by (simp add: String_changeIfLess_row_def)
  have g: "fst (String_changeIfGreater_row s []) \<longrightarrow>
      \<not> String_has (snd (String_changeIfGreater_row s []))"
    using a by (simp add: String_changeIfGreater_row_def)
  show ?thesis
    using a b c d e f g by blast
qed

theorem C10_String_empty_string_is_no_value_witness:
  "fst (String_changeIfLess_row (String_change_row (String_init (replicate 48 0)) [98]) []) \<and>
   \<not> String_has (snd (String_changeIfLess_row
                         (String_change_row (String_init (replicate 48 0)) [98]) [])) \<and>
   \<not> String_has (String_change_state (String_init (replicate 48 0))
                   (String_change_row (String_init (replicate 48 0)) [])) \<and>
   String_insertResultInto (String_change_row (String_init (replicate 48 0)) []) [] = [[]] \<and>
   String_write (String_change_row (String_init (replicate 48 0)) []) [] = [1, 0, 0, 0, 0]"
proof -
  have w: "String_wf (String_init (replicate 48 0))"
    by (simp add: String_wf_init)
  have l: "length [98 :: byte] \<le> 2 ^ 30"
    by simp
  note a = String_change_row_ok [OF w l]
  have h: "String_has (String_change_row (String_init (replicate 48 0)) [98])"
    by (simp add: String_has_def a)
  have f: "fst (String_changeIfLess_row (String_change_row (String_init (replicate 48 0)) [98]) [])"
    using String_less_row(1) [OF a(1) h, of "[]"] by (simp add: String_changeIfLess_row_def a h)
  show ?thesis
    using f
      C10_String_empty_string_is_no_value
        [of "String_change_row (String_init (replicate 48 0)) [98]"
            "String_change_row (String_init (replicate 48 0)) []"
            "String_change_row (String_init (replicate 48 0)) []" "[]" "[]" "replicate 48 0" "[]"]
      C10_String_empty_string_is_no_value
        [of "String_init (replicate 48 0)"
            "String_change_row (String_init (replicate 48 0)) []"
            "String_change_row (String_init (replicate 48 0)) []" "[]" "[]" "replicate 48 0" "[]"]
      String_write_empty [of "String_init (replicate 48 0)" "[]"]
    by (simp add: String_change_row_Nil String_has_init)
qed

section \<open>The comparison-gated changes\<close>

text \<open>
  The claim C5 as stated fails on the overloads that take a state: they change nothing
  when the source state has no value, also when the slot itself is empty. Both states
  fresh: the slot is empty and is not replaced.
\<close>

theorem C5_counterexample:
  "\<not> has SingleValueDataFixed_UInt64 (Fixed_init 0) \<and>
   changeIfLess_state SingleValueDataFixed_UInt64 (Fixed_init 0) (Fixed_init 0)
     = (False, Fixed_init 0) \<and>
   changeIfGreater_state SingleValueDataFixed_UInt64 (Fixed_init 0) (Fixed_init 0)
     = (False, Fixed_init 0)"
  by (simp add: SingleValueDataFixed_UInt64_def Fixed_defs)

text \<open>
  C5, amended. For each of FixedSlot, StringSlot and GenericSlot: the row overload of
  \<open>changeIfLess\<close> (\<open>changeIfGreater\<close>) replaces the stored value if and only if the slot
  is empty or the candidate is strictly less (greater) than the stored value; the state
  overload replaces it if and only if the source state has a value and the slot is empty
  or the source's value is strictly less (greater). A candidate equal to the stored
  value changes nothing. After a replacement the slot stores the candidate. The order is
  the order of the value type: for strings the order of \<open>memcmp\<close> and then of the
  lengths, that is, the lexicographic order of the bytes; for the string slot empty
  means \<open>has() = false\<close>.
\<close>

theorem C5_changeIfLess_changeIfGreater:
  fixes enc :: "'a::{linorder,zero} \<Rightarrow> byte list" and dec and dflt :: "'f::linorder"
    and ser and deser
  defines "F \<equiv> SingleValueDataFixed enc dec"
    and "G \<equiv> SingleValueDataGeneric dflt ser deser"
    and "S \<equiv> SingleValueDataString"
  shows
   "(fst (changeIfLess_row F s v) = (\<not> has F s \<or> v < value_T s) \<and>
     fst (changeIfGreater_row F s v) = (\<not> has F s \<or> value_T s < v) \<and>
     fst (changeIfLess_state F s t) = (has F t \<and> (\<not> has F s \<or> value_T t < value_T s)) \<and>
     fst (changeIfGreater_state F s t) = (has F t \<and> (\<not> has F s \<or> value_T s < value_T t)) \<and>
     snd (changeIfLess_row F s v) = (if fst (changeIfLess_row F s v) then change_row F s v else s) \<and>
     snd (changeIfGreater_row F s v)
       = (if fst (changeIfGreater_row F s v) then change_row F s v else s) \<and>
     snd (changeIfLess_state F s t)
       = (if fst (changeIfLess_state F s t) then change_state F s t else s) \<and>
     snd (changeIfGreater_state F s t)
       = (if fst (changeIfGreater_state F s t) then change_state F s t else s) \<and>
     has F (change_row F s v) \<and> value_T (change_row F s v) = v \<and>
     has F (change_state F s t) \<and> value_T (change_state F s t) = value_T t) \<and>
    (fst (changeIfLess_row G gs gv) = (\<not> has G gs \<or> Field_less gv (value_Field gs)) \<and>
     fst (changeIfGreater_row G gs gv) = (\<not> has G gs \<or> Field_less (value_Field gs) gv) \<and>
     fst (changeIfLess_state G gs gt)
       = (has G gt \<and> (\<not> has G gs \<or> Field_less (value_Field gt) (value_Field gs))) \<and>
     fst (changeIfGreater_state G gs gt)
       = (has G gt \<and> (\<not> has G gs \<or> Field_less (value_Field gs) (value_Field gt))) \<and>
     snd (changeIfLess_row G gs gv)
       = (if fst (changeIfLess_row G gs gv) then change_row G gs gv else gs) \<and>
     snd (changeIfGreater_row G gs gv)
       = (if fst (changeIfGreater_row G gs gv) then change_row G gs gv else gs) \<and>
     snd (changeIfLess_state G gs gt)
       = (if fst (changeIfLess_state G gs gt) then change_state G gs gt else gs) \<and>
     snd (changeIfGreater_state G gs gt)
       = (if fst (changeIfGreater_state G gs gt) then change_state G gs gt else gs) \<and>
     value_Field (change_row G gs gv) = gv \<and>
     value_Field (change_state G gs gt) = value_Field gt \<and>
     has G gs = (value_Field gs \<noteq> Null) \<and>
     Field_less (Val x) (Val y) = (x < y)) \<and>
    (String_wf ss \<longrightarrow>
     fst (changeIfLess_row S ss sv) = (\<not> has S ss \<or> sv < String_bytes ss) \<and>
     fst (changeIfGreater_row S ss sv) = (\<not> has S ss \<or> String_bytes ss < sv) \<and>
     snd (changeIfLess_row S ss sv)
       = (if fst (changeIfLess_row S ss sv) then change_row S ss sv else ss) \<and>
     snd (changeIfGreater_row S ss sv)
       = (if fst (changeIfGreater_row S ss sv) then change_row S ss sv else ss) \<and>
     (length sv \<le> 2 ^ 30 \<longrightarrow> String_bytes (change_row S ss sv) = sv) \<and>
     has S ss = (String_bytes ss \<noteq> [] \<and> 0 \<le> ssize ss) \<and>
     (String_wf st \<longrightarrow>
        fst (changeIfLess_state S ss st)
          = (has S st \<and> (\<not> has S ss \<or> String_bytes st < String_bytes ss)) \<and>
        fst (changeIfGreater_state S ss st)
          = (has S st \<and> (\<not> has S ss \<or> String_bytes ss < String_bytes st)) \<and>
        snd (changeIfLess_state S ss st)
          = (if fst (changeIfLess_state S ss st) then change_state S ss st else ss) \<and>
        snd (changeIfGreater_state S ss st)
          = (if fst (changeIfGreater_state S ss st) then change_state S ss st else ss) \<and>
        (has S st \<and> ssize st \<le> 2 ^ 30 \<longrightarrow>
           String_bytes (change_state S ss st) = String_bytes st)))"
proof (intro conjI impI)
  note f = Fixed_compare_changes [of F enc dec, OF F_def [THEN meta_eq_to_obj_eq]]
  note g = Generic_compare_changes [of G dflt ser deser, OF G_def [THEN meta_eq_to_obj_eq]]
  show "fst (changeIfLess_row F s v) = (\<not> has F s \<or> v < value_T s)" by (rule f)
  show "fst (changeIfGreater_row F s v) = (\<not> has F s \<or> value_T s < v)" by (rule f)
  show "fst (changeIfLess_state F s t) = (has F t \<and> (\<not> has F s \<or> value_T t < value_T s))"
    by (rule f)
  show "fst (changeIfGreater_state F s t) = (has F t \<and> (\<not> has F s \<or> value_T s < value_T t))"
    by (rule f)
  show "snd (changeIfLess_row F s v) = (if fst (changeIfLess_row F s v) then change_row F s v else s)"
    by (rule f)
  show "snd (changeIfGreater_row F s v)
       = (if fst (changeIfGreater_row F s v) then change_row F s v else s)"
    by (rule f)
  show "snd (changeIfLess_state F s t)
       = (if fst (changeIfLess_state F s t) then change_state F s t else s)"
    by (rule f)
  show "snd (changeIfGreater_state F s t)
       = (if fst (changeIfGreater_state F s t) then change_state F s t else s)"
    by (rule f)
  show "has F (change_row F s v)" "value_T (change_row F s v) = v"
    using f(9) [of s v] by simp_all
  show "has F (change_state F s t)" "value_T (change_state F s t) = value_T t"
    using f(10) [of s t] by simp_all
  show "fst (changeIfLess_row G gs gv) = (\<not> has G gs \<or> Field_less gv (value_Field gs))"
    by (rule g)
  show "fst (changeIfGreater_row G gs gv) = (\<not> has G gs \<or> Field_less (value_Field gs) gv)"
    by (rule g)
  show "fst (changeIfLess_state G gs gt)
       = (has G gt \<and> (\<not> has G gs \<or> Field_less (value_Field gt) (value_Field gs)))"
    by (rule g)
  show "fst (changeIfGreater_state G gs gt)
       = (has G gt \<and> (\<not> has G gs \<or> Field_less (value_Field gs) (value_Field gt)))"
    by (rule g)
  show "snd (changeIfLess_row G gs gv)
       = (if fst (changeIfLess_row G gs gv) then change_row G gs gv else gs)"
    by (rule g)
  show "snd (changeIfGreater_row G gs gv)
       = (if fst (changeIfGreater_row G gs gv) then change_row G gs gv else gs)"
    by (rule g)
  show "snd (changeIfLess_state G gs gt)
       = (if fst (changeIfLess_state G gs gt) then change_state G gs gt else gs)"
    by (rule g)
  show "snd (changeIfGreater_state G gs gt)
       = (if fst (changeIfGreater_state G gs gt) then change_state G gs gt else gs)"
    by (rule g)
  show "value_Field (change_row G gs gv) = gv" by (rule g)
  show "value_Field (change_state G gs gt) = value_Field gt" by (rule g)
  show "has G gs = (value_Field gs \<noteq> Null)" by (rule g)
  show "Field_less (Val x) (Val y) = (x < y)" by simp
next
  assume w: "String_wf ss"
  note r = String_compare_changes_row [OF w, folded S_def]
  note c = String_change_stores [OF w, folded S_def]
  show "fst (changeIfLess_row S ss sv) = (\<not> has S ss \<or> sv < String_bytes ss)" by (rule r)
  show "fst (changeIfGreater_row S ss sv) = (\<not> has S ss \<or> String_bytes ss < sv)" by (rule r)
  show "snd (changeIfLess_row S ss sv)
       = (if fst (changeIfLess_row S ss sv) then change_row S ss sv else ss)"
    by (rule r)
  show "snd (changeIfGreater_row S ss sv)
       = (if fst (changeIfGreater_row S ss sv) then change_row S ss sv else ss)"
    by (rule r)
  show "String_bytes (change_row S ss sv) = sv" if "length sv \<le> 2 ^ 30"
    using that by (rule c)
  show "has S ss = (String_bytes ss \<noteq> [] \<and> 0 \<le> ssize ss)" by (rule c)
  assume w': "String_wf st"
  note q = String_compare_changes_state [OF w w', folded S_def]
  show "fst (changeIfLess_state S ss st)
          = (has S st \<and> (\<not> has S ss \<or> String_bytes st < String_bytes ss))"
    by (rule q)
  show "fst (changeIfGreater_state S ss st)
          = (has S st \<and> (\<not> has S ss \<or> String_bytes ss < String_bytes st))"
    by (rule q)
  show "snd (changeIfLess_state S ss st)
          = (if fst (changeIfLess_state S ss st) then change_state S ss st else ss)"
    by (rule q)
  show "snd (changeIfGreater_state S ss st)
          = (if fst (changeIfGreater_state S ss st) then change_state S ss st else ss)"
    by (rule q)
  show "String_bytes (change_state S ss st) = String_bytes st"
    if "has S st \<and> ssize st \<le> 2 ^ 30"
    using that c(3) [OF w'] by blast
qed

theorem C5_changeIfLess_changeIfGreater_witness:
  "fst (changeIfLess_row SingleValueDataFixed_UInt64 \<lparr>has_value = True, value_T = 5\<rparr> 3) \<and>
   value_T (snd (changeIfLess_row SingleValueDataFixed_UInt64
                   \<lparr>has_value = True, value_T = 5\<rparr> 3)) = 3 \<and>
   changeIfLess_state SingleValueDataFixed_UInt64 \<lparr>has_value = True, value_T = 5\<rparr>
       \<lparr>has_value = True, value_T = 5\<rparr>
     = (False, \<lparr>has_value = True, value_T = 5\<rparr>) \<and>
   fst (changeIfLess_row SingleValueDataString
          (String_change_row (String_init (replicate 48 0)) [98]) [97]) \<and>
   String_bytes (snd (changeIfLess_row SingleValueDataString
                        (String_change_row (String_init (replicate 48 0)) [98]) [97])) = [97] \<and>
   changeIfGreater_state SingleValueDataString
       (String_change_row (String_init (replicate 48 0)) [98])
       (String_change_row (String_init (replicate 48 0)) [98])
     = (False, String_change_row (String_init (replicate 48 0)) [98])"
  using
    C5_changeIfLess_changeIfGreater
      [where enc = writeBinary_T_UInt64 and dec = readBinary_T_UInt64
         and s = "\<lparr>has_value = True, value_T = 5\<rparr>" and v = 3
         and t = "\<lparr>has_value = True, value_T = 5\<rparr>"
         and dflt = "0 :: 64 word" and ser = serializeBinary_UInt64
         and deser = deserializeBinary_UInt64
         and gs = "\<lparr>value_Field = Val 5\<rparr>" and gv = "Val 3"
         and gt = "\<lparr>value_Field = Val 7\<rparr>" and x = 1 and y = 2
         and ss = "String_change_row (String_init (replicate 48 0)) [98]" and sv = "[97]"
         and st = "String_change_row (String_init (replicate 48 0)) [98]",
       folded SingleValueDataFixed_UInt64_def SingleValueDataGeneric_UInt64_def]
  by (simp add: String_row_98 prod_eq_iff has_Fixed_UInt64)

section \<open>Serialization round trip\<close>

text \<open>
  The claim C4 as stated fails for singleValueOrNull: the struct adds \<open>first_value\<close> and
  \<open>is_null\<close> and inherits \<open>write\<close> and \<open>read\<close> of the slot, so neither flag is written.
  The state that saw the row 5 emits 5; its bytes, read into a fresh state, give a state
  that emits NULL.
\<close>

theorem C4_counterexample:
  "insertResult (AggregateFunctionSingleValueOrNullData SingleValueDataFixed_UInt64)
     (addRows (AggregateFunctionSingleValueOrNullData SingleValueDataFixed_UInt64)
        (OrNull_init (Fixed_init 0)) [5]) [] = [Some 5] \<and>
   deserialize (AggregateFunctionSingleValueOrNullData SingleValueDataFixed_UInt64)
     (OrNull_init (Fixed_init 0))
     (serialize (AggregateFunctionSingleValueOrNullData SingleValueDataFixed_UInt64)
        (addRows (AggregateFunctionSingleValueOrNullData SingleValueDataFixed_UInt64)
           (OrNull_init (Fixed_init 0)) [5]) [])
     = Inr (\<lparr>orNull_Data = \<lparr>has_value = True, value_T = 5\<rparr>,
              first_value = True, is_null = False\<rparr>, []) \<and>
   insertResult (AggregateFunctionSingleValueOrNullData SingleValueDataFixed_UInt64)
     \<lparr>orNull_Data = \<lparr>has_value = True, value_T = 5\<rparr>, first_value = True, is_null = False\<rparr> []
     = [None]"
proof -
  have "Fixed_read readBinary_T_UInt64 (Fixed_init 0)
          (Fixed_write writeBinary_T_UInt64 \<lparr>has_value = True, value_T = 5\<rparr> [] @ [])
        = Inr (\<lparr>has_value = True, value_T = 5\<rparr>, [])"
    using Fixed_roundtrip [of readBinary_T_UInt64 writeBinary_T_UInt64 "Fixed_init 0"
        "\<lparr>has_value = True, value_T = 5\<rparr>" "[]"] UInt64_codec
    by (simp add: Fixed_init_def)
  then show ?thesis
    by (simp add: policy_defs adapter_defs OrNull_changeIfBetter_row_def OrNull_init_def
        OrNull_insertResultInto_def OrNull_read_def SingleValueDataFixed_UInt64_def
        SingleValueDataFixed_def Fixed_has_def Fixed_insertResultInto_def Fixed_change_row_def
        Fixed_init_def)
qed

text \<open>
  C4, amended. For every state of the policies min, max, any, anyLast and anyHeavy over
  every slot variant, reading the bytes that \<open>serialize\<close> wrote yields a state that emits
  what the written state emits, and for anyHeavy has the written counter; the flags of
  singleValueOrNull are not written and the law is not promised for it. The fixed slot
  is read into any state and the generic slot into a fresh one, each with the value
  type's own encoding read back by its decoding; a string slot is read into any state
  that keeps the invariant, for a string shorter than \<open>2 ^ 30\<close> bytes. In particular the
  string slot that holds the three bytes abc writes the length 4, the bytes and a zero
  byte, and a string slot read from the length 4 and the bytes abc and zero emits abc.
\<close>

theorem C4_roundtrip:
  fixes enc :: "'a::{linorder,zero} \<Rightarrow> byte list" and dec and dflt :: "'f::linorder"
    and ser and deser
    and D :: "('d, 'v, 'c) Data"
  defines "F \<equiv> SingleValueDataFixed enc dec"
    and "G \<equiv> SingleValueDataGeneric dflt ser deser"
    and "S \<equiv> SingleValueDataString"
  shows
   "((\<forall>v r. dec (enc v @ r) = Some (v, r)) \<longrightarrow>
       (\<exists>s'. read_buf F d (write_buf F s [] @ rest) = Inr (s', rest) \<and>
             insertResultInto F s' to = insertResultInto F s to) \<and>
       (\<exists>s'. deserialize (AggregateFunctionAnyHeavyData F) \<lparr>anyHeavy_Data = d, counter = c0\<rparr>
               (serialize (AggregateFunctionAnyHeavyData F)
                  \<lparr>anyHeavy_Data = s, counter = c\<rparr> [] @ rest) = Inr (s', rest) \<and>
             counter s' = c \<and>
             insertResult (AggregateFunctionAnyHeavyData F) s' to
               = insertResult (AggregateFunctionAnyHeavyData F)
                   \<lparr>anyHeavy_Data = s, counter = c\<rparr> to)) \<and>
    ((\<forall>v r. v \<noteq> Null \<longrightarrow> deser (ser v @ r) = Some (v, r)) \<longrightarrow>
       (\<exists>s'. read_buf G Generic_init (write_buf G gs [] @ rest) = Inr (s', rest) \<and>
             insertResultInto G s' gto = insertResultInto G gs gto) \<and>
       (\<exists>s'. deserialize (AggregateFunctionAnyHeavyData G)
               \<lparr>anyHeavy_Data = Generic_init, counter = c0\<rparr>
               (serialize (AggregateFunctionAnyHeavyData G)
                  \<lparr>anyHeavy_Data = gs, counter = c\<rparr> [] @ rest) = Inr (s', rest) \<and>
             counter s' = c \<and>
             insertResult (AggregateFunctionAnyHeavyData G) s' gto
               = insertResult (AggregateFunctionAnyHeavyData G)
                   \<lparr>anyHeavy_Data = gs, counter = c\<rparr> gto)) \<and>
    (String_wf ss \<and> String_wf sd \<and> ssize ss < 2 ^ 30 \<longrightarrow>
       (\<exists>s'. read_buf S sd (write_buf S ss [] @ rest) = Inr (s', rest) \<and>
             insertResultInto S s' sto = insertResultInto S ss sto) \<and>
       (\<exists>s'. deserialize (AggregateFunctionAnyHeavyData S) \<lparr>anyHeavy_Data = sd, counter = c0\<rparr>
               (serialize (AggregateFunctionAnyHeavyData S)
                  \<lparr>anyHeavy_Data = ss, counter = c\<rparr> [] @ rest) = Inr (s', rest) \<and>
             counter s' = c \<and>
             insertResult (AggregateFunctionAnyHeavyData S) s' sto
               = insertResult (AggregateFunctionAnyHeavyData S)
                   \<lparr>anyHeavy_Data = ss, counter = c\<rparr> sto)) \<and>
    (serialize (AggregateFunctionMinData D) = write_buf D \<and>
     deserialize (AggregateFunctionMinData D) = read_buf D \<and>
     insertResult (AggregateFunctionMinData D) = insertResultInto D \<and>
     serialize (AggregateFunctionMaxData D) = write_buf D \<and>
     deserialize (AggregateFunctionMaxData D) = read_buf D \<and>
     insertResult (AggregateFunctionMaxData D) = insertResultInto D \<and>
     serialize (AggregateFunctionAnyData D) = write_buf D \<and>
     deserialize (AggregateFunctionAnyData D) = read_buf D \<and>
     insertResult (AggregateFunctionAnyData D) = insertResultInto D \<and>
     serialize (AggregateFunctionAnyLastData D) = write_buf D \<and>
     deserialize (AggregateFunctionAnyLastData D) = read_buf D \<and>
     insertResult (AggregateFunctionAnyLastData D) = insertResultInto D) \<and>
    (length g = 48 \<longrightarrow>
       write_buf S (change_row S (String_init g) [97, 98, 99]) [] = [4, 0, 0, 0, 97, 98, 99, 0] \<and>
       insertResultInto S (change_row S (String_init g) [97, 98, 99]) [] = [[97, 98, 99]] \<and>
       (\<exists>s'. read_buf S (String_init g) [4, 0, 0, 0, 97, 98, 99, 0] = Inr (s', []) \<and>
             insertResultInto S s' [] = [[97, 98, 99]]))"
proof (intro conjI impI)
  assume codec: "\<forall>v r. dec (enc v @ r) = Some (v, r)"
  define s' where "s' = d\<lparr>has_value := has_value s,
                          value_T := (if has_value s then value_T s else value_T d)\<rparr>"
  have r: "read_buf F d (write_buf F s [] @ x) = Inr (s', x)" for x
    using Fixed_roundtrip [of dec enc d s x] codec
    by (simp add: F_def SingleValueDataFixed_def s'_def)
  have e: "insertResultInto F s' to = insertResultInto F s to"
    by (simp add: F_def SingleValueDataFixed_def s'_def Fixed_insertResultInto_def Fixed_has_def)
  show "\<exists>s'. read_buf F d (write_buf F s [] @ rest) = Inr (s', rest) \<and>
             insertResultInto F s' to = insertResultInto F s to"
    using r e by blast
  have a: "write_buf F s buf = buf @ write_buf F s []" for buf
    using write_buf_append_Fixed [of enc s buf] by (simp add: F_def SingleValueDataFixed_def)
  have "AnyHeavy_read F \<lparr>anyHeavy_Data = d, counter = c0\<rparr>
           (AnyHeavy_write F \<lparr>anyHeavy_Data = s, counter = c\<rparr> [] @ rest)
         = Inr (\<lparr>anyHeavy_Data = s', counter = c\<rparr>, rest)"
    using a r by (rule AnyHeavy_roundtrip)
  then show "\<exists>s'. deserialize (AggregateFunctionAnyHeavyData F) \<lparr>anyHeavy_Data = d, counter = c0\<rparr>
               (serialize (AggregateFunctionAnyHeavyData F)
                  \<lparr>anyHeavy_Data = s, counter = c\<rparr> [] @ rest) = Inr (s', rest) \<and>
             counter s' = c \<and>
             insertResult (AggregateFunctionAnyHeavyData F) s' to
               = insertResult (AggregateFunctionAnyHeavyData F)
                   \<lparr>anyHeavy_Data = s, counter = c\<rparr> to"
    using e by (simp add: adapter_defs AggregateFunctionAnyHeavyData_def)
next
  assume codec: "\<forall>v r. v \<noteq> Null \<longrightarrow> deser (ser v @ r) = Some (v, r)"
  have r: "read_buf G Generic_init (write_buf G gs [] @ x) = Inr (gs, x)" for x
    using Generic_roundtrip [of deser ser gs x] codec
    by (simp add: G_def SingleValueDataGeneric_def)
  show "\<exists>s'. read_buf G Generic_init (write_buf G gs [] @ rest) = Inr (s', rest) \<and>
             insertResultInto G s' gto = insertResultInto G gs gto"
    using r by blast
  have a: "write_buf G gs buf = buf @ write_buf G gs []" for buf
    using write_buf_append_Generic [of ser gs buf] by (simp add: G_def SingleValueDataGeneric_def)
  have "AnyHeavy_read G \<lparr>anyHeavy_Data = Generic_init, counter = c0\<rparr>
           (AnyHeavy_write G \<lparr>anyHeavy_Data = gs, counter = c\<rparr> [] @ rest)
         = Inr (\<lparr>anyHeavy_Data = gs, counter = c\<rparr>, rest)"
    using a r by (rule AnyHeavy_roundtrip)
  then show "\<exists>s'. deserialize (AggregateFunctionAnyHeavyData G)
               \<lparr>anyHeavy_Data = Generic_init, counter = c0\<rparr>
               (serialize (AggregateFunctionAnyHeavyData G)
                  \<lparr>anyHeavy_Data = gs, counter = c\<rparr> [] @ rest) = Inr (s', rest) \<and>
             counter s' = c \<and>
             insertResult (AggregateFunctionAnyHeavyData G) s' gto
               = insertResult (AggregateFunctionAnyHeavyData G)
                   \<lparr>anyHeavy_Data = gs, counter = c\<rparr> gto"
    by (simp add: adapter_defs AggregateFunctionAnyHeavyData_def)
next
  assume w: "String_wf ss \<and> String_wf sd \<and> ssize ss < 2 ^ 30"
  obtain s' where s': "String_read sd (String_write ss [] @ rest) = Inr (s', rest)"
    "String_insertResultInto s' sto = String_insertResultInto ss sto"
    using String_roundtrip [of ss sd rest sto] w by blast
  then show "\<exists>s'. read_buf S sd (write_buf S ss [] @ rest) = Inr (s', rest) \<and>
             insertResultInto S s' sto = insertResultInto S ss sto"
    by (auto simp add: S_def SingleValueDataString_def)
  obtain s'' where s'': "String_read sd (String_write ss [] @ writeBinary_UInt64 c [] @ rest)
        = Inr (s'', writeBinary_UInt64 c [] @ rest)"
    "String_insertResultInto s'' sto = String_insertResultInto ss sto"
    using String_roundtrip [of ss sd "writeBinary_UInt64 c [] @ rest" sto] w by blast
  have a: "write_buf S ss buf = buf @ write_buf S ss []" for buf
    using write_buf_append_String [of ss buf] by (simp add: S_def SingleValueDataString_def)
  have r: "read_buf S sd (write_buf S ss [] @ writeBinary_UInt64 c [] @ rest)
        = Inr (s'', writeBinary_UInt64 c [] @ rest)"
    using s''(1) by (simp add: S_def SingleValueDataString_def)
  have "AnyHeavy_read S \<lparr>anyHeavy_Data = sd, counter = c0\<rparr>
           (AnyHeavy_write S \<lparr>anyHeavy_Data = ss, counter = c\<rparr> [] @ rest)
         = Inr (\<lparr>anyHeavy_Data = s'', counter = c\<rparr>, rest)"
    using a r by (rule AnyHeavy_roundtrip)
  then show "\<exists>s'. deserialize (AggregateFunctionAnyHeavyData S) \<lparr>anyHeavy_Data = sd, counter = c0\<rparr>
               (serialize (AggregateFunctionAnyHeavyData S)
                  \<lparr>anyHeavy_Data = ss, counter = c\<rparr> [] @ rest) = Inr (s', rest) \<and>
             counter s' = c \<and>
             insertResult (AggregateFunctionAnyHeavyData S) s' sto
               = insertResult (AggregateFunctionAnyHeavyData S)
                   \<lparr>anyHeavy_Data = ss, counter = c\<rparr> sto"
    using s''(2) by (simp add: adapter_defs AggregateFunctionAnyHeavyData_def S_def
        SingleValueDataString_def)
next
  assume g: "length g = 48"
  show "write_buf S (change_row S (String_init g) [97, 98, 99]) [] = [4, 0, 0, 0, 97, 98, 99, 0]"
    using String_abc_write(1) [OF g] by (simp add: S_def SingleValueDataString_def)
  show "insertResultInto S (change_row S (String_init g) [97, 98, 99]) [] = [[97, 98, 99]]"
    using String_abc_write(2) [OF g] by (simp add: S_def SingleValueDataString_def)
  show "\<exists>s'. read_buf S (String_init g) [4, 0, 0, 0, 97, 98, 99, 0] = Inr (s', []) \<and>
             insertResultInto S s' [] = [[97, 98, 99]]"
    using String_abc_read [OF g] by (simp add: S_def SingleValueDataString_def)
qed (simp_all add: fun_eq_iff adapter_defs policy_defs)

theorem C4_roundtrip_witness:
  "(\<exists>s'. read_buf SingleValueDataFixed_UInt64 (Fixed_init 0)
            (write_buf SingleValueDataFixed_UInt64 \<lparr>has_value = True, value_T = 5\<rparr> [] @ [])
            = Inr (s', []) \<and>
         insertResultInto SingleValueDataFixed_UInt64 s' [] = [5]) \<and>
   (\<exists>s'. read_buf SingleValueDataGeneric_UInt64 Generic_init
            (write_buf SingleValueDataGeneric_UInt64 \<lparr>value_Field = Val 7\<rparr> [] @ [])
            = Inr (s', []) \<and>
         insertResultInto SingleValueDataGeneric_UInt64 s' [] = [7]) \<and>
   (\<exists>s'. read_buf SingleValueDataString (String_init (replicate 48 0))
            (write_buf SingleValueDataString
               (String_change_row (String_init (replicate 48 0)) [98]) [] @ [])
            = Inr (s', []) \<and>
         insertResultInto SingleValueDataString s' [] = [[98]]) \<and>
   write_buf SingleValueDataString
     (change_row SingleValueDataString (String_init (replicate 48 0)) [97, 98, 99]) []
     = [4, 0, 0, 0, 97, 98, 99, 0] \<and>
   (\<exists>s'. read_buf SingleValueDataString (String_init (replicate 48 0))
            [4, 0, 0, 0, 97, 98, 99, 0] = Inr (s', []) \<and>
         insertResultInto SingleValueDataString s' [] = [[97, 98, 99]])"
proof -
  note T = C4_roundtrip
      [where enc = writeBinary_T_UInt64 and dec = readBinary_T_UInt64
         and d = "Fixed_init 0" and s = "\<lparr>has_value = True, value_T = 5\<rparr>"
         and rest = "[]" and to = "[]" and c0 = 0 and c = 3
         and dflt = "0 :: 64 word" and ser = serializeBinary_UInt64
         and deser = deserializeBinary_UInt64
         and gs = "\<lparr>value_Field = Val 7\<rparr>" and gto = "[]"
         and ss = "String_change_row (String_init (replicate 48 0)) [98]"
         and sd = "String_init (replicate 48 0)" and sto = "[]"
         and D = SingleValueDataFixed_UInt64 and g = "replicate 48 0",
       folded SingleValueDataFixed_UInt64_def SingleValueDataGeneric_UInt64_def]
  have h1: "\<forall>v r. readBinary_T_UInt64 (writeBinary_T_UInt64 v @ r) = Some (v, r)"
    by (simp add: UInt64_codec)
  have h2: "\<forall>v r. v \<noteq> Null \<longrightarrow>
      deserializeBinary_UInt64 (serializeBinary_UInt64 v @ r) = Some (v, r)"
    by (simp add: UInt64_Field_codec)
  have h3: "String_wf (String_change_row (String_init (replicate 48 0)) [98]) \<and>
      String_wf (String_init (replicate 48 0)) \<and>
      ssize (String_change_row (String_init (replicate 48 0)) [98]) < 2 ^ 30"
    by (simp add: String_row_98 String_wf_init)
  have h4: "length (replicate 48 (0 :: byte)) = 48"
    by simp
  have e1: "insertResultInto SingleValueDataFixed_UInt64 \<lparr>has_value = True, value_T = 5\<rparr> [] = [5]"
    by (simp add: SingleValueDataFixed_UInt64_def SingleValueDataFixed_def
        Fixed_insertResultInto_def Fixed_has_def)
  have e2: "insertResultInto SingleValueDataGeneric_UInt64 \<lparr>value_Field = Val 7\<rparr> [] = [7]"
    by (simp add: SingleValueDataGeneric_UInt64_def SingleValueDataGeneric_def
        Generic_insertResultInto_def)
  show ?thesis
    using T h1 h2 h3 h4 e1 e2 String_emit_98 by simp
qed

section \<open>Min and max over a sequence of rows\<close>

text \<open>
  The claim C6 as stated fails, by what the code is written to do, at two kinds of rows.
  \<open>insertResultInto\<close> of the string slot removes a final zero byte, which the states
  written by old versions carry: over the single row of the bytes 97, 0 (\<open>"a"\<close> and a
  zero byte) the fold is that row, and the state emits \<open>"a"\<close>. On \<open>Float64\<close> a NaN compares false with every value, so that
  what is emitted depends on the order of the rows: over the rows NaN, 1.0 the state
  emits the NaN, where the fold with \<open>min\<close> gives 1.0, and over the rows 1.0, NaN it emits
  1.0. \<open>0x7FF8000000000000\<close> is a NaN and \<open>0x3FF0000000000000\<close> is 1.0.
\<close>

theorem C6_counterexample:
  "insertResult (AggregateFunctionMinData SingleValueDataString)
     (addRows (AggregateFunctionMinData SingleValueDataString)
        (String_init (replicate 48 0)) [[97, 0]]) [] = [[97]] \<and>
   foldl min [97, 0 :: byte] [] = [97, 0] \<and>
   insertResult (AggregateFunctionMinData SingleValueDataFixed_Float64)
     (addRows (AggregateFunctionMinData SingleValueDataFixed_Float64) (Fixed_init 0)
        [Float64 0x7FF8000000000000, Float64 0x3FF0000000000000]) []
     = [Float64 0x7FF8000000000000] \<and>
   foldl min (Float64 0x7FF8000000000000) [Float64 0x3FF0000000000000] = Float64 0x3FF0000000000000 \<and>
   insertResult (AggregateFunctionMinData SingleValueDataFixed_Float64)
     (addRows (AggregateFunctionMinData SingleValueDataFixed_Float64) (Fixed_init 0)
        [Float64 0x3FF0000000000000, Float64 0x7FF8000000000000]) []
     = [Float64 0x3FF0000000000000]"
proof -
  have w: "String_wf (String_init (replicate 48 0))"
    by (simp add: String_wf_init)
  have l: "length [97, 0 :: byte] \<le> 2 ^ 30"
    by simp
  note ok = String_change_row_ok [OF w l]
  have a: "addRows (AggregateFunctionMinData SingleValueDataString)
      (String_init (replicate 48 0)) [[97, 0]]
    = String_change_row (String_init (replicate 48 0)) [97, 0]"
    by (simp add: addRows_def String_Min_add String_changeIfLess_row_def String_has_init)
  have h: "String_has (String_change_row (String_init (replicate 48 0)) [97, 0])"
    using ok(2) by (simp add: String_has_def)
  have e: "String_insertResultInto
      (String_change_row (String_init (replicate 48 0)) [97, 0]) [] = [[97]]"
    using String_insertResultInto_bytes [OF ok(1), of "[]"] h ok(3) by simp
  have s: "insertResult (AggregateFunctionMinData SingleValueDataString)
     (addRows (AggregateFunctionMinData SingleValueDataString)
        (String_init (replicate 48 0)) [[97, 0]]) [] = [[97]]"
    using a e by (simp add: String_Min_add)
  have f: "insertResult (AggregateFunctionMinData SingleValueDataFixed_Float64)
     (addRows (AggregateFunctionMinData SingleValueDataFixed_Float64) (Fixed_init 0)
        [Float64 0x7FF8000000000000, Float64 0x3FF0000000000000]) []
     = [Float64 0x7FF8000000000000]"
    "foldl min (Float64 0x7FF8000000000000) [Float64 0x3FF0000000000000] = Float64 0x3FF0000000000000"
    "insertResult (AggregateFunctionMinData SingleValueDataFixed_Float64)
     (addRows (AggregateFunctionMinData SingleValueDataFixed_Float64) (Fixed_init 0)
        [Float64 0x3FF0000000000000, Float64 0x7FF8000000000000]) []
     = [Float64 0x3FF0000000000000]"
    by (simp_all add: SingleValueDataFixed_Float64_def adapter_defs policy_defs Fixed_defs
        Float64_defs min_def)
  show ?thesis
    using s f by simp
qed

text \<open>
  C6, amended. For a fixed-size slot and for a generic slot over a value type whose order
  is total (linear), the rows of the generic slot being values of the type, and for a
  string slot whose rows are plain strings (at least one and at most \<open>2 ^ 30\<close> bytes,
  the last byte not zero): the rows of a sequence added in order to a fresh state under
  the Min (Max) policy, then emitted, append the left fold of the sequence with \<open>min\<close>
  (\<open>max\<close>) of the value type's order, and the default of the value type when the
  sequence is empty. Nothing is stated of rows that hold the empty string.
\<close>

theorem C6_min_max_fold:
  fixes enc :: "'a::{linorder,zero} \<Rightarrow> byte list" and dec and dflt :: "'f::linorder"
    and ser and deser
  defines "F \<equiv> SingleValueDataFixed enc dec"
    and "G \<equiv> SingleValueDataGeneric dflt ser deser"
    and "S \<equiv> SingleValueDataString"
  shows
   "insertResult (AggregateFunctionMinData F) (addRows (AggregateFunctionMinData F) (Fixed_init g) xs) to
      = to @ [case xs of [] \<Rightarrow> 0 | z # r \<Rightarrow> foldl min z r] \<and>
    insertResult (AggregateFunctionMaxData F) (addRows (AggregateFunctionMaxData F) (Fixed_init g) xs) to
      = to @ [case xs of [] \<Rightarrow> 0 | z # r \<Rightarrow> foldl max z r] \<and>
    insertResult (AggregateFunctionMinData G) (addRows (AggregateFunctionMinData G) Generic_init (map Val gxs)) gto
      = gto @ [case gxs of [] \<Rightarrow> dflt | z # r \<Rightarrow> foldl min z r] \<and>
    insertResult (AggregateFunctionMaxData G) (addRows (AggregateFunctionMaxData G) Generic_init (map Val gxs)) gto
      = gto @ [case gxs of [] \<Rightarrow> dflt | z # r \<Rightarrow> foldl max z r] \<and>
    (length h = 48 \<and> (\<forall>z\<in>set sxs. String_plain z) \<longrightarrow>
     insertResult (AggregateFunctionMinData S) (addRows (AggregateFunctionMinData S) (String_init h) sxs) sto
      = sto @ [case sxs of [] \<Rightarrow> [] | z # r \<Rightarrow> foldl min z r] \<and>
     insertResult (AggregateFunctionMaxData S) (addRows (AggregateFunctionMaxData S) (String_init h) sxs) sto
      = sto @ [case sxs of [] \<Rightarrow> [] | z # r \<Rightarrow> foldl max z r])"
proof -
  note F = F_def [THEN meta_eq_to_obj_eq]
  note G = G_def [THEN meta_eq_to_obj_eq]
  note a = Fixed_fold_laws [OF F]
  note b = Generic_fold_laws [OF G]
  have string: "length h = 48 \<and> (\<forall>z\<in>set sxs. String_plain z) \<longrightarrow>
     insertResult (AggregateFunctionMinData S) (addRows (AggregateFunctionMinData S) (String_init h) sxs) sto
      = sto @ [case sxs of [] \<Rightarrow> [] | z # r \<Rightarrow> foldl min z r] \<and>
     insertResult (AggregateFunctionMaxData S) (addRows (AggregateFunctionMaxData S) (String_init h) sxs) sto
      = sto @ [case sxs of [] \<Rightarrow> [] | z # r \<Rightarrow> foldl max z r]"
  proof (intro impI)
    assume h: "length h = 48 \<and> (\<forall>z\<in>set sxs. String_plain z)"
    then have l: "length h = 48" and pl: "\<forall>z\<in>set sxs. String_plain z"
      by simp_all
    note c = String_fold_laws [OF l pl, folded S_def]
    show "insertResult (AggregateFunctionMinData S) (addRows (AggregateFunctionMinData S) (String_init h) sxs) sto
      = sto @ [case sxs of [] \<Rightarrow> [] | z # r \<Rightarrow> foldl min z r] \<and>
       insertResult (AggregateFunctionMaxData S) (addRows (AggregateFunctionMaxData S) (String_init h) sxs) sto
      = sto @ [case sxs of [] \<Rightarrow> [] | z # r \<Rightarrow> foldl max z r]"
      by (intro conjI; rule c)
  qed
  show ?thesis
    by (intro conjI; (rule a b string)?)
qed

theorem C6_min_max_fold_witness:
  "insertResult (AggregateFunctionMinData SingleValueDataFixed_UInt64)
     (addRows (AggregateFunctionMinData SingleValueDataFixed_UInt64) (Fixed_init 9) [3, 2, 5]) []
     = [2] \<and>
   insertResult (AggregateFunctionMaxData SingleValueDataFixed_UInt64)
     (addRows (AggregateFunctionMaxData SingleValueDataFixed_UInt64) (Fixed_init 9) [3, 2, 5]) []
     = [5] \<and>
   insertResult (AggregateFunctionMinData SingleValueDataFixed_UInt64)
     (addRows (AggregateFunctionMinData SingleValueDataFixed_UInt64) (Fixed_init 9) []) []
     = [0] \<and>
   insertResult (AggregateFunctionMinData SingleValueDataString)
     (addRows (AggregateFunctionMinData SingleValueDataString)
        (String_init (replicate 48 0)) [[98], [97]]) [] = [[97]] \<and>
   insertResult (AggregateFunctionMaxData SingleValueDataString)
     (addRows (AggregateFunctionMaxData SingleValueDataString)
        (String_init (replicate 48 0)) [[98], [97]]) [] = [[98]]"
  using
    C6_min_max_fold
      [where enc = writeBinary_T_UInt64 and dec = readBinary_T_UInt64 and g = 9
         and xs = "[3, 2, 5]" and to = "[]"
         and dflt = "0 :: 64 word" and ser = serializeBinary_UInt64
         and deser = deserializeBinary_UInt64 and gxs = "[]" and gto = "[]"
         and h = "replicate 48 0" and sxs = "[[98], [97]]" and sto = "[]",
       folded SingleValueDataFixed_UInt64_def]
    C6_min_max_fold
      [where enc = writeBinary_T_UInt64 and dec = readBinary_T_UInt64 and g = 9
         and xs = "[]" and to = "[]"
         and dflt = "0 :: 64 word" and ser = serializeBinary_UInt64
         and deser = deserializeBinary_UInt64 and gxs = "[]" and gto = "[]"
         and h = "replicate 48 0" and sxs = "[]" and sto = "[]",
       folded SingleValueDataFixed_UInt64_def]
  by (simp add: String_plain_def min_def max_def)

section \<open>Merging the states of two parts of a sequence\<close>

text \<open>
  The claim C7 as stated fails, by what the code is written to do, on \<open>Float64\<close>: a NaN
  compares false with every value, so a state that holds a NaN is never replaced under
  Min, and a NaN never replaces what a state holds. The rows 1.0, NaN, split into NaN
  and 1.0: the merge of the two states emits the NaN, the state of the whole sequence
  emits 1.0. \<open>0x7FF8000000000000\<close> is a NaN and \<open>0x3FF0000000000000\<close> is 1.0.
\<close>

theorem C7_counterexample:
  "[Float64 0x3FF0000000000000, Float64 0x7FF8000000000000]
     \<in> shuffles [Float64 0x7FF8000000000000] [Float64 0x3FF0000000000000] \<and>
   insertResult (AggregateFunctionMinData SingleValueDataFixed_Float64)
     (merge (AggregateFunctionMinData SingleValueDataFixed_Float64)
        (addRows (AggregateFunctionMinData SingleValueDataFixed_Float64) (Fixed_init 0)
           [Float64 0x7FF8000000000000])
        (addRows (AggregateFunctionMinData SingleValueDataFixed_Float64) (Fixed_init 0)
           [Float64 0x3FF0000000000000])) []
     = [Float64 0x7FF8000000000000] \<and>
   insertResult (AggregateFunctionMinData SingleValueDataFixed_Float64)
     (addRows (AggregateFunctionMinData SingleValueDataFixed_Float64) (Fixed_init 0)
        [Float64 0x3FF0000000000000, Float64 0x7FF8000000000000]) []
     = [Float64 0x3FF0000000000000]"
  by (simp add: SingleValueDataFixed_Float64_def adapter_defs policy_defs Fixed_defs
      Float64_defs)

text \<open>
  C7, amended. For a fixed-size slot and for a generic slot over a value type whose order
  is total (linear), the rows of the generic slot being values of the type, and for a
  string slot whose rows are strings of at least one and at most \<open>2 ^ 30\<close> bytes: for
  every sequence of rows, every split of it into two sub-sequences that keep the relative
  order, and both orders of the merge, the merge of the states of the two parts emits
  what the state of the whole sequence emits under Min and under Max; under Any and under
  AnyLast it has a value exactly when the state of the whole sequence has one; and under
  AnyLast it emits what the source state emits when the source saw a row, and what the
  destination state emits otherwise. Nothing is stated of rows that hold the empty
  string.
\<close>

theorem C7_merge_of_parts:
  fixes enc :: "'a::{linorder,zero} \<Rightarrow> byte list" and dec and dflt :: "'f::linorder"
    and ser and deser
  defines "F \<equiv> SingleValueDataFixed enc dec"
    and "G \<equiv> SingleValueDataGeneric dflt ser deser"
    and "S \<equiv> SingleValueDataString"
  shows
   "(ws \<in> shuffles xs ys \<longrightarrow>
    insertResult (AggregateFunctionMinData F)
       (merge (AggregateFunctionMinData F)
          (addRows (AggregateFunctionMinData F) (Fixed_init g1) xs)
          (addRows (AggregateFunctionMinData F) (Fixed_init g2) ys)) to
     = insertResult (AggregateFunctionMinData F)
       (addRows (AggregateFunctionMinData F) (Fixed_init g) ws) to \<and>
    insertResult (AggregateFunctionMinData F)
       (merge (AggregateFunctionMinData F)
          (addRows (AggregateFunctionMinData F) (Fixed_init g2) ys)
          (addRows (AggregateFunctionMinData F) (Fixed_init g1) xs)) to
     = insertResult (AggregateFunctionMinData F)
       (addRows (AggregateFunctionMinData F) (Fixed_init g) ws) to \<and>
    insertResult (AggregateFunctionMaxData F)
       (merge (AggregateFunctionMaxData F)
          (addRows (AggregateFunctionMaxData F) (Fixed_init g1) xs)
          (addRows (AggregateFunctionMaxData F) (Fixed_init g2) ys)) to
     = insertResult (AggregateFunctionMaxData F)
       (addRows (AggregateFunctionMaxData F) (Fixed_init g) ws) to \<and>
    insertResult (AggregateFunctionMaxData F)
       (merge (AggregateFunctionMaxData F)
          (addRows (AggregateFunctionMaxData F) (Fixed_init g2) ys)
          (addRows (AggregateFunctionMaxData F) (Fixed_init g1) xs)) to
     = insertResult (AggregateFunctionMaxData F)
       (addRows (AggregateFunctionMaxData F) (Fixed_init g) ws) to \<and>
    p_has (AggregateFunctionAnyData F)
       (merge (AggregateFunctionAnyData F)
          (addRows (AggregateFunctionAnyData F) (Fixed_init g1) xs)
          (addRows (AggregateFunctionAnyData F) (Fixed_init g2) ys))
     = p_has (AggregateFunctionAnyData F)
       (addRows (AggregateFunctionAnyData F) (Fixed_init g) ws) \<and>
    p_has (AggregateFunctionAnyData F)
       (merge (AggregateFunctionAnyData F)
          (addRows (AggregateFunctionAnyData F) (Fixed_init g2) ys)
          (addRows (AggregateFunctionAnyData F) (Fixed_init g1) xs))
     = p_has (AggregateFunctionAnyData F)
       (addRows (AggregateFunctionAnyData F) (Fixed_init g) ws) \<and>
    p_has (AggregateFunctionAnyLastData F)
       (merge (AggregateFunctionAnyLastData F)
          (addRows (AggregateFunctionAnyLastData F) (Fixed_init g1) xs)
          (addRows (AggregateFunctionAnyLastData F) (Fixed_init g2) ys))
     = p_has (AggregateFunctionAnyLastData F)
       (addRows (AggregateFunctionAnyLastData F) (Fixed_init g) ws) \<and>
    p_has (AggregateFunctionAnyLastData F)
       (merge (AggregateFunctionAnyLastData F)
          (addRows (AggregateFunctionAnyLastData F) (Fixed_init g2) ys)
          (addRows (AggregateFunctionAnyLastData F) (Fixed_init g1) xs))
     = p_has (AggregateFunctionAnyLastData F)
       (addRows (AggregateFunctionAnyLastData F) (Fixed_init g) ws) \<and>
    insertResult (AggregateFunctionAnyLastData F)
       (merge (AggregateFunctionAnyLastData F)
          (addRows (AggregateFunctionAnyLastData F) (Fixed_init g1) xs)
          (addRows (AggregateFunctionAnyLastData F) (Fixed_init g2) ys)) to
     = (if ys = [] then insertResult (AggregateFunctionAnyLastData F)
       (addRows (AggregateFunctionAnyLastData F) (Fixed_init g1) xs) to
        else insertResult (AggregateFunctionAnyLastData F)
       (addRows (AggregateFunctionAnyLastData F) (Fixed_init g2) ys) to) \<and>
    insertResult (AggregateFunctionAnyLastData F)
       (merge (AggregateFunctionAnyLastData F)
          (addRows (AggregateFunctionAnyLastData F) (Fixed_init g2) ys)
          (addRows (AggregateFunctionAnyLastData F) (Fixed_init g1) xs)) to
     = (if xs = [] then insertResult (AggregateFunctionAnyLastData F)
       (addRows (AggregateFunctionAnyLastData F) (Fixed_init g2) ys) to
        else insertResult (AggregateFunctionAnyLastData F)
       (addRows (AggregateFunctionAnyLastData F) (Fixed_init g1) xs) to)) \<and>
    (gws \<in> shuffles gxs gys \<longrightarrow>
    insertResult (AggregateFunctionMinData G)
       (merge (AggregateFunctionMinData G)
          (addRows (AggregateFunctionMinData G) Generic_init (map Val gxs))
          (addRows (AggregateFunctionMinData G) Generic_init (map Val gys))) gto
     = insertResult (AggregateFunctionMinData G)
       (addRows (AggregateFunctionMinData G) Generic_init (map Val gws)) gto \<and>
    insertResult (AggregateFunctionMinData G)
       (merge (AggregateFunctionMinData G)
          (addRows (AggregateFunctionMinData G) Generic_init (map Val gys))
          (addRows (AggregateFunctionMinData G) Generic_init (map Val gxs))) gto
     = insertResult (AggregateFunctionMinData G)
       (addRows (AggregateFunctionMinData G) Generic_init (map Val gws)) gto \<and>
    insertResult (AggregateFunctionMaxData G)
       (merge (AggregateFunctionMaxData G)
          (addRows (AggregateFunctionMaxData G) Generic_init (map Val gxs))
          (addRows (AggregateFunctionMaxData G) Generic_init (map Val gys))) gto
     = insertResult (AggregateFunctionMaxData G)
       (addRows (AggregateFunctionMaxData G) Generic_init (map Val gws)) gto \<and>
    insertResult (AggregateFunctionMaxData G)
       (merge (AggregateFunctionMaxData G)
          (addRows (AggregateFunctionMaxData G) Generic_init (map Val gys))
          (addRows (AggregateFunctionMaxData G) Generic_init (map Val gxs))) gto
     = insertResult (AggregateFunctionMaxData G)
       (addRows (AggregateFunctionMaxData G) Generic_init (map Val gws)) gto \<and>
    p_has (AggregateFunctionAnyData G)
       (merge (AggregateFunctionAnyData G)
          (addRows (AggregateFunctionAnyData G) Generic_init (map Val gxs))
          (addRows (AggregateFunctionAnyData G) Generic_init (map Val gys)))
     = p_has (AggregateFunctionAnyData G)
       (addRows (AggregateFunctionAnyData G) Generic_init (map Val gws)) \<and>
    p_has (AggregateFunctionAnyData G)
       (merge (AggregateFunctionAnyData G)
          (addRows (AggregateFunctionAnyData G) Generic_init (map Val gys))
          (addRows (AggregateFunctionAnyData G) Generic_init (map Val gxs)))
     = p_has (AggregateFunctionAnyData G)
       (addRows (AggregateFunctionAnyData G) Generic_init (map Val gws)) \<and>
    p_has (AggregateFunctionAnyLastData G)
       (merge (AggregateFunctionAnyLastData G)
          (addRows (AggregateFunctionAnyLastData G) Generic_init (map Val gxs))
          (addRows (AggregateFunctionAnyLastData G) Generic_init (map Val gys)))
     = p_has (AggregateFunctionAnyLastData G)
       (addRows (AggregateFunctionAnyLastData G) Generic_init (map Val gws)) \<and>
    p_has (AggregateFunctionAnyLastData G)
       (merge (AggregateFunctionAnyLastData G)
          (addRows (AggregateFunctionAnyLastData G) Generic_init (map Val gys))
          (addRows (AggregateFunctionAnyLastData G) Generic_init (map Val gxs)))
     = p_has (AggregateFunctionAnyLastData G)
       (addRows (AggregateFunctionAnyLastData G) Generic_init (map Val gws)) \<and>
    insertResult (AggregateFunctionAnyLastData G)
       (merge (AggregateFunctionAnyLastData G)
          (addRows (AggregateFunctionAnyLastData G) Generic_init (map Val gxs))
          (addRows (AggregateFunctionAnyLastData G) Generic_init (map Val gys))) gto
     = (if gys = [] then insertResult (AggregateFunctionAnyLastData G)
       (addRows (AggregateFunctionAnyLastData G) Generic_init (map Val gxs)) gto
        else insertResult (AggregateFunctionAnyLastData G)
       (addRows (AggregateFunctionAnyLastData G) Generic_init (map Val gys)) gto) \<and>
    insertResult (AggregateFunctionAnyLastData G)
       (merge (AggregateFunctionAnyLastData G)
          (addRows (AggregateFunctionAnyLastData G) Generic_init (map Val gys))
          (addRows (AggregateFunctionAnyLastData G) Generic_init (map Val gxs))) gto
     = (if gxs = [] then insertResult (AggregateFunctionAnyLastData G)
       (addRows (AggregateFunctionAnyLastData G) Generic_init (map Val gys)) gto
        else insertResult (AggregateFunctionAnyLastData G)
       (addRows (AggregateFunctionAnyLastData G) Generic_init (map Val gxs)) gto)) \<and>
    (sws \<in> shuffles sxs sys \<and> length h = 48 \<and> length h1 = 48 \<and> length h2 = 48 \<and>
     (\<forall>z\<in>set sws. String_nonempty z) \<longrightarrow>
    insertResult (AggregateFunctionMinData S)
       (merge (AggregateFunctionMinData S)
          (addRows (AggregateFunctionMinData S) (String_init h1) sxs)
          (addRows (AggregateFunctionMinData S) (String_init h2) sys)) sto
     = insertResult (AggregateFunctionMinData S)
       (addRows (AggregateFunctionMinData S) (String_init h) sws) sto \<and>
    insertResult (AggregateFunctionMinData S)
       (merge (AggregateFunctionMinData S)
          (addRows (AggregateFunctionMinData S) (String_init h2) sys)
          (addRows (AggregateFunctionMinData S) (String_init h1) sxs)) sto
     = insertResult (AggregateFunctionMinData S)
       (addRows (AggregateFunctionMinData S) (String_init h) sws) sto \<and>
    insertResult (AggregateFunctionMaxData S)
       (merge (AggregateFunctionMaxData S)
          (addRows (AggregateFunctionMaxData S) (String_init h1) sxs)
          (addRows (AggregateFunctionMaxData S) (String_init h2) sys)) sto
     = insertResult (AggregateFunctionMaxData S)
       (addRows (AggregateFunctionMaxData S) (String_init h) sws) sto \<and>
    insertResult (AggregateFunctionMaxData S)
       (merge (AggregateFunctionMaxData S)
          (addRows (AggregateFunctionMaxData S) (String_init h2) sys)
          (addRows (AggregateFunctionMaxData S) (String_init h1) sxs)) sto
     = insertResult (AggregateFunctionMaxData S)
       (addRows (AggregateFunctionMaxData S) (String_init h) sws) sto \<and>
    p_has (AggregateFunctionAnyData S)
       (merge (AggregateFunctionAnyData S)
          (addRows (AggregateFunctionAnyData S) (String_init h1) sxs)
          (addRows (AggregateFunctionAnyData S) (String_init h2) sys))
     = p_has (AggregateFunctionAnyData S)
       (addRows (AggregateFunctionAnyData S) (String_init h) sws) \<and>
    p_has (AggregateFunctionAnyData S)
       (merge (AggregateFunctionAnyData S)
          (addRows (AggregateFunctionAnyData S) (String_init h2) sys)
          (addRows (AggregateFunctionAnyData S) (String_init h1) sxs))
     = p_has (AggregateFunctionAnyData S)
       (addRows (AggregateFunctionAnyData S) (String_init h) sws) \<and>
    p_has (AggregateFunctionAnyLastData S)
       (merge (AggregateFunctionAnyLastData S)
          (addRows (AggregateFunctionAnyLastData S) (String_init h1) sxs)
          (addRows (AggregateFunctionAnyLastData S) (String_init h2) sys))
     = p_has (AggregateFunctionAnyLastData S)
       (addRows (AggregateFunctionAnyLastData S) (String_init h) sws) \<and>
    p_has (AggregateFunctionAnyLastData S)
       (merge (AggregateFunctionAnyLastData S)
          (addRows (AggregateFunctionAnyLastData S) (String_init h2) sys)
          (addRows (AggregateFunctionAnyLastData S) (String_init h1) sxs))
     = p_has (AggregateFunctionAnyLastData S)
       (addRows (AggregateFunctionAnyLastData S) (String_init h) sws) \<and>
    insertResult (AggregateFunctionAnyLastData S)
       (merge (AggregateFunctionAnyLastData S)
          (addRows (AggregateFunctionAnyLastData S) (String_init h1) sxs)
          (addRows (AggregateFunctionAnyLastData S) (String_init h2) sys)) sto
     = (if sys = [] then insertResult (AggregateFunctionAnyLastData S)
       (addRows (AggregateFunctionAnyLastData S) (String_init h1) sxs) sto
        else insertResult (AggregateFunctionAnyLastData S)
       (addRows (AggregateFunctionAnyLastData S) (String_init h2) sys) sto) \<and>
    insertResult (AggregateFunctionAnyLastData S)
       (merge (AggregateFunctionAnyLastData S)
          (addRows (AggregateFunctionAnyLastData S) (String_init h2) sys)
          (addRows (AggregateFunctionAnyLastData S) (String_init h1) sxs)) sto
     = (if sxs = [] then insertResult (AggregateFunctionAnyLastData S)
       (addRows (AggregateFunctionAnyLastData S) (String_init h2) sys) sto
        else insertResult (AggregateFunctionAnyLastData S)
       (addRows (AggregateFunctionAnyLastData S) (String_init h1) sxs) sto))"
proof -
  note F = F_def [THEN meta_eq_to_obj_eq]
  note G = G_def [THEN meta_eq_to_obj_eq]
  have fixed: "ws \<in> shuffles xs ys \<longrightarrow>
    insertResult (AggregateFunctionMinData F)
       (merge (AggregateFunctionMinData F)
          (addRows (AggregateFunctionMinData F) (Fixed_init g1) xs)
          (addRows (AggregateFunctionMinData F) (Fixed_init g2) ys)) to
     = insertResult (AggregateFunctionMinData F)
       (addRows (AggregateFunctionMinData F) (Fixed_init g) ws) to \<and>
    insertResult (AggregateFunctionMinData F)
       (merge (AggregateFunctionMinData F)
          (addRows (AggregateFunctionMinData F) (Fixed_init g2) ys)
          (addRows (AggregateFunctionMinData F) (Fixed_init g1) xs)) to
     = insertResult (AggregateFunctionMinData F)
       (addRows (AggregateFunctionMinData F) (Fixed_init g) ws) to \<and>
    insertResult (AggregateFunctionMaxData F)
       (merge (AggregateFunctionMaxData F)
          (addRows (AggregateFunctionMaxData F) (Fixed_init g1) xs)
          (addRows (AggregateFunctionMaxData F) (Fixed_init g2) ys)) to
     = insertResult (AggregateFunctionMaxData F)
       (addRows (AggregateFunctionMaxData F) (Fixed_init g) ws) to \<and>
    insertResult (AggregateFunctionMaxData F)
       (merge (AggregateFunctionMaxData F)
          (addRows (AggregateFunctionMaxData F) (Fixed_init g2) ys)
          (addRows (AggregateFunctionMaxData F) (Fixed_init g1) xs)) to
     = insertResult (AggregateFunctionMaxData F)
       (addRows (AggregateFunctionMaxData F) (Fixed_init g) ws) to \<and>
    p_has (AggregateFunctionAnyData F)
       (merge (AggregateFunctionAnyData F)
          (addRows (AggregateFunctionAnyData F) (Fixed_init g1) xs)
          (addRows (AggregateFunctionAnyData F) (Fixed_init g2) ys))
     = p_has (AggregateFunctionAnyData F)
       (addRows (AggregateFunctionAnyData F) (Fixed_init g) ws) \<and>
    p_has (AggregateFunctionAnyData F)
       (merge (AggregateFunctionAnyData F)
          (addRows (AggregateFunctionAnyData F) (Fixed_init g2) ys)
          (addRows (AggregateFunctionAnyData F) (Fixed_init g1) xs))
     = p_has (AggregateFunctionAnyData F)
       (addRows (AggregateFunctionAnyData F) (Fixed_init g) ws) \<and>
    p_has (AggregateFunctionAnyLastData F)
       (merge (AggregateFunctionAnyLastData F)
          (addRows (AggregateFunctionAnyLastData F) (Fixed_init g1) xs)
          (addRows (AggregateFunctionAnyLastData F) (Fixed_init g2) ys))
     = p_has (AggregateFunctionAnyLastData F)
       (addRows (AggregateFunctionAnyLastData F) (Fixed_init g) ws) \<and>
    p_has (AggregateFunctionAnyLastData F)
       (merge (AggregateFunctionAnyLastData F)
          (addRows (AggregateFunctionAnyLastData F) (Fixed_init g2) ys)
          (addRows (AggregateFunctionAnyLastData F) (Fixed_init g1) xs))
     = p_has (AggregateFunctionAnyLastData F)
       (addRows (AggregateFunctionAnyLastData F) (Fixed_init g) ws) \<and>
    insertResult (AggregateFunctionAnyLastData F)
       (merge (AggregateFunctionAnyLastData F)
          (addRows (AggregateFunctionAnyLastData F) (Fixed_init g1) xs)
          (addRows (AggregateFunctionAnyLastData F) (Fixed_init g2) ys)) to
     = (if ys = [] then insertResult (AggregateFunctionAnyLastData F)
       (addRows (AggregateFunctionAnyLastData F) (Fixed_init g1) xs) to
        else insertResult (AggregateFunctionAnyLastData F)
       (addRows (AggregateFunctionAnyLastData F) (Fixed_init g2) ys) to) \<and>
    insertResult (AggregateFunctionAnyLastData F)
       (merge (AggregateFunctionAnyLastData F)
          (addRows (AggregateFunctionAnyLastData F) (Fixed_init g2) ys)
          (addRows (AggregateFunctionAnyLastData F) (Fixed_init g1) xs)) to
     = (if xs = [] then insertResult (AggregateFunctionAnyLastData F)
       (addRows (AggregateFunctionAnyLastData F) (Fixed_init g2) ys) to
        else insertResult (AggregateFunctionAnyLastData F)
       (addRows (AggregateFunctionAnyLastData F) (Fixed_init g1) xs) to)"
  proof (intro impI)
    assume sh: "ws \<in> shuffles xs ys"
    then have sh': "ws \<in> shuffles ys xs"
      by (simp add: shuffles_commutes)
    note a = Fixed_merge_laws [OF F sh]
    note b = Fixed_merge_laws [OF F sh']
    show "insertResult (AggregateFunctionMinData F)
       (merge (AggregateFunctionMinData F)
          (addRows (AggregateFunctionMinData F) (Fixed_init g1) xs)
          (addRows (AggregateFunctionMinData F) (Fixed_init g2) ys)) to
     = insertResult (AggregateFunctionMinData F)
       (addRows (AggregateFunctionMinData F) (Fixed_init g) ws) to \<and>
      insertResult (AggregateFunctionMinData F)
       (merge (AggregateFunctionMinData F)
          (addRows (AggregateFunctionMinData F) (Fixed_init g2) ys)
          (addRows (AggregateFunctionMinData F) (Fixed_init g1) xs)) to
     = insertResult (AggregateFunctionMinData F)
       (addRows (AggregateFunctionMinData F) (Fixed_init g) ws) to \<and>
      insertResult (AggregateFunctionMaxData F)
       (merge (AggregateFunctionMaxData F)
          (addRows (AggregateFunctionMaxData F) (Fixed_init g1) xs)
          (addRows (AggregateFunctionMaxData F) (Fixed_init g2) ys)) to
     = insertResult (AggregateFunctionMaxData F)
       (addRows (AggregateFunctionMaxData F) (Fixed_init g) ws) to \<and>
      insertResult (AggregateFunctionMaxData F)
       (merge (AggregateFunctionMaxData F)
          (addRows (AggregateFunctionMaxData F) (Fixed_init g2) ys)
          (addRows (AggregateFunctionMaxData F) (Fixed_init g1) xs)) to
     = insertResult (AggregateFunctionMaxData F)
       (addRows (AggregateFunctionMaxData F) (Fixed_init g) ws) to \<and>
      p_has (AggregateFunctionAnyData F)
       (merge (AggregateFunctionAnyData F)
          (addRows (AggregateFunctionAnyData F) (Fixed_init g1) xs)
          (addRows (AggregateFunctionAnyData F) (Fixed_init g2) ys))
     = p_has (AggregateFunctionAnyData F)
       (addRows (AggregateFunctionAnyData F) (Fixed_init g) ws) \<and>
      p_has (AggregateFunctionAnyData F)
       (merge (AggregateFunctionAnyData F)
          (addRows (AggregateFunctionAnyData F) (Fixed_init g2) ys)
          (addRows (AggregateFunctionAnyData F) (Fixed_init g1) xs))
     = p_has (AggregateFunctionAnyData F)
       (addRows (AggregateFunctionAnyData F) (Fixed_init g) ws) \<and>
      p_has (AggregateFunctionAnyLastData F)
       (merge (AggregateFunctionAnyLastData F)
          (addRows (AggregateFunctionAnyLastData F) (Fixed_init g1) xs)
          (addRows (AggregateFunctionAnyLastData F) (Fixed_init g2) ys))
     = p_has (AggregateFunctionAnyLastData F)
       (addRows (AggregateFunctionAnyLastData F) (Fixed_init g) ws) \<and>
      p_has (AggregateFunctionAnyLastData F)
       (merge (AggregateFunctionAnyLastData F)
          (addRows (AggregateFunctionAnyLastData F) (Fixed_init g2) ys)
          (addRows (AggregateFunctionAnyLastData F) (Fixed_init g1) xs))
     = p_has (AggregateFunctionAnyLastData F)
       (addRows (AggregateFunctionAnyLastData F) (Fixed_init g) ws) \<and>
      insertResult (AggregateFunctionAnyLastData F)
       (merge (AggregateFunctionAnyLastData F)
          (addRows (AggregateFunctionAnyLastData F) (Fixed_init g1) xs)
          (addRows (AggregateFunctionAnyLastData F) (Fixed_init g2) ys)) to
     = (if ys = [] then insertResult (AggregateFunctionAnyLastData F)
       (addRows (AggregateFunctionAnyLastData F) (Fixed_init g1) xs) to
        else insertResult (AggregateFunctionAnyLastData F)
       (addRows (AggregateFunctionAnyLastData F) (Fixed_init g2) ys) to) \<and>
      insertResult (AggregateFunctionAnyLastData F)
       (merge (AggregateFunctionAnyLastData F)
          (addRows (AggregateFunctionAnyLastData F) (Fixed_init g2) ys)
          (addRows (AggregateFunctionAnyLastData F) (Fixed_init g1) xs)) to
     = (if xs = [] then insertResult (AggregateFunctionAnyLastData F)
       (addRows (AggregateFunctionAnyLastData F) (Fixed_init g2) ys) to
        else insertResult (AggregateFunctionAnyLastData F)
       (addRows (AggregateFunctionAnyLastData F) (Fixed_init g1) xs) to)"
      by (intro conjI; rule a b)
  qed
  have generic: "gws \<in> shuffles gxs gys \<longrightarrow>
    insertResult (AggregateFunctionMinData G)
       (merge (AggregateFunctionMinData G)
          (addRows (AggregateFunctionMinData G) Generic_init (map Val gxs))
          (addRows (AggregateFunctionMinData G) Generic_init (map Val gys))) gto
     = insertResult (AggregateFunctionMinData G)
       (addRows (AggregateFunctionMinData G) Generic_init (map Val gws)) gto \<and>
    insertResult (AggregateFunctionMinData G)
       (merge (AggregateFunctionMinData G)
          (addRows (AggregateFunctionMinData G) Generic_init (map Val gys))
          (addRows (AggregateFunctionMinData G) Generic_init (map Val gxs))) gto
     = insertResult (AggregateFunctionMinData G)
       (addRows (AggregateFunctionMinData G) Generic_init (map Val gws)) gto \<and>
    insertResult (AggregateFunctionMaxData G)
       (merge (AggregateFunctionMaxData G)
          (addRows (AggregateFunctionMaxData G) Generic_init (map Val gxs))
          (addRows (AggregateFunctionMaxData G) Generic_init (map Val gys))) gto
     = insertResult (AggregateFunctionMaxData G)
       (addRows (AggregateFunctionMaxData G) Generic_init (map Val gws)) gto \<and>
    insertResult (AggregateFunctionMaxData G)
       (merge (AggregateFunctionMaxData G)
          (addRows (AggregateFunctionMaxData G) Generic_init (map Val gys))
          (addRows (AggregateFunctionMaxData G) Generic_init (map Val gxs))) gto
     = insertResult (AggregateFunctionMaxData G)
       (addRows (AggregateFunctionMaxData G) Generic_init (map Val gws)) gto \<and>
    p_has (AggregateFunctionAnyData G)
       (merge (AggregateFunctionAnyData G)
          (addRows (AggregateFunctionAnyData G) Generic_init (map Val gxs))
          (addRows (AggregateFunctionAnyData G) Generic_init (map Val gys)))
     = p_has (AggregateFunctionAnyData G)
       (addRows (AggregateFunctionAnyData G) Generic_init (map Val gws)) \<and>
    p_has (AggregateFunctionAnyData G)
       (merge (AggregateFunctionAnyData G)
          (addRows (AggregateFunctionAnyData G) Generic_init (map Val gys))
          (addRows (AggregateFunctionAnyData G) Generic_init (map Val gxs)))
     = p_has (AggregateFunctionAnyData G)
       (addRows (AggregateFunctionAnyData G) Generic_init (map Val gws)) \<and>
    p_has (AggregateFunctionAnyLastData G)
       (merge (AggregateFunctionAnyLastData G)
          (addRows (AggregateFunctionAnyLastData G) Generic_init (map Val gxs))
          (addRows (AggregateFunctionAnyLastData G) Generic_init (map Val gys)))
     = p_has (AggregateFunctionAnyLastData G)
       (addRows (AggregateFunctionAnyLastData G) Generic_init (map Val gws)) \<and>
    p_has (AggregateFunctionAnyLastData G)
       (merge (AggregateFunctionAnyLastData G)
          (addRows (AggregateFunctionAnyLastData G) Generic_init (map Val gys))
          (addRows (AggregateFunctionAnyLastData G) Generic_init (map Val gxs)))
     = p_has (AggregateFunctionAnyLastData G)
       (addRows (AggregateFunctionAnyLastData G) Generic_init (map Val gws)) \<and>
    insertResult (AggregateFunctionAnyLastData G)
       (merge (AggregateFunctionAnyLastData G)
          (addRows (AggregateFunctionAnyLastData G) Generic_init (map Val gxs))
          (addRows (AggregateFunctionAnyLastData G) Generic_init (map Val gys))) gto
     = (if gys = [] then insertResult (AggregateFunctionAnyLastData G)
       (addRows (AggregateFunctionAnyLastData G) Generic_init (map Val gxs)) gto
        else insertResult (AggregateFunctionAnyLastData G)
       (addRows (AggregateFunctionAnyLastData G) Generic_init (map Val gys)) gto) \<and>
    insertResult (AggregateFunctionAnyLastData G)
       (merge (AggregateFunctionAnyLastData G)
          (addRows (AggregateFunctionAnyLastData G) Generic_init (map Val gys))
          (addRows (AggregateFunctionAnyLastData G) Generic_init (map Val gxs))) gto
     = (if gxs = [] then insertResult (AggregateFunctionAnyLastData G)
       (addRows (AggregateFunctionAnyLastData G) Generic_init (map Val gys)) gto
        else insertResult (AggregateFunctionAnyLastData G)
       (addRows (AggregateFunctionAnyLastData G) Generic_init (map Val gxs)) gto)"
  proof (intro impI)
    assume sh: "gws \<in> shuffles gxs gys"
    then have sh': "gws \<in> shuffles gys gxs"
      by (simp add: shuffles_commutes)
    note a = Generic_merge_laws [OF G sh]
    note b = Generic_merge_laws [OF G sh']
    show "insertResult (AggregateFunctionMinData G)
       (merge (AggregateFunctionMinData G)
          (addRows (AggregateFunctionMinData G) Generic_init (map Val gxs))
          (addRows (AggregateFunctionMinData G) Generic_init (map Val gys))) gto
     = insertResult (AggregateFunctionMinData G)
       (addRows (AggregateFunctionMinData G) Generic_init (map Val gws)) gto \<and>
      insertResult (AggregateFunctionMinData G)
       (merge (AggregateFunctionMinData G)
          (addRows (AggregateFunctionMinData G) Generic_init (map Val gys))
          (addRows (AggregateFunctionMinData G) Generic_init (map Val gxs))) gto
     = insertResult (AggregateFunctionMinData G)
       (addRows (AggregateFunctionMinData G) Generic_init (map Val gws)) gto \<and>
      insertResult (AggregateFunctionMaxData G)
       (merge (AggregateFunctionMaxData G)
          (addRows (AggregateFunctionMaxData G) Generic_init (map Val gxs))
          (addRows (AggregateFunctionMaxData G) Generic_init (map Val gys))) gto
     = insertResult (AggregateFunctionMaxData G)
       (addRows (AggregateFunctionMaxData G) Generic_init (map Val gws)) gto \<and>
      insertResult (AggregateFunctionMaxData G)
       (merge (AggregateFunctionMaxData G)
          (addRows (AggregateFunctionMaxData G) Generic_init (map Val gys))
          (addRows (AggregateFunctionMaxData G) Generic_init (map Val gxs))) gto
     = insertResult (AggregateFunctionMaxData G)
       (addRows (AggregateFunctionMaxData G) Generic_init (map Val gws)) gto \<and>
      p_has (AggregateFunctionAnyData G)
       (merge (AggregateFunctionAnyData G)
          (addRows (AggregateFunctionAnyData G) Generic_init (map Val gxs))
          (addRows (AggregateFunctionAnyData G) Generic_init (map Val gys)))
     = p_has (AggregateFunctionAnyData G)
       (addRows (AggregateFunctionAnyData G) Generic_init (map Val gws)) \<and>
      p_has (AggregateFunctionAnyData G)
       (merge (AggregateFunctionAnyData G)
          (addRows (AggregateFunctionAnyData G) Generic_init (map Val gys))
          (addRows (AggregateFunctionAnyData G) Generic_init (map Val gxs)))
     = p_has (AggregateFunctionAnyData G)
       (addRows (AggregateFunctionAnyData G) Generic_init (map Val gws)) \<and>
      p_has (AggregateFunctionAnyLastData G)
       (merge (AggregateFunctionAnyLastData G)
          (addRows (AggregateFunctionAnyLastData G) Generic_init (map Val gxs))
          (addRows (AggregateFunctionAnyLastData G) Generic_init (map Val gys)))
     = p_has (AggregateFunctionAnyLastData G)
       (addRows (AggregateFunctionAnyLastData G) Generic_init (map Val gws)) \<and>
      p_has (AggregateFunctionAnyLastData G)
       (merge (AggregateFunctionAnyLastData G)
          (addRows (AggregateFunctionAnyLastData G) Generic_init (map Val gys))
          (addRows (AggregateFunctionAnyLastData G) Generic_init (map Val gxs)))
     = p_has (AggregateFunctionAnyLastData G)
       (addRows (AggregateFunctionAnyLastData G) Generic_init (map Val gws)) \<and>
      insertResult (AggregateFunctionAnyLastData G)
       (merge (AggregateFunctionAnyLastData G)
          (addRows (AggregateFunctionAnyLastData G) Generic_init (map Val gxs))
          (addRows (AggregateFunctionAnyLastData G) Generic_init (map Val gys))) gto
     = (if gys = [] then insertResult (AggregateFunctionAnyLastData G)
       (addRows (AggregateFunctionAnyLastData G) Generic_init (map Val gxs)) gto
        else insertResult (AggregateFunctionAnyLastData G)
       (addRows (AggregateFunctionAnyLastData G) Generic_init (map Val gys)) gto) \<and>
      insertResult (AggregateFunctionAnyLastData G)
       (merge (AggregateFunctionAnyLastData G)
          (addRows (AggregateFunctionAnyLastData G) Generic_init (map Val gys))
          (addRows (AggregateFunctionAnyLastData G) Generic_init (map Val gxs))) gto
     = (if gxs = [] then insertResult (AggregateFunctionAnyLastData G)
       (addRows (AggregateFunctionAnyLastData G) Generic_init (map Val gys)) gto
        else insertResult (AggregateFunctionAnyLastData G)
       (addRows (AggregateFunctionAnyLastData G) Generic_init (map Val gxs)) gto)"
      by (intro conjI; rule a b)
  qed
  have string: "sws \<in> shuffles sxs sys \<and> length h = 48 \<and> length h1 = 48 \<and> length h2 = 48 \<and>
     (\<forall>z\<in>set sws. String_nonempty z) \<longrightarrow>
    insertResult (AggregateFunctionMinData S)
       (merge (AggregateFunctionMinData S)
          (addRows (AggregateFunctionMinData S) (String_init h1) sxs)
          (addRows (AggregateFunctionMinData S) (String_init h2) sys)) sto
     = insertResult (AggregateFunctionMinData S)
       (addRows (AggregateFunctionMinData S) (String_init h) sws) sto \<and>
    insertResult (AggregateFunctionMinData S)
       (merge (AggregateFunctionMinData S)
          (addRows (AggregateFunctionMinData S) (String_init h2) sys)
          (addRows (AggregateFunctionMinData S) (String_init h1) sxs)) sto
     = insertResult (AggregateFunctionMinData S)
       (addRows (AggregateFunctionMinData S) (String_init h) sws) sto \<and>
    insertResult (AggregateFunctionMaxData S)
       (merge (AggregateFunctionMaxData S)
          (addRows (AggregateFunctionMaxData S) (String_init h1) sxs)
          (addRows (AggregateFunctionMaxData S) (String_init h2) sys)) sto
     = insertResult (AggregateFunctionMaxData S)
       (addRows (AggregateFunctionMaxData S) (String_init h) sws) sto \<and>
    insertResult (AggregateFunctionMaxData S)
       (merge (AggregateFunctionMaxData S)
          (addRows (AggregateFunctionMaxData S) (String_init h2) sys)
          (addRows (AggregateFunctionMaxData S) (String_init h1) sxs)) sto
     = insertResult (AggregateFunctionMaxData S)
       (addRows (AggregateFunctionMaxData S) (String_init h) sws) sto \<and>
    p_has (AggregateFunctionAnyData S)
       (merge (AggregateFunctionAnyData S)
          (addRows (AggregateFunctionAnyData S) (String_init h1) sxs)
          (addRows (AggregateFunctionAnyData S) (String_init h2) sys))
     = p_has (AggregateFunctionAnyData S)
       (addRows (AggregateFunctionAnyData S) (String_init h) sws) \<and>
    p_has (AggregateFunctionAnyData S)
       (merge (AggregateFunctionAnyData S)
          (addRows (AggregateFunctionAnyData S) (String_init h2) sys)
          (addRows (AggregateFunctionAnyData S) (String_init h1) sxs))
     = p_has (AggregateFunctionAnyData S)
       (addRows (AggregateFunctionAnyData S) (String_init h) sws) \<and>
    p_has (AggregateFunctionAnyLastData S)
       (merge (AggregateFunctionAnyLastData S)
          (addRows (AggregateFunctionAnyLastData S) (String_init h1) sxs)
          (addRows (AggregateFunctionAnyLastData S) (String_init h2) sys))
     = p_has (AggregateFunctionAnyLastData S)
       (addRows (AggregateFunctionAnyLastData S) (String_init h) sws) \<and>
    p_has (AggregateFunctionAnyLastData S)
       (merge (AggregateFunctionAnyLastData S)
          (addRows (AggregateFunctionAnyLastData S) (String_init h2) sys)
          (addRows (AggregateFunctionAnyLastData S) (String_init h1) sxs))
     = p_has (AggregateFunctionAnyLastData S)
       (addRows (AggregateFunctionAnyLastData S) (String_init h) sws) \<and>
    insertResult (AggregateFunctionAnyLastData S)
       (merge (AggregateFunctionAnyLastData S)
          (addRows (AggregateFunctionAnyLastData S) (String_init h1) sxs)
          (addRows (AggregateFunctionAnyLastData S) (String_init h2) sys)) sto
     = (if sys = [] then insertResult (AggregateFunctionAnyLastData S)
       (addRows (AggregateFunctionAnyLastData S) (String_init h1) sxs) sto
        else insertResult (AggregateFunctionAnyLastData S)
       (addRows (AggregateFunctionAnyLastData S) (String_init h2) sys) sto) \<and>
    insertResult (AggregateFunctionAnyLastData S)
       (merge (AggregateFunctionAnyLastData S)
          (addRows (AggregateFunctionAnyLastData S) (String_init h2) sys)
          (addRows (AggregateFunctionAnyLastData S) (String_init h1) sxs)) sto
     = (if sxs = [] then insertResult (AggregateFunctionAnyLastData S)
       (addRows (AggregateFunctionAnyLastData S) (String_init h2) sys) sto
        else insertResult (AggregateFunctionAnyLastData S)
       (addRows (AggregateFunctionAnyLastData S) (String_init h1) sxs) sto)"
  proof (intro impI)
    assume h: "sws \<in> shuffles sxs sys \<and> length h = 48 \<and> length h1 = 48 \<and> length h2 = 48 \<and>
     (\<forall>z\<in>set sws. String_nonempty z)"
    then have sh: "sws \<in> shuffles sxs sys" and sh': "sws \<in> shuffles sys sxs"
      by (simp_all add: shuffles_commutes)
    have "set sxs \<subseteq> set sws" "set sys \<subseteq> set sws"
      using set_shuffles [OF sh] by auto
    then have pl: "\<forall>z\<in>set sxs. String_nonempty z" "\<forall>z\<in>set sys. String_nonempty z"
      using h by auto
    from h have l: "length h = 48" "length h1 = 48" "length h2 = 48"
      by simp_all
    note a = String_merge_laws [OF l pl sh, folded S_def]
    note b = String_merge_laws [OF l(1,3,2) pl(2,1) sh', folded S_def]
    show "insertResult (AggregateFunctionMinData S)
       (merge (AggregateFunctionMinData S)
          (addRows (AggregateFunctionMinData S) (String_init h1) sxs)
          (addRows (AggregateFunctionMinData S) (String_init h2) sys)) sto
     = insertResult (AggregateFunctionMinData S)
       (addRows (AggregateFunctionMinData S) (String_init h) sws) sto \<and>
      insertResult (AggregateFunctionMinData S)
       (merge (AggregateFunctionMinData S)
          (addRows (AggregateFunctionMinData S) (String_init h2) sys)
          (addRows (AggregateFunctionMinData S) (String_init h1) sxs)) sto
     = insertResult (AggregateFunctionMinData S)
       (addRows (AggregateFunctionMinData S) (String_init h) sws) sto \<and>
      insertResult (AggregateFunctionMaxData S)
       (merge (AggregateFunctionMaxData S)
          (addRows (AggregateFunctionMaxData S) (String_init h1) sxs)
          (addRows (AggregateFunctionMaxData S) (String_init h2) sys)) sto
     = insertResult (AggregateFunctionMaxData S)
       (addRows (AggregateFunctionMaxData S) (String_init h) sws) sto \<and>
      insertResult (AggregateFunctionMaxData S)
       (merge (AggregateFunctionMaxData S)
          (addRows (AggregateFunctionMaxData S) (String_init h2) sys)
          (addRows (AggregateFunctionMaxData S) (String_init h1) sxs)) sto
     = insertResult (AggregateFunctionMaxData S)
       (addRows (AggregateFunctionMaxData S) (String_init h) sws) sto \<and>
      p_has (AggregateFunctionAnyData S)
       (merge (AggregateFunctionAnyData S)
          (addRows (AggregateFunctionAnyData S) (String_init h1) sxs)
          (addRows (AggregateFunctionAnyData S) (String_init h2) sys))
     = p_has (AggregateFunctionAnyData S)
       (addRows (AggregateFunctionAnyData S) (String_init h) sws) \<and>
      p_has (AggregateFunctionAnyData S)
       (merge (AggregateFunctionAnyData S)
          (addRows (AggregateFunctionAnyData S) (String_init h2) sys)
          (addRows (AggregateFunctionAnyData S) (String_init h1) sxs))
     = p_has (AggregateFunctionAnyData S)
       (addRows (AggregateFunctionAnyData S) (String_init h) sws) \<and>
      p_has (AggregateFunctionAnyLastData S)
       (merge (AggregateFunctionAnyLastData S)
          (addRows (AggregateFunctionAnyLastData S) (String_init h1) sxs)
          (addRows (AggregateFunctionAnyLastData S) (String_init h2) sys))
     = p_has (AggregateFunctionAnyLastData S)
       (addRows (AggregateFunctionAnyLastData S) (String_init h) sws) \<and>
      p_has (AggregateFunctionAnyLastData S)
       (merge (AggregateFunctionAnyLastData S)
          (addRows (AggregateFunctionAnyLastData S) (String_init h2) sys)
          (addRows (AggregateFunctionAnyLastData S) (String_init h1) sxs))
     = p_has (AggregateFunctionAnyLastData S)
       (addRows (AggregateFunctionAnyLastData S) (String_init h) sws) \<and>
      insertResult (AggregateFunctionAnyLastData S)
       (merge (AggregateFunctionAnyLastData S)
          (addRows (AggregateFunctionAnyLastData S) (String_init h1) sxs)
          (addRows (AggregateFunctionAnyLastData S) (String_init h2) sys)) sto
     = (if sys = [] then insertResult (AggregateFunctionAnyLastData S)
       (addRows (AggregateFunctionAnyLastData S) (String_init h1) sxs) sto
        else insertResult (AggregateFunctionAnyLastData S)
       (addRows (AggregateFunctionAnyLastData S) (String_init h2) sys) sto) \<and>
      insertResult (AggregateFunctionAnyLastData S)
       (merge (AggregateFunctionAnyLastData S)
          (addRows (AggregateFunctionAnyLastData S) (String_init h2) sys)
          (addRows (AggregateFunctionAnyLastData S) (String_init h1) sxs)) sto
     = (if sxs = [] then insertResult (AggregateFunctionAnyLastData S)
       (addRows (AggregateFunctionAnyLastData S) (String_init h2) sys) sto
        else insertResult (AggregateFunctionAnyLastData S)
       (addRows (AggregateFunctionAnyLastData S) (String_init h1) sxs) sto)"
      by (intro conjI; rule a b)
  qed
  from fixed generic string show ?thesis
    by (intro conjI)
qed

theorem C7_merge_of_parts_witness:
  "[3, 5, 2] \<in> shuffles [3, 2] [5 :: 64 word] \<and>
   insertResult (AggregateFunctionMinData SingleValueDataFixed_UInt64)
     (merge (AggregateFunctionMinData SingleValueDataFixed_UInt64)
        (addRows (AggregateFunctionMinData SingleValueDataFixed_UInt64) (Fixed_init 9) [3, 2])
        (addRows (AggregateFunctionMinData SingleValueDataFixed_UInt64) (Fixed_init 9) [5])) []
     = [2] \<and>
   insertResult (AggregateFunctionMaxData SingleValueDataFixed_UInt64)
     (merge (AggregateFunctionMaxData SingleValueDataFixed_UInt64)
        (addRows (AggregateFunctionMaxData SingleValueDataFixed_UInt64) (Fixed_init 9) [5])
        (addRows (AggregateFunctionMaxData SingleValueDataFixed_UInt64) (Fixed_init 9) [3, 2])) []
     = [5] \<and>
   [[98], [97]] \<in> shuffles [[98 :: byte]] [[97]] \<and>
   insertResult (AggregateFunctionMinData SingleValueDataString)
     (merge (AggregateFunctionMinData SingleValueDataString)
        (addRows (AggregateFunctionMinData SingleValueDataString)
           (String_init (replicate 48 0)) [[98]])
        (addRows (AggregateFunctionMinData SingleValueDataString)
           (String_init (replicate 48 0)) [[97]])) []
     = [[97]]"
proof -
  have f: "[3, 5, 2] \<in> shuffles [3, 2] [5 :: 64 word]"
    by simp
  have s: "[[98], [97]] \<in> shuffles [[98 :: byte]] [[97]]"
    by simp
  note t = C7_merge_of_parts
      [where enc = writeBinary_T_UInt64 and dec = readBinary_T_UInt64 and g = 9 and ?g1.0 = 9
         and ?g2.0 = 9 and xs = "[3, 2]" and ys = "[5]" and ws = "[3, 5, 2]" and to = "[]"
         and dflt = "0 :: 64 word" and ser = serializeBinary_UInt64
         and deser = deserializeBinary_UInt64 and gxs = "[]" and gys = "[]" and gws = "[]"
         and gto = "[]"
         and h = "replicate 48 0" and ?h1.0 = "replicate 48 0" and ?h2.0 = "replicate 48 0"
         and sxs = "[[98]]" and sys = "[[97]]" and sws = "[[98], [97]]" and sto = "[]",
       folded SingleValueDataFixed_UInt64_def]
  note w = Fixed_fold_laws [OF SingleValueDataFixed_UInt64_def, of 9 "[3, 5, 2]" "[]"]
    String_fold_laws [of "replicate 48 0" "[[98], [97]]" "[]"]
  show ?thesis
    using t f s w by (simp add: String_nonempty_def String_plain_def min_def max_def)
qed

end
